theory Spec2Isabelle
  imports Complex_Main "HOL-Library.Word" "HOL-Library.Monad_Syntax"
begin

unbundle bit_operations_syntax

section \<open>Data model of rigidbody.c\<close>

text \<open>
  The embedding follows \<^verbatim>\<open>source/blender/blenkernel/intern/rigidbody.c\<close>.

  \<^item> A field of type \<^verbatim>\<open>float\<close> is a \<open>real\<close>, the value of a finite float. The functions
    that compute masses, thresholds, percentages and frame times work in single
    precision (section \<open>Single-precision arithmetic\<close>), every operation rounded; in the
    functions that build shapes, bodies and constraints arithmetic is exact (what is
    stated about them does not depend on the values).
  \<^item> A pointer that the source compares with \<^verbatim>\<open>NULL\<close> is an \<open>option\<close>. Pointers to Blender
    structs that are shared between several owners (objects, mesh islands, shard
    constraints) are addresses into an explicit store; structs with a single owner are
    embedded in their owner.
  \<^item> A function that dereferences a pointer without a check returns an \<open>option\<close>:
    \<open>None\<close> is the fault of dereferencing \<^verbatim>\<open>NULL\<close> or of reading outside an array.
  \<^item> The dynamics engine (\<^verbatim>\<open>RB_*\<close> of RBI_api.h) is opaque: every call the source makes
    is recorded, in order, as an \<open>rb_call\<close>; handles that the engine returns are inputs
    of the model.
  \<^item> The bit values of the flag enumerations live in DNA headers that are not part of
    the sources. Every flag is one bit, so a flag word is modelled as the set of the
    flags that are set: \<^verbatim>\<open>flag & F\<close> is \<open>F \<in> flag\<close>, \<^verbatim>\<open>flag |= F\<close> is \<open>insert F flag\<close> and
    \<^verbatim>\<open>flag &= ~F\<close> is \<open>flag - {F}\<close>.
\<close>

type_synonym addr = nat
type_synonym handle = nat
type_synonym vec3 = "real \<times> real \<times> real"
type_synonym quat = "real \<times> real \<times> real \<times> real"

datatype rbo_flag =
    RBO_FLAG_KINEMATIC
  | RBO_FLAG_NEEDS_VALIDATE
  | RBO_FLAG_NEEDS_RESHAPE
  | RBO_FLAG_USE_DEACTIVATION
  | RBO_FLAG_START_DEACTIVATED
  | RBO_FLAG_DISABLED
  | RBO_FLAG_USE_MARGIN
  | RBO_FLAG_USE_DEFORM
  | RBO_FLAG_KINEMATIC_REBUILD
  | RBO_FLAG_USE_KINEMATIC_DEACTIVATION

datatype rbo_type = RBO_TYPE_ACTIVE | RBO_TYPE_PASSIVE

datatype rb_shape =
    RB_SHAPE_BOX
  | RB_SHAPE_SPHERE
  | RB_SHAPE_CAPSULE
  | RB_SHAPE_CYLINDER
  | RB_SHAPE_CONE
  | RB_SHAPE_CONVEXH
  | RB_SHAPE_TRIMESH

datatype mesh_source = RBO_MESH_BASE | RBO_MESH_DEFORM | RBO_MESH_FINAL

text \<open>\<^verbatim>\<open>RigidBodyOb\<close>: the settings of one body (of an object or of a shard). The field
  \<^verbatim>\<open>type\<close> is \<open>rbo_type\<close> here.\<close>

record RigidBodyOb =
  physics_object :: "handle option"
  physics_shape :: "handle option"
  rbo_type :: rbo_type
  shape :: rb_shape
  flag :: "rbo_flag set"
  col_groups :: "32 word"
  mesh_source :: mesh_source
  mass :: real
  friction :: real
  restitution :: real
  margin :: real
  lin_damping :: real
  ang_damping :: real
  lin_sleep_thresh :: real
  ang_sleep_thresh :: real
  pos :: vec3
  orn :: quat

datatype rbc_flag =
    RBC_FLAG_ENABLED
  | RBC_FLAG_NEEDS_VALIDATE
  | RBC_FLAG_DISABLE_COLLISIONS
  | RBC_FLAG_USE_BREAKING
  | RBC_FLAG_OVERRIDE_SOLVER_ITERATIONS
  | RBC_FLAG_USE_LIMIT_LIN_X
  | RBC_FLAG_USE_LIMIT_LIN_Y
  | RBC_FLAG_USE_LIMIT_LIN_Z
  | RBC_FLAG_USE_LIMIT_ANG_X
  | RBC_FLAG_USE_LIMIT_ANG_Y
  | RBC_FLAG_USE_LIMIT_ANG_Z
  | RBC_FLAG_USE_SPRING_X
  | RBC_FLAG_USE_SPRING_Y
  | RBC_FLAG_USE_SPRING_Z
  | RBC_FLAG_USE_MOTOR_LIN
  | RBC_FLAG_USE_MOTOR_ANG
  | RBC_FLAG_USE_KINEMATIC_DEACTIVATION

datatype rbc_type =
    RBC_TYPE_POINT
  | RBC_TYPE_FIXED
  | RBC_TYPE_HINGE
  | RBC_TYPE_SLIDER
  | RBC_TYPE_PISTON
  | RBC_TYPE_6DOF
  | RBC_TYPE_6DOF_SPRING
  | RBC_TYPE_MOTOR

text \<open>The fields that \<^verbatim>\<open>RigidBodyCon\<close> (constraint of an object) and
  \<^verbatim>\<open>RigidBodyShardCon\<close> (constraint between two shards) declare alike. The fields
  \<^verbatim>\<open>type\<close> and \<^verbatim>\<open>flag\<close> are \<open>con_type\<close> and \<open>con_flag\<close> here.\<close>

record ConSettings =
  physics_constraint :: "handle option"
  con_type :: rbc_type
  con_flag :: "rbc_flag set"
  breaking_threshold :: real
  num_solver_iterations :: int
  limit_lin_x_lower :: real
  limit_lin_x_upper :: real
  limit_lin_y_lower :: real
  limit_lin_y_upper :: real
  limit_lin_z_lower :: real
  limit_lin_z_upper :: real
  limit_ang_x_lower :: real
  limit_ang_x_upper :: real
  limit_ang_y_lower :: real
  limit_ang_y_upper :: real
  limit_ang_z_lower :: real
  limit_ang_z_upper :: real
  spring_stiffness_x :: real
  spring_stiffness_y :: real
  spring_stiffness_z :: real
  spring_damping_x :: real
  spring_damping_y :: real
  spring_damping_z :: real
  motor_lin_max_impulse :: real
  motor_ang_max_impulse :: real
  motor_lin_target_velocity :: real
  motor_ang_target_velocity :: real

record RigidBodyCon = ConSettings +
  ob1 :: "addr option"
  ob2 :: "addr option"

record RigidBodyShardCon = ConSettings +
  mi1 :: "addr option"
  mi2 :: "addr option"
  start_dist :: real
  start_angle :: real

text \<open>\<^verbatim>\<open>MFace\<close> and \<^verbatim>\<open>DerivedMesh\<close>: the vertex coordinates and the tessellated faces
  are all the source reads of a mesh.\<close>

record MFace =
  v1 :: nat
  v2 :: nat
  v3 :: nat
  v4 :: nat

record DerivedMesh =
  verts :: "vec3 list"
  tessfaces :: "MFace list"

text \<open>\<^verbatim>\<open>MeshIsland\<close> (a shard). \<^verbatim>\<open>participating_constraints\<close> is an array of
  \<^verbatim>\<open>participating_constraint_count\<close> pointers to shard constraints; the model keeps the
  array as a list and the count is its length.\<close>

record MeshIsland =
  rigidbody :: "RigidBodyOb option"
  physics_mesh :: "DerivedMesh option"
  participating_constraints :: "addr option list"
  thresh_weight :: real
  linear_index :: nat
  start_frame :: int
  frame_count :: int
  centroid :: vec3

datatype modifier_mode = eModifierMode_Realtime | eModifierMode_Render | eModifierMode_Editmode

record FractureModifierData =
  mode :: "modifier_mode set"
  refresh :: bool
  meshIslands :: "addr list"
  meshConstraints :: "addr list"
  use_constraints :: bool
  use_mass_dependent_thresholds :: bool
  fmd_breaking_threshold :: real
  breaking_percentage :: int
  breaking_percentage_weighted :: bool

datatype ModifierData = Fracture FractureModifierData | OtherModifier

datatype ob_type = OB_MESH | OB_CURVE | OB_SURF | OB_FONT | OB_EMPTY

datatype protect_flag =
    OB_LOCK_LOCX | OB_LOCK_LOCY | OB_LOCK_LOCZ
  | OB_LOCK_ROTX | OB_LOCK_ROTY | OB_LOCK_ROTZ

text \<open>\<^verbatim>\<open>Object\<close>. \<open>ob_loc\<close> and \<open>ob_rot\<close> are what \<^verbatim>\<open>mat4_to_loc_quat\<close> reads from
  \<^verbatim>\<open>obmat\<close>; \<open>boundbox\<close> is the result of \<^verbatim>\<open>BKE_object_boundbox_get\<close>, as the three
  extents the source takes from it; \<open>data\<close> is the mesh of a mesh object and
  \<open>dimensions\<close> the result of \<^verbatim>\<open>BKE_object_dimensions_get\<close>.\<close>

record Object =
  rigidbody_object :: "RigidBodyOb option"
  rigidbody_constraint :: "RigidBodyCon option"
  modifiers :: "ModifierData list"
  ob_type :: ob_type
  protectflag :: "protect_flag set"
  ob_loc :: vec3
  ob_rot :: quat
  boundbox :: "vec3 option"
  data :: "DerivedMesh option"
  derivedDeform :: "DerivedMesh option"
  derivedFinal :: "DerivedMesh option"
  dimensions :: vec3

text \<open>The store: the objects, mesh islands and shard constraints that pointers of the
  source refer to. A pointer is \<open>None\<close> (\<^verbatim>\<open>NULL\<close>) or the address of a struct of its
  type: the model has no dangling pointers.\<close>

record store =
  object_at :: "addr \<Rightarrow> Object"
  island_at :: "addr \<Rightarrow> MeshIsland"
  shardcon_at :: "addr \<Rightarrow> RigidBodyShardCon"

datatype ptcache_flag = PTCACHE_BAKED | PTCACHE_OUTDATED | PTCACHE_REDO_NEEDED

record PointCache =
  pc_flag :: "ptcache_flag set"
  startframe :: int
  endframe :: int
  last_exact :: int

datatype rbw_flag = RBW_FLAG_MUTED | RBW_FLAG_USE_SPLIT_IMPULSE

text \<open>\<^verbatim>\<open>RigidBodyWorld\<close>. \<open>group\<close> and \<open>constraints\<close> are the \<^verbatim>\<open>Group\<close> pointers, as the
  list of the \<^verbatim>\<open>ob\<close> pointers of their \<^verbatim>\<open>gobject\<close> lists; \<open>objects\<close> and
  \<open>cache_offset_map\<close> are the arrays of the index map.\<close>

record RigidBodyWorld =
  physics_world :: "handle option"
  group :: "addr option list option"
  constraints :: "addr option list option"
  pointcache :: PointCache
  rbw_flag :: "rbw_flag set"
  objects :: "addr option list option"
  cache_index_map_set :: bool
  cache_offset_map :: "nat list option"
  numbodies :: int
  ltime :: real
  time_scale :: real
  steps_per_second :: int
  object_changed :: bool
  refresh_modifiers :: bool
  rebuild_comp_con :: bool

section \<open>The engine interface\<close>

text \<open>The calls of RBI_api.h that the modelled functions make, with their arguments, in
  three groups: calls on a body, calls on a constraint, and calls on the world or on a
  shape. A handle that a constructor returns is the last argument of its call.\<close>

datatype rb_axis =
    RB_LIMIT_LIN_X | RB_LIMIT_LIN_Y | RB_LIMIT_LIN_Z
  | RB_LIMIT_ANG_X | RB_LIMIT_ANG_Y | RB_LIMIT_ANG_Z

datatype body_call =
    RB_body_delete handle
  | RB_body_new "handle option" vec3 quat handle
  | RB_body_set_friction handle real
  | RB_body_set_restitution handle real
  | RB_body_set_damping handle real real
  | RB_body_set_sleep_thresh handle real real
  | RB_body_set_activation_state handle bool
  | RB_body_deactivate handle
  | RB_body_set_linear_factor handle bool bool bool
  | RB_body_set_angular_factor handle bool bool bool
  | RB_body_set_mass handle real
  | RB_body_set_kinematic_state handle bool

text \<open>\<open>RB_constraint_new\<close> stands for the eight constructors
  \<^verbatim>\<open>RB_constraint_new_point\<close>, ..., \<^verbatim>\<open>RB_constraint_new_motor\<close>: its first argument says
  which. The threshold \<open>None\<close> of \<open>RB_constraint_set_breaking_threshold\<close> is
  \<^verbatim>\<open>FLT_MAX\<close>.\<close>

datatype constraint_call =
    RB_constraint_delete handle
  | RB_constraint_new rbc_type vec3 quat handle handle handle
  | RB_constraint_set_limits_hinge handle real real
  | RB_constraint_set_limits_slider handle real real
  | RB_constraint_set_limits_piston handle real real real real
  | RB_constraint_set_limits_6dof handle rb_axis real real
  | RB_constraint_set_spring_6dof_spring handle rb_axis bool
  | RB_constraint_set_stiffness_6dof_spring handle rb_axis real
  | RB_constraint_set_damping_6dof_spring handle rb_axis real
  | RB_constraint_set_equilibrium_6dof_spring handle
  | RB_constraint_set_enable_motor handle bool bool
  | RB_constraint_set_max_impulse_motor handle real real
  | RB_constraint_set_target_velocity_motor handle real real
  | RB_constraint_set_enabled handle bool
  | RB_constraint_set_breaking_threshold handle "real option"
  | RB_constraint_set_solver_iterations handle int

text \<open>The shape constructors, as requests: whether the engine returns a shape for a
  request (and which) is an input of the model.\<close>

datatype shape_req =
    RB_shape_new_box real real real
  | RB_shape_new_sphere real
  | RB_shape_new_capsule real real
  | RB_shape_new_cylinder real real
  | RB_shape_new_cone real real
  | RB_shape_new_convex_hull "vec3 list" real
  | RB_shape_new_trimesh "vec3 list" "(nat \<times> nat \<times> nat) list"
  | RB_shape_new_gimpact_mesh "vec3 list" "(nat \<times> nat \<times> nat) list"

datatype rb_call =
    RB_dworld_remove_body "handle option" handle
  | RB_dworld_add_body handle handle "32 word"
  | RB_dworld_remove_constraint "handle option" "handle option"
  | RB_dworld_add_constraint handle handle bool
  | RB_dworld_step_simulation "handle option" real real
  | Body body_call
  | Constraint constraint_call
  | RB_shape_new shape_req "handle option"
  | RB_shape_delete handle
  | RB_shape_set_margin handle real

section \<open>Collision groups and the collision filter\<close>

text \<open>\<^verbatim>\<open>colgroup_check\<close>: the loop over the bits 0 to 19 of two \<^verbatim>\<open>int\<close> masks. The
  comparison \<^verbatim>\<open>v1 > 0\<close> is the signed one.\<close>

function colgroup_loop :: "nat \<Rightarrow> 32 word \<Rightarrow> 32 word \<Rightarrow> bool" where
  "colgroup_loop i group1 group2 =
     (if i < 20 then
        (let v1 = group1 AND push_bit i 1;
             v2 = group2 AND push_bit i 1
         in if 0 <s v1 \<and> v1 = v2 then True
            else colgroup_loop (Suc i) group1 group2)
      else False)"
  by pat_completeness auto
termination
  by (relation "measure (\<lambda>(i, g1, g2). 20 - i)") auto

declare colgroup_loop.simps [simp del]

definition colgroup_check :: "32 word \<Rightarrow> 32 word \<Rightarrow> bool" where
  "colgroup_check group1 group2 = colgroup_loop 0 group1 group2"


text \<open>\<^verbatim>\<open>modifiers_findByType(ob, eModifierType_Fracture)\<close>: the first fracture modifier
  of the modifier stack, or \<^verbatim>\<open>NULL\<close>.\<close>

fun modifiers_findByType_Fracture :: "ModifierData list \<Rightarrow> FractureModifierData option" where
  "modifiers_findByType_Fracture [] = None"
| "modifiers_findByType_Fracture (Fracture fmd # mds) = Some fmd"
| "modifiers_findByType_Fracture (OtherModifier # mds) = modifiers_findByType_Fracture mds"

text \<open>Reads through pointers that the filter callback does not check:
  \<^verbatim>\<open>ob->rigidbody_object\<close> and \<^verbatim>\<open>mi->rigidbody\<close>.\<close>

definition ob_rigidbody :: "store \<Rightarrow> addr option \<Rightarrow> RigidBodyOb option" where
  "ob_rigidbody s ob = (case ob of None \<Rightarrow> None | Some a \<Rightarrow> rigidbody_object (object_at s a))"

definition ob_col_groups :: "store \<Rightarrow> addr option \<Rightarrow> 32 word option" where
  "ob_col_groups s ob = map_option col_groups (ob_rigidbody s ob)"

definition ob_has_flag :: "store \<Rightarrow> addr option \<Rightarrow> rbo_flag \<Rightarrow> bool option" where
  "ob_has_flag s ob f = map_option (\<lambda>rbo. f \<in> flag rbo) (ob_rigidbody s ob)"

definition mi_has_flag :: "store \<Rightarrow> addr \<Rightarrow> rbo_flag \<Rightarrow> bool option" where
  "mi_has_flag s mi f = map_option (\<lambda>rbo. f \<in> flag rbo) (rigidbody (island_at s mi))"

text \<open>The operators \<^verbatim>\<open>&&\<close> and \<^verbatim>\<open>||\<close> of C on operands that may fault: the right operand
  is read only when the left one does not decide.\<close>

definition and_then :: "bool option \<Rightarrow> bool option \<Rightarrow> bool option" where
  "and_then a b = (case a of None \<Rightarrow> None | Some x \<Rightarrow> if x then b else Some False)"

definition or_else :: "bool option \<Rightarrow> bool option \<Rightarrow> bool option" where
  "or_else a b = (case a of None \<Rightarrow> None | Some x \<Rightarrow> if x then Some True else b)"

definition groups_collide :: "store \<Rightarrow> addr option \<Rightarrow> addr option \<Rightarrow> bool option" where
  "groups_collide s owner1 owner2 =
     (case ob_col_groups s owner1 of None \<Rightarrow> None
      | Some g1 \<Rightarrow> (case ob_col_groups s owner2 of None \<Rightarrow> None
          | Some g2 \<Rightarrow> Some (colgroup_check g1 g2)))"

text \<open>The owner of a body of a candidate pair: for a shard, the object at
  \<^verbatim>\<open>rbw->objects[rbw->cache_offset_map[mi->linear_index]]\<close> together with that index;
  otherwise the object the engine passes.\<close>

definition filter_owner ::
    "store \<Rightarrow> RigidBodyWorld \<Rightarrow> addr option \<Rightarrow> addr option \<Rightarrow> (nat option \<times> addr option) option" where
  "filter_owner s rbw island blenderOb =
     (case island of
        None \<Rightarrow> Some (None, blenderOb)
      | Some mi \<Rightarrow>
          (case cache_offset_map rbw of None \<Rightarrow> None
           | Some offs \<Rightarrow>
               if linear_index (island_at s mi) < length offs then
                 (let ob_index = offs ! linear_index (island_at s mi) in
                  case objects rbw of None \<Rightarrow> None
                  | Some obs \<Rightarrow>
                      if ob_index < length obs then Some (Some ob_index, obs ! ob_index)
                      else None)
               else None))"

text \<open>The three assignments that make a kinematic body dynamic:
  \<^verbatim>\<open>flag &= ~RBO_FLAG_KINEMATIC; flag |= RBO_FLAG_KINEMATIC_REBUILD;
  flag |= RBO_FLAG_NEEDS_VALIDATE\<close>.\<close>

definition kinematic_wake :: "rbo_flag set \<Rightarrow> rbo_flag set" where
  "kinematic_wake f =
     insert RBO_FLAG_NEEDS_VALIDATE (insert RBO_FLAG_KINEMATIC_REBUILD (f - {RBO_FLAG_KINEMATIC}))"

text \<open>The loop over \<^verbatim>\<open>fmd->meshIslands\<close> in the filter callback; \<open>self\<close> is the shard of
  the pair (\<^verbatim>\<open>mi1\<close> or \<^verbatim>\<open>mi2\<close>).\<close>

fun filter_islands :: "addr option \<Rightarrow> addr list \<Rightarrow> store \<Rightarrow> store option" where
  "filter_islands self [] s = Some s"
| "filter_islands self (mi # mis) s =
     (case rigidbody (island_at s mi) of
        None \<Rightarrow> None
      | Some rbo \<Rightarrow>
          filter_islands self mis
            (if RBO_FLAG_KINEMATIC \<in> flag rbo \<and> self = Some mi then
               s\<lparr>island_at := (island_at s)
                    (mi := (island_at s mi)\<lparr>rigidbody :=
                       Some (rbo\<lparr>flag := kinematic_wake (flag rbo)\<rparr>)\<rparr>)\<rparr>
             else s))"

text \<open>The loop over \<^verbatim>\<open>fmd->meshConstraints\<close> in the filter callback.\<close>

fun filter_constraints :: "handle option \<Rightarrow> addr list \<Rightarrow> store \<Rightarrow> store \<times> rb_call list" where
  "filter_constraints w [] s = (s, [])"
| "filter_constraints w (c # cs) s =
     (let con = shardcon_at s c;
          s' = s\<lparr>shardcon_at := (shardcon_at s)
                 (c := con\<lparr>con_flag :=
                    insert RBC_FLAG_USE_KINEMATIC_DEACTIVATION
                      (insert RBC_FLAG_NEEDS_VALIDATE (con_flag con))\<rparr>)\<rparr>;
          (s'', calls) = filter_constraints w cs s'
      in (s'', RB_dworld_remove_constraint w (physics_constraint con) # calls))"

text \<open>The block of the filter callback for one side of the pair: \<open>oba\<close> is the owner
  of that side, \<open>obb\<close> the owner of the other side and \<open>self\<close> the shard of that
  side.\<close>

definition filter_wake ::
    "handle option \<Rightarrow> addr option \<Rightarrow> addr option \<Rightarrow> addr option \<Rightarrow> store
      \<Rightarrow> (store \<times> rb_call list) option" where
  "filter_wake w oba obb self s =
     (case oba of
        None \<Rightarrow> None
      | Some a \<Rightarrow>
          (case rigidbody_object (object_at s a) of
             None \<Rightarrow> None
           | Some rbo \<Rightarrow>
               if RBO_FLAG_USE_KINEMATIC_DEACTIVATION \<in> flag rbo then
                 (case modifiers_findByType_Fracture (modifiers (object_at s a)) of
                    Some fmd \<Rightarrow>
                      (case ob_has_flag s obb RBO_FLAG_USE_KINEMATIC_DEACTIVATION of
                         None \<Rightarrow> None
                       | Some valid \<Rightarrow>
                           (let valid2 = (use_constraints fmd = False) in
                            if valid \<or> valid2 then
                              (case filter_islands self (meshIslands fmd) s of
                                 None \<Rightarrow> None
                               | Some s1 \<Rightarrow> Some (filter_constraints w (meshConstraints fmd) s1))
                            else Some (s, [])))
                  | None \<Rightarrow>
                      Some (s\<lparr>object_at := (object_at s)
                                (a := (object_at s a)\<lparr>rigidbody_object :=
                                   Some (rbo\<lparr>flag := kinematic_wake (flag rbo)\<rparr>)\<rparr>)\<rparr>, []))
               else Some (s, [])))"

text \<open>\<^verbatim>\<open>validOb\<close> of the filter callback, in its four cases.\<close>

definition filter_validOb ::
    "store \<Rightarrow> addr option \<Rightarrow> addr option \<Rightarrow> nat option \<Rightarrow> nat option \<Rightarrow> addr option \<Rightarrow> addr option
      \<Rightarrow> bool option" where
  "filter_validOb s island1 island2 ob_index1 ob_index2 owner1 owner2 =
     (case (island1, island2) of
        (Some m1, Some m2) \<Rightarrow>
          and_then (Some (ob_index1 \<noteq> ob_index2))
            (and_then (groups_collide s owner1 owner2)
               (or_else (mi_has_flag s m1 RBO_FLAG_KINEMATIC) (mi_has_flag s m2 RBO_FLAG_KINEMATIC)))
      | (None, Some m2) \<Rightarrow>
          and_then (groups_collide s owner1 owner2)
            (or_else (ob_has_flag s owner1 RBO_FLAG_KINEMATIC) (mi_has_flag s m2 RBO_FLAG_KINEMATIC))
      | (Some m1, None) \<Rightarrow>
          and_then (groups_collide s owner1 owner2)
            (or_else (mi_has_flag s m1 RBO_FLAG_KINEMATIC) (ob_has_flag s owner2 RBO_FLAG_KINEMATIC))
      | (None, None) \<Rightarrow>
          and_then (groups_collide s owner1 owner2)
            (or_else (ob_has_flag s owner1 RBO_FLAG_KINEMATIC) (ob_has_flag s owner2 RBO_FLAG_KINEMATIC)))"

text \<open>\<^verbatim>\<open>filterCallback(world, island1, island2, blenderOb1, blenderOb2)\<close>: the value it
  returns to the engine, the store after its writes and its engine calls.\<close>

definition filterCallback ::
    "store \<Rightarrow> RigidBodyWorld option \<Rightarrow> addr option \<Rightarrow> addr option \<Rightarrow> addr option \<Rightarrow> addr option
      \<Rightarrow> (int \<times> store \<times> rb_call list) option" where
  "filterCallback s world island1 island2 blenderOb1 blenderOb2 =
     (case world of
        None \<Rightarrow> Some (1, s, [])
      | Some rbw \<Rightarrow>
          (case filter_owner s rbw island1 blenderOb1 of None \<Rightarrow> None
           | Some (ob_index1, owner1) \<Rightarrow>
          (case filter_owner s rbw island2 blenderOb2 of None \<Rightarrow> None
           | Some (ob_index2, owner2) \<Rightarrow>
          (case filter_validOb s island1 island2 ob_index1 ob_index2 owner1 owner2 of None \<Rightarrow> None
           | Some validOb \<Rightarrow>
          (case (if validOb then
                   (case filter_wake (physics_world rbw) owner1 owner2 island1 s of None \<Rightarrow> None
                    | Some (s1, calls1) \<Rightarrow>
                        (case filter_wake (physics_world rbw) owner2 owner1 island2 s1 of None \<Rightarrow> None
                         | Some (s2, calls2) \<Rightarrow> Some (s2, calls1 @ calls2)))
                 else Some (s, [])) of None \<Rightarrow> None
           | Some (s', calls) \<Rightarrow>
          (case groups_collide s' owner1 owner2 of None \<Rightarrow> None
           | Some r \<Rightarrow> Some (if r then 1 else 0, s', calls)))))))"

section \<open>Notions used in the statements about the collision filter\<close>

text \<open>The store after the body of shard \<open>mi\<close> has been made dynamic, and the store
  after the constraint \<open>c\<close> has been flagged for a rebuild: the two writes of the loops
  above, named for the statements about them.\<close>

definition wake_island :: "addr \<Rightarrow> store \<Rightarrow> store" where
  "wake_island mi s =
     (case rigidbody (island_at s mi) of
        None \<Rightarrow> s
      | Some rbo \<Rightarrow>
          s\<lparr>island_at := (island_at s)
               (mi := (island_at s mi)\<lparr>rigidbody :=
                  Some (rbo\<lparr>flag := kinematic_wake (flag rbo)\<rparr>)\<rparr>)\<rparr>)"

definition flag_con :: "addr \<Rightarrow> store \<Rightarrow> store" where
  "flag_con c s =
     s\<lparr>shardcon_at := (shardcon_at s)
          (c := (shardcon_at s c)\<lparr>con_flag :=
             insert RBC_FLAG_USE_KINEMATIC_DEACTIVATION
               (insert RBC_FLAG_NEEDS_VALIDATE (con_flag (shardcon_at s c)))\<rparr>)\<rparr>"

text \<open>The conditions under which the callback wakes the side owned by object \<open>a\<close>:
  the owner asks for kinematic deactivation and has a fracture modifier \<open>fmd\<close>, and
  either the owner of the other side asks for it too (\<^verbatim>\<open>valid\<close>) or the modifier does not
  use constraints (\<^verbatim>\<open>valid2\<close>).\<close>

definition wake_enabled :: "store \<Rightarrow> addr \<Rightarrow> addr option \<Rightarrow> FractureModifierData \<Rightarrow> bool" where
  "wake_enabled s a other fmd \<longleftrightarrow>
     ob_has_flag s (Some a) RBO_FLAG_USE_KINEMATIC_DEACTIVATION = Some True \<and>
     modifiers_findByType_Fracture (modifiers (object_at s a)) = Some fmd \<and>
     (ob_has_flag s other RBO_FLAG_USE_KINEMATIC_DEACTIVATION = Some True \<or> \<not> use_constraints fmd)"

text \<open>What the callback has done to that side: every constraint of the modifier is
  flagged for validation and for a kinematic-deactivation rebuild, and the shard of the
  pair itself, when it is a kinematic shard of the modifier, has been made dynamic.\<close>

definition woken :: "store \<Rightarrow> store \<Rightarrow> addr option \<Rightarrow> FractureModifierData \<Rightarrow> bool" where
  "woken s s' self fmd \<longleftrightarrow>
     (\<forall>c \<in> set (meshConstraints fmd).
        RBC_FLAG_NEEDS_VALIDATE \<in> con_flag (shardcon_at s' c) \<and>
        RBC_FLAG_USE_KINEMATIC_DEACTIVATION \<in> con_flag (shardcon_at s' c)) \<and>
     (\<forall>m r0. self = Some m \<and> m \<in> set (meshIslands fmd) \<and>
        rigidbody (island_at s m) = Some r0 \<and> RBO_FLAG_KINEMATIC \<in> flag r0 \<longrightarrow>
        rigidbody (island_at s' m) = Some (r0\<lparr>flag := kinematic_wake (flag r0)\<rparr>))"

section \<open>Macros and the bounding box of a mesh\<close>

text \<open>Macros of headers that are not part of the sources, taken as parameters of the
  model: \<^verbatim>\<open>INIT_MINMAX\<close> (the bounds that a min/max scan starts from), \<^verbatim>\<open>RBO_GET_MASS\<close>
  and \<^verbatim>\<open>RBO_GET_MARGIN\<close> (the mass and the margin that the engine is given for a
  body).\<close>

record macros =
  INIT_MINMAX :: "vec3 \<times> vec3"
  RBO_GET_MASS :: "RigidBodyOb \<Rightarrow> real"
  RBO_GET_MARGIN :: "RigidBodyOb \<Rightarrow> real"

text \<open>\<^verbatim>\<open>minmax_v3v3_v3(min, max, co)\<close> of BLI_math.\<close>

fun minmax_v3v3_v3 :: "vec3 \<times> vec3 \<Rightarrow> vec3 \<Rightarrow> vec3 \<times> vec3" where
  "minmax_v3v3_v3 ((mnx, mny, mnz), (mxx, mxy, mxz)) (x, y, z) =
     ((if x < mnx then x else mnx, if y < mny then y else mny, if z < mnz then z else mnz),
      (if mxx < x then x else mxx, if mxy < y then y else mxy, if mxz < z then z else mxz))"

text \<open>\<^verbatim>\<open>DM_mesh_minmax\<close>: the scan over the vertices, and whether there is a vertex.\<close>

definition DM_mesh_minmax :: "DerivedMesh \<Rightarrow> vec3 \<times> vec3 \<Rightarrow> (vec3 \<times> vec3) \<times> bool" where
  "DM_mesh_minmax dm r = (foldl minmax_v3v3_v3 r (verts dm), verts dm \<noteq> [])"

text \<open>The half extents that \<^verbatim>\<open>DM_mesh_boundbox\<close> writes to \<^verbatim>\<open>r_size\<close> (its \<^verbatim>\<open>r_loc\<close> is
  not read by any caller).\<close>

definition DM_mesh_boundbox :: "macros \<Rightarrow> DerivedMesh \<Rightarrow> vec3" where
  "DM_mesh_boundbox mac bm =
     (let (r, found) = DM_mesh_minmax bm (INIT_MINMAX mac);
          ((mnx, mny, mnz), (mxx, mxy, mxz)) =
             (if \<not> found then ((-1, -1, -1), (1, 1, 1)) else r)
      in ((mxx - mnx) / 2, (mxy - mny) / 2, (mxz - mnz) / 2))"

definition max_fff :: "real \<Rightarrow> real \<Rightarrow> real \<Rightarrow> real" where
  "max_fff a b c = max (max a b) c"

section \<open>Cache reset and removal of a constraint\<close>

text \<open>\<^verbatim>\<open>Scene\<close>: the pointer to its rigid body world is all the modelled functions read.\<close>

record Scene =
  rigidbody_world :: "RigidBodyWorld option"

text \<open>\<^verbatim>\<open>restoreKinematic(rbw)\<close>: the loop over the shards of one fractured object, the loop
  over the objects of \<^verbatim>\<open>rbw->group\<close>, and the function. It reads \<^verbatim>\<open>rbw->group->gobject\<close>
  without a check of \<^verbatim>\<open>rbw\<close> or of \<^verbatim>\<open>rbw->group\<close>.\<close>

fun restore_islands :: "addr list \<Rightarrow> store \<Rightarrow> store" where
  "restore_islands [] s = s"
| "restore_islands (mi # mis) s =
     restore_islands mis
       (case rigidbody (island_at s mi) of
          None \<Rightarrow> s
        | Some rbo \<Rightarrow>
            s\<lparr>island_at := (island_at s)
                 (mi := (island_at s mi)\<lparr>rigidbody :=
                    Some (rbo\<lparr>flag := insert RBO_FLAG_NEEDS_VALIDATE
                                  (insert RBO_FLAG_KINEMATIC (flag rbo))\<rparr>)\<rparr>)\<rparr>)"

fun restoreKinematic_loop :: "addr option list \<Rightarrow> store \<Rightarrow> store" where
  "restoreKinematic_loop [] s = s"
| "restoreKinematic_loop (go_ob # gos) s =
     restoreKinematic_loop gos
       (case go_ob of
          None \<Rightarrow> s
        | Some a \<Rightarrow>
            (case rigidbody_object (object_at s a) of
               None \<Rightarrow> s
             | Some rbo \<Rightarrow>
                 if RBO_FLAG_KINEMATIC \<in> flag rbo then
                   (case modifiers_findByType_Fracture (modifiers (object_at s a)) of
                      None \<Rightarrow> s
                    | Some fmd \<Rightarrow> restore_islands (meshIslands fmd) s)
                 else s))"

definition restoreKinematic :: "RigidBodyWorld option \<Rightarrow> store \<Rightarrow> store option" where
  "restoreKinematic rbw s =
     (case rbw of
        None \<Rightarrow> None
      | Some w \<Rightarrow>
          (case group w of
             None \<Rightarrow> None
           | Some gobject \<Rightarrow> Some (restoreKinematic_loop gobject s)))"

text \<open>\<^verbatim>\<open>BKE_rigidbody_cache_reset(rbw)\<close>: the guarded write of the cache flag, then the
  call of \<^verbatim>\<open>restoreKinematic\<close>.\<close>

definition BKE_rigidbody_cache_reset ::
    "RigidBodyWorld option \<Rightarrow> store \<Rightarrow> (RigidBodyWorld option \<times> store) option" where
  "BKE_rigidbody_cache_reset rbw s =
     (let rbw' =
            (case rbw of
               None \<Rightarrow> None
             | Some w \<Rightarrow>
                 Some (w\<lparr>pointcache := (pointcache w)\<lparr>pc_flag :=
                          insert PTCACHE_OUTDATED (pc_flag (pointcache w))\<rparr>\<rparr>))
      in map_option (Pair rbw') (restoreKinematic rbw' s))"

text \<open>\<^verbatim>\<open>BKE_rigidbody_free_constraint(ob)\<close>: the object after the call and the engine
  calls.\<close>

definition BKE_rigidbody_free_constraint :: "Object option \<Rightarrow> Object option \<times> rb_call list" where
  "BKE_rigidbody_free_constraint ob =
     (case ob of
        None \<Rightarrow> (None, [])
      | Some ob' \<Rightarrow>
          (case rigidbody_constraint ob' of
             None \<Rightarrow> (ob, [])
           | Some rbc \<Rightarrow>
               (Some (ob'\<lparr>rigidbody_constraint := None\<rparr>),
                case physics_constraint rbc of
                  None \<Rightarrow> []
                | Some h \<Rightarrow> [Constraint (RB_constraint_delete h)])))"

text \<open>\<^verbatim>\<open>BKE_rigidbody_remove_constraint(scene, ob)\<close>. It reads \<^verbatim>\<open>scene->rigidbody_world\<close> and
  \<^verbatim>\<open>ob->rigidbody_constraint\<close> without a check, and \<^verbatim>\<open>rbc->physics_constraint\<close> when the
  world and its engine world exist.\<close>

definition BKE_rigidbody_remove_constraint ::
    "Scene option \<Rightarrow> Object option \<Rightarrow> store
      \<Rightarrow> (Scene \<times> Object option \<times> store \<times> rb_call list) option" where
  "BKE_rigidbody_remove_constraint scene ob s =
     (case scene of None \<Rightarrow> None
      | Some sc \<Rightarrow>
     (case ob of None \<Rightarrow> None
      | Some ob' \<Rightarrow>
     (let rbw = rigidbody_world sc; rbc = rigidbody_constraint ob' in
      case (case rbw of
              None \<Rightarrow> Some []
            | Some w \<Rightarrow>
                (case physics_world w of
                   None \<Rightarrow> Some []
                 | Some pw \<Rightarrow>
                     (case rbc of
                        None \<Rightarrow> None
                      | Some c \<Rightarrow>
                          (case physics_constraint c of
                             None \<Rightarrow> Some []
                           | Some h \<Rightarrow>
                               Some [RB_dworld_remove_constraint (Some pw) (Some h)])))) of
        None \<Rightarrow> None
      | Some calls1 \<Rightarrow>
          (let (ob'', calls2) = BKE_rigidbody_free_constraint ob in
           case BKE_rigidbody_cache_reset rbw s of
             None \<Rightarrow> None
           | Some (rbw', s') \<Rightarrow>
               Some (sc\<lparr>rigidbody_world := rbw'\<rparr>, ob'', s', calls1 @ calls2)))))"

section \<open>Collision shapes\<close>

text \<open>What the engine answers: the shape it returns for a request (\<open>None\<close> when it
  returns \<^verbatim>\<open>NULL\<close>), the value it writes to \<^verbatim>\<open>can_embed\<close> for a convex hull, and the
  handles that \<^verbatim>\<open>RB_body_new\<close> and the \<^verbatim>\<open>RB_constraint_new_*\<close> constructors return.\<close>

record engine =
  shape_new :: "shape_req \<Rightarrow> handle option"
  hull_can_embed :: "vec3 list \<Rightarrow> real \<Rightarrow> bool"
  body_new :: handle
  constraint_new :: handle

text \<open>\<^verbatim>\<open>rigidbody_get_mesh(ob)\<close>; \<^verbatim>\<open>CDDM_from_mesh(ob->data)\<close> is the mesh \<open>data\<close>.\<close>

definition rigidbody_get_mesh :: "Object \<Rightarrow> RigidBodyOb \<Rightarrow> DerivedMesh option" where
  "rigidbody_get_mesh ob rbo =
     (if mesh_source rbo = RBO_MESH_DEFORM then derivedDeform ob
      else if mesh_source rbo = RBO_MESH_FINAL then derivedFinal ob
      else data ob)"

text \<open>The triangles that the trimesh builders add: the vertices 1, 2, 3 of every face,
  and the vertices 1, 3, 4 of a face with a fourth vertex.\<close>

fun trimesh_triangles :: "MFace list \<Rightarrow> (nat \<times> nat \<times> nat) list" where
  "trimesh_triangles [] = []"
| "trimesh_triangles (mface # mfaces) =
     (v1 mface, v2 mface, v3 mface) #
     (if v4 mface \<noteq> 0 then [(v1 mface, v3 mface, v4 mface)] else []) @
     trimesh_triangles mfaces"

text \<open>The engine request of the two trimesh builders for a mesh with data:
  \<^verbatim>\<open>RB_shape_new_trimesh\<close> for a passive body, \<^verbatim>\<open>RB_shape_new_gimpact_mesh\<close> otherwise;
  no request when the mesh has no vertex or no face.\<close>

definition trimesh_request :: "DerivedMesh \<Rightarrow> rbo_type \<Rightarrow> shape_req option" where
  "trimesh_request dm ty =
     (if verts dm = [] \<or> tessfaces dm = [] then None
      else if ty = RBO_TYPE_PASSIVE
        then Some (RB_shape_new_trimesh (verts dm) (trimesh_triangles (tessfaces dm)))
        else Some (RB_shape_new_gimpact_mesh (verts dm) (trimesh_triangles (tessfaces dm))))"

text \<open>\<^verbatim>\<open>rigidbody_get_shape_trimesh_from_mesh(ob)\<close>.\<close>

definition rigidbody_get_shape_trimesh_from_mesh :: "Object \<Rightarrow> RigidBodyOb \<Rightarrow> shape_req option" where
  "rigidbody_get_shape_trimesh_from_mesh ob rbo =
     (if ob_type ob = OB_MESH then
        (case rigidbody_get_mesh ob rbo of
           None \<Rightarrow> None
         | Some dm \<Rightarrow> trimesh_request dm (rbo_type rbo))
      else None)"

text \<open>The engine request of the two convex hull builders: none for a mesh without
  vertices.\<close>

definition convexhull_request :: "DerivedMesh \<Rightarrow> real \<Rightarrow> shape_req option" where
  "convexhull_request me hull_margin =
     (if verts me \<noteq> [] then Some (RB_shape_new_convex_hull (verts me) hull_margin) else None)"

text \<open>The cases box, sphere, capsule, cylinder and cone of the \<^verbatim>\<open>switch\<close>, which the two
  shape functions have alike.\<close>

definition quadric_request :: "rb_shape \<Rightarrow> vec3 \<Rightarrow> real \<Rightarrow> real \<Rightarrow> shape_req" where
  "quadric_request sh sz radius height =
     (case sh of
        RB_SHAPE_SPHERE \<Rightarrow> RB_shape_new_sphere radius
      | RB_SHAPE_CAPSULE \<Rightarrow>
          (let capsule_height = (height - radius) * 2
           in RB_shape_new_capsule radius (if capsule_height > 0 then capsule_height else 0))
      | RB_SHAPE_CYLINDER \<Rightarrow> RB_shape_new_cylinder radius height
      | RB_SHAPE_CONE \<Rightarrow> RB_shape_new_cone radius (height * 2)
      | _ \<Rightarrow> (case sz of (size0, size1, size2) \<Rightarrow> RB_shape_new_box size0 size1 size2))"

text \<open>The margin that the convex hull case stores: \<^verbatim>\<open>hull_margin\<close> for the request, and
  the write to \<^verbatim>\<open>rbo->margin\<close> after it.\<close>

definition hull_margin_of :: "RigidBodyOb \<Rightarrow> bool \<Rightarrow> real" where
  "hull_margin_of rbo has_volume =
     (if RBO_FLAG_USE_MARGIN \<notin> flag rbo \<and> has_volume then 1 / 25 else 0)"

definition hull_store_margin :: "RigidBodyOb \<Rightarrow> bool \<Rightarrow> bool \<Rightarrow> RigidBodyOb" where
  "hull_store_margin rbo can_embed has_volume =
     (if RBO_FLAG_USE_MARGIN \<notin> flag rbo
      then rbo\<lparr>margin := (if can_embed \<and> has_volume then 1 / 25 else 0)\<rparr>
      else rbo)"

text \<open>The end of both shape functions when a shape was made: the old shape is deleted,
  the new one stored and its margin set.\<close>

definition shape_assign :: "macros \<Rightarrow> RigidBodyOb \<Rightarrow> handle \<Rightarrow> RigidBodyOb \<times> rb_call list" where
  "shape_assign mac rbo new_shape =
     (let rbo' = rbo\<lparr>physics_shape := Some new_shape\<rparr>
      in (rbo',
          (case physics_shape rbo of None \<Rightarrow> [] | Some old \<Rightarrow> [RB_shape_delete old]) @
          [RB_shape_set_margin new_shape (RBO_GET_MARGIN mac rbo')]))"

text \<open>\<^verbatim>\<open>size\<close> of \<^verbatim>\<open>rigidbody_validate_sim_shape\<close>: half the extents of the bounding box
  of the object, and half of 1 without a bounding box.\<close>

definition object_size :: "Object \<Rightarrow> vec3" where
  "object_size ob =
     (case boundbox ob of
        None \<Rightarrow> (1 * (1 / 2), 1 * (1 / 2), 1 * (1 / 2))
      | Some (e0, e1, e2) \<Rightarrow> (e0 * (1 / 2), e1 * (1 / 2), e2 * (1 / 2)))"

text \<open>The request that \<^verbatim>\<open>rigidbody_validate_sim_shape\<close> makes for the shape kind of the
  object, with the settings after the convex hull case has stored its margin.\<close>

definition object_shape_request ::
    "engine \<Rightarrow> Object \<Rightarrow> RigidBodyOb \<Rightarrow> shape_req option \<times> RigidBodyOb" where
  "object_shape_request eng ob rbo =
     (let (size0, size1, size2) = object_size ob;
          radius =
            (if shape rbo \<in> {RB_SHAPE_CAPSULE, RB_SHAPE_CYLINDER, RB_SHAPE_CONE}
             then max size0 size1
             else if shape rbo = RB_SHAPE_SPHERE then max (max size0 size1) size2
             else 1);
          height =
            (if shape rbo \<in> {RB_SHAPE_CAPSULE, RB_SHAPE_CYLINDER, RB_SHAPE_CONE}
             then size2 else 1)
      in case shape rbo of
           RB_SHAPE_CONVEXH \<Rightarrow>
             (let has_volume = (min (min size0 size1) size2 > 0);
                  hull_margin = hull_margin_of rbo has_volume;
                  req = (if ob_type ob = OB_MESH then
                           (case data ob of None \<Rightarrow> None
                            | Some me \<Rightarrow> convexhull_request me hull_margin)
                         else None);
                  can_embed = (case req of
                                 Some (RB_shape_new_convex_hull vs m) \<Rightarrow> hull_can_embed eng vs m
                               | _ \<Rightarrow> True)
              in (req, hull_store_margin rbo can_embed has_volume))
         | RB_SHAPE_TRIMESH \<Rightarrow> (rigidbody_get_shape_trimesh_from_mesh ob rbo, rbo)
         | _ \<Rightarrow> (Some (quadric_request (shape rbo) (size0, size1, size2) radius height), rbo))"

text \<open>\<^verbatim>\<open>rigidbody_validate_sim_shape(ob, rebuild)\<close>: the object after the call and the
  engine calls. The first argument bounds the depth of the calls of the function to
  itself: \<open>None\<close> says that the calls did not end within that depth.\<close>

fun rigidbody_validate_sim_shape ::
    "nat \<Rightarrow> macros \<Rightarrow> engine \<Rightarrow> Object \<Rightarrow> bool \<Rightarrow> (Object \<times> rb_call list) option" where
  "rigidbody_validate_sim_shape 0 mac eng ob rebuild = None"
| "rigidbody_validate_sim_shape (Suc depth) mac eng ob rebuild =
     (case rigidbody_object ob of
        None \<Rightarrow> Some (ob, [])
      | Some rbo \<Rightarrow>
          if physics_shape rbo \<noteq> None \<and> \<not> rebuild then Some (ob, [])
          else
            (let (req, rbo1) = object_shape_request eng ob rbo;
                 new_shape = (case req of None \<Rightarrow> None | Some q \<Rightarrow> shape_new eng q);
                 calls = (case req of None \<Rightarrow> [] | Some q \<Rightarrow> [RB_shape_new q new_shape])
             in case new_shape of
                  Some sh \<Rightarrow>
                    (let (rbo2, calls2) = shape_assign mac rbo1 sh
                     in Some (ob\<lparr>rigidbody_object := Some rbo2\<rparr>, calls @ calls2))
                | None \<Rightarrow>
                    if physics_shape rbo1 = None then
                      (case rigidbody_validate_sim_shape depth mac eng
                              (ob\<lparr>rigidbody_object := Some (rbo1\<lparr>shape := RB_SHAPE_BOX\<rparr>)\<rparr>) True of
                         None \<Rightarrow> None
                       | Some (ob', calls') \<Rightarrow> Some (ob', calls @ calls'))
                    else Some (ob\<lparr>rigidbody_object := Some rbo1\<rparr>, calls)))"

text \<open>The request that \<^verbatim>\<open>BKE_rigidbody_validate_sim_shard_shape\<close> makes for the shape kind
  of the shard. \<open>ob_ty\<close> is \<^verbatim>\<open>ob->rigidbody_object->type\<close>, which the trimesh case reads.\<close>

definition shard_shape_request ::
    "macros \<Rightarrow> engine \<Rightarrow> DerivedMesh \<Rightarrow> rbo_type option \<Rightarrow> RigidBodyOb
      \<Rightarrow> (shape_req option \<times> RigidBodyOb) option" where
  "shard_shape_request mac eng physics_mesh' ob_ty rbo =
     (let (size0, size1, size2) = DM_mesh_boundbox mac physics_mesh';
          radius =
            (if shape rbo \<in> {RB_SHAPE_CAPSULE, RB_SHAPE_CYLINDER, RB_SHAPE_CONE}
             then max size0 size1
             else if shape rbo = RB_SHAPE_SPHERE then max_fff size0 size1 size2 * (1 / 2)
             else 1);
          height =
            (if shape rbo \<in> {RB_SHAPE_CAPSULE, RB_SHAPE_CYLINDER, RB_SHAPE_CONE}
             then size2 else 1)
      in case shape rbo of
           RB_SHAPE_CONVEXH \<Rightarrow>
             (let has_volume = (min (min size0 size1) size2 > 0);
                  hull_margin = hull_margin_of rbo has_volume;
                  req = convexhull_request physics_mesh' hull_margin;
                  can_embed = (case req of
                                 Some (RB_shape_new_convex_hull vs m) \<Rightarrow> hull_can_embed eng vs m
                               | _ \<Rightarrow> True)
              in Some (req, hull_store_margin rbo can_embed has_volume))
         | RB_SHAPE_TRIMESH \<Rightarrow>
             (if verts physics_mesh' = [] \<or> tessfaces physics_mesh' = [] then Some (None, rbo)
              else (case ob_ty of
                      None \<Rightarrow> None
                    | Some ty \<Rightarrow> Some (trimesh_request physics_mesh' ty, rbo)))
         | _ \<Rightarrow> Some (Some (quadric_request (shape rbo) (size0, size1, size2) radius height), rbo))"

text \<open>\<^verbatim>\<open>BKE_rigidbody_validate_sim_shard_shape(mi, ob, rebuild)\<close>: the shard after the call
  and the engine calls. \<open>None\<close> says that the calls of the function to itself did not
  end within the depth of the first argument, or that the call faults: it reads
  \<^verbatim>\<open>mi->physics_mesh\<close> without a check and, for a triangle mesh with data,
  \<^verbatim>\<open>ob->rigidbody_object\<close>.\<close>

fun BKE_rigidbody_validate_sim_shard_shape ::
    "nat \<Rightarrow> macros \<Rightarrow> engine \<Rightarrow> MeshIsland \<Rightarrow> Object \<Rightarrow> bool
      \<Rightarrow> (MeshIsland \<times> rb_call list) option" where
  "BKE_rigidbody_validate_sim_shard_shape 0 mac eng mi ob rebuild = None"
| "BKE_rigidbody_validate_sim_shard_shape (Suc depth) mac eng mi ob rebuild =
     (case rigidbody mi of
        None \<Rightarrow> Some (mi, [])
      | Some rbo \<Rightarrow>
          if physics_shape rbo \<noteq> None \<and> \<not> rebuild then Some (mi, [])
          else
            (case physics_mesh mi of
               None \<Rightarrow> None
             | Some dm \<Rightarrow>
            (case shard_shape_request mac eng dm (map_option rbo_type (rigidbody_object ob)) rbo of
               None \<Rightarrow> None
             | Some (req, rbo1) \<Rightarrow>
                 (let new_shape = (case req of None \<Rightarrow> None | Some q \<Rightarrow> shape_new eng q);
                      calls = (case req of None \<Rightarrow> [] | Some q \<Rightarrow> [RB_shape_new q new_shape])
                  in case new_shape of
                       Some sh \<Rightarrow>
                         (let (rbo2, calls2) = shape_assign mac rbo1 sh
                          in Some (mi\<lparr>rigidbody := Some rbo2\<rparr>, calls @ calls2))
                     | None \<Rightarrow>
                         (case BKE_rigidbody_validate_sim_shard_shape depth mac eng
                                 (mi\<lparr>rigidbody := Some (rbo1\<lparr>shape := RB_SHAPE_BOX\<rparr>)\<rparr>) ob True of
                            None \<Rightarrow> None
                          | Some (mi', calls') \<Rightarrow> Some (mi', calls @ calls'))))))"

text \<open>The engine never fails to make a box.\<close>

definition box_always :: "engine \<Rightarrow> bool" where
  "box_always eng \<longleftrightarrow> (\<forall>x y z. shape_new eng (RB_shape_new_box x y z) \<noteq> None)"

text \<open>The engine call of a construction that failed, if the function got as far as the
  engine.\<close>

definition failed_calls :: "shape_req option \<Rightarrow> rb_call list" where
  "failed_calls req = (case req of None \<Rightarrow> [] | Some q \<Rightarrow> [RB_shape_new q None])"

definition shape_result :: "engine \<Rightarrow> shape_req option \<Rightarrow> handle option" where
  "shape_result eng req = (case req of None \<Rightarrow> None | Some q \<Rightarrow> shape_new eng q)"

section \<open>Bodies\<close>






section \<open>Constraints\<close>

text \<open>The two bodies that a constraint joins, when neither endpoint nor its rigid body
  settings is \<^verbatim>\<open>NULL\<close>: the negation of the test
  \<^verbatim>\<open>ELEM(NULL, rbc->ob1, rbc->ob1->rigidbody_object, rbc->ob2, rbc->ob2->rigidbody_object)\<close>
  for an object constraint, and of the same test on \<^verbatim>\<open>mi1\<close> and \<^verbatim>\<open>mi2\<close> for a shard
  constraint.\<close>

definition con_endpoints_object :: "store \<Rightarrow> RigidBodyCon \<Rightarrow> (RigidBodyOb \<times> RigidBodyOb) option" where
  "con_endpoints_object s rbc =
     (case ob1 rbc of None \<Rightarrow> None
      | Some a1 \<Rightarrow> (case rigidbody_object (object_at s a1) of None \<Rightarrow> None
      | Some r1 \<Rightarrow> (case ob2 rbc of None \<Rightarrow> None
      | Some a2 \<Rightarrow> (case rigidbody_object (object_at s a2) of None \<Rightarrow> None
      | Some r2 \<Rightarrow> Some (r1, r2)))))"

definition con_endpoints_shard ::
    "store \<Rightarrow> RigidBodyShardCon \<Rightarrow> (RigidBodyOb \<times> RigidBodyOb) option" where
  "con_endpoints_shard s rbc =
     (case mi1 rbc of None \<Rightarrow> None
      | Some a1 \<Rightarrow> (case rigidbody (island_at s a1) of None \<Rightarrow> None
      | Some r1 \<Rightarrow> (case mi2 rbc of None \<Rightarrow> None
      | Some a2 \<Rightarrow> (case rigidbody (island_at s a2) of None \<Rightarrow> None
      | Some r2 \<Rightarrow> Some (r1, r2)))))"

text \<open>The limits of one axis of a 6dof constraint: the stored ones when the axis is
  limited, else lower 0 and upper -1.\<close>

definition limit_6dof ::
    "'a ConSettings_scheme \<Rightarrow> handle \<Rightarrow> rb_axis \<Rightarrow> rbc_flag \<Rightarrow> real \<Rightarrow> real \<Rightarrow> constraint_call" where
  "limit_6dof rbc h axis use lower upper =
     (if use \<in> con_flag rbc then RB_constraint_set_limits_6dof h axis lower upper
      else RB_constraint_set_limits_6dof h axis 0 (-1))"

definition limits_6dof :: "'a ConSettings_scheme \<Rightarrow> handle \<Rightarrow> constraint_call list" where
  "limits_6dof rbc h =
     [limit_6dof rbc h RB_LIMIT_LIN_X RBC_FLAG_USE_LIMIT_LIN_X (limit_lin_x_lower rbc) (limit_lin_x_upper rbc),
      limit_6dof rbc h RB_LIMIT_LIN_Y RBC_FLAG_USE_LIMIT_LIN_Y (limit_lin_y_lower rbc) (limit_lin_y_upper rbc),
      limit_6dof rbc h RB_LIMIT_LIN_Z RBC_FLAG_USE_LIMIT_LIN_Z (limit_lin_z_lower rbc) (limit_lin_z_upper rbc),
      limit_6dof rbc h RB_LIMIT_ANG_X RBC_FLAG_USE_LIMIT_ANG_X (limit_ang_x_lower rbc) (limit_ang_x_upper rbc),
      limit_6dof rbc h RB_LIMIT_ANG_Y RBC_FLAG_USE_LIMIT_ANG_Y (limit_ang_y_lower rbc) (limit_ang_y_upper rbc),
      limit_6dof rbc h RB_LIMIT_ANG_Z RBC_FLAG_USE_LIMIT_ANG_Z (limit_ang_z_lower rbc) (limit_ang_z_upper rbc)]"

text \<open>The \<^verbatim>\<open>switch (rbc->type)\<close> of both constraint functions: the constructor, which
  returns the handle \<open>h\<close>, and the calls that set the parameters of the type. The
  6dof-spring case falls through into the limits of the 6dof case.\<close>

definition constraint_construct ::
    "'a ConSettings_scheme \<Rightarrow> vec3 \<Rightarrow> quat \<Rightarrow> handle \<Rightarrow> handle \<Rightarrow> handle \<Rightarrow> constraint_call list" where
  "constraint_construct rbc loc rot rb1 rb2 h =
     RB_constraint_new (con_type rbc) loc rot rb1 rb2 h #
     (case con_type rbc of
        RBC_TYPE_POINT \<Rightarrow> []
      | RBC_TYPE_FIXED \<Rightarrow> []
      | RBC_TYPE_HINGE \<Rightarrow>
          [if RBC_FLAG_USE_LIMIT_ANG_Z \<in> con_flag rbc
           then RB_constraint_set_limits_hinge h (limit_ang_z_lower rbc) (limit_ang_z_upper rbc)
           else RB_constraint_set_limits_hinge h 0 (-1)]
      | RBC_TYPE_SLIDER \<Rightarrow>
          [if RBC_FLAG_USE_LIMIT_LIN_X \<in> con_flag rbc
           then RB_constraint_set_limits_slider h (limit_lin_x_lower rbc) (limit_lin_x_upper rbc)
           else RB_constraint_set_limits_slider h 0 (-1)]
      | RBC_TYPE_PISTON \<Rightarrow>
          (let (lin_lower, lin_upper) =
                 (if RBC_FLAG_USE_LIMIT_LIN_X \<in> con_flag rbc
                  then (limit_lin_x_lower rbc, limit_lin_x_upper rbc) else (0, -1));
               (ang_lower, ang_upper) =
                 (if RBC_FLAG_USE_LIMIT_ANG_X \<in> con_flag rbc
                  then (limit_ang_x_lower rbc, limit_ang_x_upper rbc) else (0, -1))
           in [RB_constraint_set_limits_piston h lin_lower lin_upper ang_lower ang_upper])
      | RBC_TYPE_6DOF_SPRING \<Rightarrow>
          [RB_constraint_set_spring_6dof_spring h RB_LIMIT_LIN_X (RBC_FLAG_USE_SPRING_X \<in> con_flag rbc),
           RB_constraint_set_stiffness_6dof_spring h RB_LIMIT_LIN_X (spring_stiffness_x rbc),
           RB_constraint_set_damping_6dof_spring h RB_LIMIT_LIN_X (spring_damping_x rbc),
           RB_constraint_set_spring_6dof_spring h RB_LIMIT_LIN_Y (RBC_FLAG_USE_SPRING_Y \<in> con_flag rbc),
           RB_constraint_set_stiffness_6dof_spring h RB_LIMIT_LIN_Y (spring_stiffness_y rbc),
           RB_constraint_set_damping_6dof_spring h RB_LIMIT_LIN_Y (spring_damping_y rbc),
           RB_constraint_set_spring_6dof_spring h RB_LIMIT_LIN_Z (RBC_FLAG_USE_SPRING_Z \<in> con_flag rbc),
           RB_constraint_set_stiffness_6dof_spring h RB_LIMIT_LIN_Z (spring_stiffness_z rbc),
           RB_constraint_set_damping_6dof_spring h RB_LIMIT_LIN_Z (spring_damping_z rbc),
           RB_constraint_set_equilibrium_6dof_spring h] @ limits_6dof rbc h
      | RBC_TYPE_6DOF \<Rightarrow> limits_6dof rbc h
      | RBC_TYPE_MOTOR \<Rightarrow>
          [RB_constraint_set_enable_motor h
             (RBC_FLAG_USE_MOTOR_LIN \<in> con_flag rbc) (RBC_FLAG_USE_MOTOR_ANG \<in> con_flag rbc),
           RB_constraint_set_max_impulse_motor h
             (motor_lin_max_impulse rbc) (motor_ang_max_impulse rbc),
           RB_constraint_set_target_velocity_motor h
             (motor_lin_target_velocity rbc) (motor_ang_target_velocity rbc)])"

text \<open>The calls after the \<^verbatim>\<open>switch\<close>: enabled flag, breaking threshold (\<^verbatim>\<open>FLT_MAX\<close> without
  breaking) and solver iterations (-1 without an override).\<close>

definition constraint_finish :: "'a ConSettings_scheme \<Rightarrow> handle \<Rightarrow> constraint_call list" where
  "constraint_finish rbc h =
     [RB_constraint_set_enabled h (RBC_FLAG_ENABLED \<in> con_flag rbc),
      RB_constraint_set_breaking_threshold h
        (if RBC_FLAG_USE_BREAKING \<in> con_flag rbc then Some (breaking_threshold rbc) else None),
      RB_constraint_set_solver_iterations h
        (if RBC_FLAG_OVERRIDE_SOLVER_ITERATIONS \<in> con_flag rbc
         then num_solver_iterations rbc else -1)]"

text \<open>The last call of both constraint functions: the constraint is added to the engine
  world, if there is a world with an engine world and a constraint handle.\<close>

definition constraint_add :: "RigidBodyWorld option \<Rightarrow> 'a ConSettings_scheme \<Rightarrow> rb_call list" where
  "constraint_add rbw rbc =
     (case rbw of
        None \<Rightarrow> []
      | Some w \<Rightarrow>
          (case physics_world w of
             None \<Rightarrow> []
           | Some pw \<Rightarrow>
               (case physics_constraint rbc of
                  None \<Rightarrow> []
                | Some h \<Rightarrow>
                    [RB_dworld_add_constraint pw h (RBC_FLAG_DISABLE_COLLISIONS \<in> con_flag rbc)])))"

text \<open>The branch of both constraint functions for a constraint with a missing endpoint:
  an engine constraint is removed from the world and deleted, the handle is cleared, and
  the function returns. \<open>None\<close> is the fault of reading \<^verbatim>\<open>rbw->physics_world\<close> with
  \<^verbatim>\<open>rbw == NULL\<close>.\<close>

definition constraint_teardown ::
    "RigidBodyWorld option \<Rightarrow> 'a ConSettings_scheme \<Rightarrow> ('a ConSettings_scheme \<times> rb_call list) option" where
  "constraint_teardown rbw rbc =
     (case physics_constraint rbc of
        None \<Rightarrow> Some (rbc, [])
      | Some h \<Rightarrow>
          (case rbw of
             None \<Rightarrow> None
           | Some w \<Rightarrow>
               Some (rbc\<lparr>physics_constraint := None\<rparr>,
                     [RB_dworld_remove_constraint (physics_world w) (Some h),
                      Constraint (RB_constraint_delete h)])))"

text \<open>\<^verbatim>\<open>rigidbody_validate_sim_constraint(rbw, ob, rebuild)\<close>, with the object given by its
  address: the store after the call and the engine calls.\<close>

definition rigidbody_validate_sim_constraint ::
    "engine \<Rightarrow> RigidBodyWorld option \<Rightarrow> addr option \<Rightarrow> bool \<Rightarrow> store
      \<Rightarrow> (store \<times> rb_call list) option" where
  "rigidbody_validate_sim_constraint eng rbw ob rebuild s =
     (case ob of None \<Rightarrow> Some (s, [])
      | Some a \<Rightarrow>
     (case rigidbody_constraint (object_at s a) of None \<Rightarrow> Some (s, [])
      | Some rbc \<Rightarrow>
     (let put = (\<lambda>rbc'. s\<lparr>object_at := (object_at s)
                    (a := (object_at s a)\<lparr>rigidbody_constraint := Some rbc'\<rparr>)\<rparr>) in
      case con_endpoints_object s rbc of
        None \<Rightarrow>
          (case constraint_teardown rbw rbc of
             None \<Rightarrow> None
           | Some (rbc', calls) \<Rightarrow> Some (put rbc', calls))
      | Some (r1, r2) \<Rightarrow>
          (case (if physics_constraint rbc \<noteq> None \<and> rebuild = False then
                   (case rbw of None \<Rightarrow> None
                    | Some w \<Rightarrow>
                        Some [RB_dworld_remove_constraint (physics_world w) (physics_constraint rbc)])
                 else Some []) of None \<Rightarrow> None
           | Some calls_remove \<Rightarrow>
               if physics_constraint rbc = None \<or> rebuild then
                 (let calls_delete =
                        (case physics_constraint rbc of
                           None \<Rightarrow> []
                         | Some old \<Rightarrow> [Constraint (RB_constraint_delete old)]);
                      rbc1 = rbc\<lparr>physics_constraint := None\<rparr>
                  in case (physics_object r1, physics_object r2) of
                       (Some rb1, Some rb2) \<Rightarrow>
                         (let h = constraint_new eng;
                              rbc2 = rbc1\<lparr>physics_constraint := Some h\<rparr>
                          in Some (put rbc2,
                                   calls_remove @ calls_delete @
                                   map Constraint
                                     (constraint_construct rbc2 (ob_loc (object_at s a))
                                        (ob_rot (object_at s a)) rb1 rb2 h @
                                      constraint_finish rbc2 h) @
                                   constraint_add rbw rbc2))
                     | _ \<Rightarrow> Some (put rbc1, calls_remove @ calls_delete))
               else Some (s, calls_remove @ constraint_add rbw rbc)))))"

text \<open>\<^verbatim>\<open>BKE_rigidbody_validate_sim_shard_constraint(rbw, rbc, rebuild)\<close>, with the
  constraint given by its address: the store after the call and the engine calls.\<close>

definition BKE_rigidbody_validate_sim_shard_constraint ::
    "engine \<Rightarrow> RigidBodyWorld option \<Rightarrow> addr option \<Rightarrow> bool \<Rightarrow> store
      \<Rightarrow> (store \<times> rb_call list) option" where
  "BKE_rigidbody_validate_sim_shard_constraint eng rbw con rebuild s =
     (case con of None \<Rightarrow> Some (s, [])
      | Some c \<Rightarrow>
     (let rbc = shardcon_at s c;
          put = (\<lambda>rbc'. s\<lparr>shardcon_at := (shardcon_at s)(c := rbc')\<rparr>) in
      case con_endpoints_shard s rbc of
        None \<Rightarrow>
          (case constraint_teardown rbw rbc of
             None \<Rightarrow> None
           | Some (rbc', calls) \<Rightarrow> Some (put rbc', calls))
      | Some (r1, r2) \<Rightarrow>
          (case (if physics_constraint rbc \<noteq> None \<and> rebuild = False \<and>
                    RBC_FLAG_USE_KINEMATIC_DEACTIVATION \<notin> con_flag rbc then
                   (case rbw of None \<Rightarrow> None
                    | Some w \<Rightarrow>
                        Some [RB_dworld_remove_constraint (physics_world w) (physics_constraint rbc)])
                 else Some []) of None \<Rightarrow> None
           | Some calls_remove \<Rightarrow>
               if physics_constraint rbc = None \<or> rebuild \<or>
                  RBC_FLAG_USE_KINEMATIC_DEACTIVATION \<in> con_flag rbc then
                 (let calls_delete =
                        (case physics_constraint rbc of
                           None \<Rightarrow> []
                         | Some old \<Rightarrow> [Constraint (RB_constraint_delete old)]);
                      rbc1 = rbc\<lparr>physics_constraint := None\<rparr>
                  in case (physics_object r1, physics_object r2) of
                       (Some rb1, Some rb2) \<Rightarrow>
                         (let h = constraint_new eng;
                              rbc2 = rbc1\<lparr>physics_constraint := Some h\<rparr>
                          in Some (put (rbc2\<lparr>con_flag := con_flag rbc2
                                              - {RBC_FLAG_USE_KINEMATIC_DEACTIVATION}\<rparr>),
                                   calls_remove @ calls_delete @
                                   map Constraint
                                     (constraint_construct rbc2 (pos r1) (orn r1) rb1 rb2 h @
                                      constraint_finish rbc2 h) @
                                   constraint_add rbw rbc2))
                     | _ \<Rightarrow> Some (put rbc1, calls_remove @ calls_delete))
               else Some (put (rbc\<lparr>con_flag := con_flag rbc
                                     - {RBC_FLAG_USE_KINEMATIC_DEACTIVATION}\<rparr>),
                          calls_remove @ constraint_add rbw rbc))))"


section \<open>Single-precision arithmetic\<close>

text \<open>The functions below compute with \<^verbatim>\<open>float\<close>: IEEE 754 binary32, every operation
  rounded to nearest, ties to even (the evaluation of \<^verbatim>\<open>float\<close> expressions in \<^verbatim>\<open>float\<close>,
  as on x86-64).

  \<open>round_even\<close> is the nearest integer, the even one of two nearest. \<open>f32_exponent x\<close>
  is the exponent of the binade of \<open>x\<close>, at least \<open>-126\<close> (below \<^verbatim>\<open>2^-126\<close> the floats are
  the subnormal ones); the floats of that binade are the multiples of
  \<open>2 powi (f32_exponent x - 23)\<close>, and \<open>f32_round x\<close> is the nearest of them: the float
  nearest to \<open>x\<close> were the exponent not bounded above.\<close>

definition round_even :: "real \<Rightarrow> int" where
  "round_even y =
     (let n = \<lfloor>y\<rfloor> in
      if y - real_of_int n < 1 / 2 then n
      else if 1 / 2 < y - real_of_int n then n + 1
      else if even n then n else n + 1)"

definition f32_exponent :: "real \<Rightarrow> int" where
  "f32_exponent x = max (- 126) \<lfloor>log 2 \<bar>x\<bar>\<rfloor>"

definition f32_round_at :: "int \<Rightarrow> real \<Rightarrow> real" where
  "f32_round_at e x = real_of_int (round_even (x / 2 powi (e - 23))) * 2 powi (e - 23)"

definition f32_round :: "real \<Rightarrow> real" where
  "f32_round x = (if x = 0 then 0 else f32_round_at (f32_exponent x) x)"

text \<open>The value of a \<^verbatim>\<open>float\<close> expression: a finite value, an infinity or a NaN. The two
  zeros of the format are the one value \<open>Fin 0\<close>; they differ in the program only as
  divisors, and \<open>f32_div\<close> takes a zero divisor as \<open>+0\<close>. A field of a struct holds a
  finite value \<open>x\<close>, read as \<open>Fin x\<close>.\<close>

datatype f32 = Fin real | PInf | NInf | NaN

text \<open>Rounding a real result: the largest float is \<^verbatim>\<open>2^128 - 2^104\<close>, and a result that
  rounds to \<^verbatim>\<open>2^128\<close> or beyond is an infinity. The conversion of an \<^verbatim>\<open>int\<close> to \<^verbatim>\<open>float\<close>
  rounds the same way.\<close>

definition f32_of_real :: "real \<Rightarrow> f32" where
  "f32_of_real x =
     (let r = f32_round x in
      if 2 ^ 128 \<le> r then PInf else if r \<le> - (2 ^ 128) then NInf else Fin r)"

definition f32_of_int :: "int \<Rightarrow> f32" where
  "f32_of_int n = f32_of_real (real_of_int n)"

text \<open>Sum, difference, product and quotient.\<close>

fun f32_add :: "f32 \<Rightarrow> f32 \<Rightarrow> f32" where
  "f32_add (Fin x) (Fin y) = f32_of_real (x + y)"
| "f32_add NaN b = NaN"
| "f32_add a NaN = NaN"
| "f32_add PInf NInf = NaN"
| "f32_add NInf PInf = NaN"
| "f32_add PInf b = PInf"
| "f32_add a PInf = PInf"
| "f32_add NInf b = NInf"
| "f32_add a NInf = NInf"

fun f32_sub :: "f32 \<Rightarrow> f32 \<Rightarrow> f32" where
  "f32_sub (Fin x) (Fin y) = f32_of_real (x - y)"
| "f32_sub NaN b = NaN"
| "f32_sub a NaN = NaN"
| "f32_sub PInf PInf = NaN"
| "f32_sub NInf NInf = NaN"
| "f32_sub PInf b = PInf"
| "f32_sub a NInf = PInf"
| "f32_sub NInf b = NInf"
| "f32_sub a PInf = NInf"

fun f32_negative :: "f32 \<Rightarrow> bool" where
  "f32_negative (Fin x) = (x < 0)"
| "f32_negative NInf = True"
| "f32_negative v = False"

fun f32_mul :: "f32 \<Rightarrow> f32 \<Rightarrow> f32" where
  "f32_mul (Fin x) (Fin y) = f32_of_real (x * y)"
| "f32_mul NaN b = NaN"
| "f32_mul a NaN = NaN"
| "f32_mul a b =
     (if a = Fin 0 \<or> b = Fin 0 then NaN
      else if f32_negative a = f32_negative b then PInf else NInf)"

fun f32_div :: "f32 \<Rightarrow> f32 \<Rightarrow> f32" where
  "f32_div (Fin x) (Fin y) =
     (if y = 0 then (if x = 0 then NaN else if 0 < x then PInf else NInf)
      else f32_of_real (x / y))"
| "f32_div NaN b = NaN"
| "f32_div a NaN = NaN"
| "f32_div (Fin x) b = Fin 0"
| "f32_div a (Fin y) = (if f32_negative a = (y < 0) then PInf else NInf)"
| "f32_div a b = NaN"

text \<open>The comparisons \<^verbatim>\<open><\<close>, \<^verbatim>\<open><=\<close> and \<^verbatim>\<open>==\<close>: false when an operand is a NaN.\<close>

fun f32_lt :: "f32 \<Rightarrow> f32 \<Rightarrow> bool" where
  "f32_lt (Fin x) (Fin y) = (x < y)"
| "f32_lt NaN b = False"
| "f32_lt a NaN = False"
| "f32_lt PInf b = False"
| "f32_lt a NInf = False"
| "f32_lt a b = True"

fun f32_le :: "f32 \<Rightarrow> f32 \<Rightarrow> bool" where
  "f32_le (Fin x) (Fin y) = (x \<le> y)"
| "f32_le NaN b = False"
| "f32_le a NaN = False"
| "f32_le NInf b = True"
| "f32_le a PInf = True"
| "f32_le a b = False"

fun f32_eq :: "f32 \<Rightarrow> f32 \<Rightarrow> bool" where
  "f32_eq NaN b = False"
| "f32_eq a NaN = False"
| "f32_eq a b = (a = b)"

text \<open>The conversion of a \<^verbatim>\<open>float\<close> to \<^verbatim>\<open>int\<close> and to \<^verbatim>\<open>unsigned int\<close>: towards zero.
  \<open>None\<close> is the undefined behaviour of converting a NaN, an infinity or a value
  whose integral part is outside the 32-bit type.\<close>

definition trunc_int :: "real \<Rightarrow> int" where
  "trunc_int x = (if 0 \<le> x then \<lfloor>x\<rfloor> else \<lceil>x\<rceil>)"

definition int_of_f32 :: "f32 \<Rightarrow> int option" where
  "int_of_f32 v =
     (case v of
        Fin x \<Rightarrow> if - (2 ^ 31) \<le> trunc_int x \<and> trunc_int x < 2 ^ 31 then Some (trunc_int x)
                 else None
      | _ \<Rightarrow> None)"

definition uint_of_f32 :: "f32 \<Rightarrow> int option" where
  "uint_of_f32 v =
     (case v of
        Fin x \<Rightarrow> if 0 \<le> trunc_int x \<and> trunc_int x < 2 ^ 32 then Some (trunc_int x) else None
      | _ \<Rightarrow> None)"

text \<open>A function that writes a computed \<^verbatim>\<open>float\<close> to a field: \<open>Inr\<close> of the state with
  the field written when the value is finite; \<open>Inl v\<close> when the function writes the
  infinity or the NaN \<open>v\<close>, which the fields of the model do not hold.\<close>

definition store_float :: "f32 \<Rightarrow> (real \<Rightarrow> 'a) \<Rightarrow> f32 + 'a" where
  "store_float v assign = (case v of Fin x \<Rightarrow> Inr (assign x) | _ \<Rightarrow> Inl v)"

section \<open>Mass-dependent breaking thresholds\<close>

text \<open>The combined mass of the two shards of a constraint, when both shards exist and
  have rigid body settings: the test
  \<^verbatim>\<open>(con->mi1 != NULL && con->mi1->rigidbody != NULL) && (con->mi2 != NULL &&
  con->mi2->rigidbody != NULL)\<close> and the sum \<^verbatim>\<open>con_mass\<close>.\<close>

definition con_mass_of :: "store \<Rightarrow> RigidBodyShardCon \<Rightarrow> f32 option" where
  "con_mass_of s con =
     (case mi1 con of None \<Rightarrow> None
      | Some a1 \<Rightarrow> (case rigidbody (island_at s a1) of None \<Rightarrow> None
      | Some r1 \<Rightarrow> (case mi2 con of None \<Rightarrow> None
      | Some a2 \<Rightarrow> (case rigidbody (island_at s a2) of None \<Rightarrow> None
      | Some r2 \<Rightarrow> Some (f32_add (Fin (mass r1)) (Fin (mass r2)))))))"

text \<open>\<^verbatim>\<open>BKE_rigidbody_calc_max_con_mass\<close>: the loop over the constraints of the first
  fracture modifier (\<^verbatim>\<open>con_mass > max_con_mass\<close> is \<open>f32_lt max_con_mass con_mass\<close>), and
  the search for that modifier.\<close>

fun max_con_mass_loop :: "store \<Rightarrow> addr list \<Rightarrow> f32 \<Rightarrow> f32" where
  "max_con_mass_loop s [] max_con_mass = max_con_mass"
| "max_con_mass_loop s (c # cs) max_con_mass =
     max_con_mass_loop s cs
       (case con_mass_of s (shardcon_at s c) of
          None \<Rightarrow> max_con_mass
        | Some con_mass \<Rightarrow>
            if f32_lt max_con_mass con_mass then con_mass else max_con_mass)"

fun calc_max_con_mass_mods :: "store \<Rightarrow> ModifierData list \<Rightarrow> f32" where
  "calc_max_con_mass_mods s [] = Fin 0"
| "calc_max_con_mass_mods s (Fracture rmd # mds) =
     max_con_mass_loop s (meshConstraints rmd) (Fin 0)"
| "calc_max_con_mass_mods s (OtherModifier # mds) = calc_max_con_mass_mods s mds"

definition BKE_rigidbody_calc_max_con_mass :: "store \<Rightarrow> Object \<Rightarrow> f32" where
  "BKE_rigidbody_calc_max_con_mass s ob = calc_max_con_mass_mods s (modifiers ob)"

text \<open>\<^verbatim>\<open>BKE_rigidbody_calc_threshold(max_con_mass, rmd, con)\<close>, with the constraint given
  by its address.\<close>

definition BKE_rigidbody_calc_threshold ::
    "f32 \<Rightarrow> FractureModifierData \<Rightarrow> addr \<Rightarrow> store \<Rightarrow> f32 + store" where
  "BKE_rigidbody_calc_threshold max_con_mass rmd c s =
     (let con = shardcon_at s c in
      if f32_eq max_con_mass (Fin 0) \<and> use_mass_dependent_thresholds rmd then Inr s
      else if mi1 con = None \<or> mi2 con = None then Inr s
      else
        (let max_thresh = Fin (fmd_breaking_threshold rmd) in
         case con_mass_of s con of
           None \<Rightarrow> Inr s
         | Some con_mass \<Rightarrow>
             (let thresh = (if use_mass_dependent_thresholds rmd
                            then f32_mul (f32_div con_mass max_con_mass) max_thresh
                            else Fin 0)
              in store_float thresh
                   (\<lambda>x. s\<lparr>shardcon_at := (shardcon_at s)(c := con\<lparr>breaking_threshold := x\<rparr>)\<rparr>))))"

section \<open>Volume and mass of a shard\<close>







section \<open>Breaking percentage of a shard\<close>

text \<open>\<^verbatim>\<open>isModifierActive(rmd)\<close>: \<^verbatim>\<open>rmd != NULL\<close>, the modifier is shown in the viewport or
  in renders, and it is not being refreshed.\<close>

definition isModifierActive :: "FractureModifierData option \<Rightarrow> bool" where
  "isModifierActive rmd =
     (case rmd of
        None \<Rightarrow> False
      | Some fmd \<Rightarrow>
          mode fmd \<inter> {eModifierMode_Realtime, eModifierMode_Render} \<noteq> {} \<and> \<not> refresh fmd)"

text \<open>The first loop over \<^verbatim>\<open>mi->participating_constraints\<close> in
  \<^verbatim>\<open>rigidbody_update_simulation\<close>: \<^verbatim>\<open>broken_cons\<close>, the number of constraints with an engine
  constraint that the engine reports as not enabled. \<open>is_enabled\<close> is what
  \<^verbatim>\<open>RB_constraint_is_enabled\<close> returns for a handle.\<close>

fun count_broken :: "(handle \<Rightarrow> bool) \<Rightarrow> store \<Rightarrow> addr option list \<Rightarrow> nat" where
  "count_broken is_enabled s [] = 0"
| "count_broken is_enabled s (con # cons) =
     (case con of
        None \<Rightarrow> 0
      | Some c \<Rightarrow>
          (case physics_constraint (shardcon_at s c) of
             None \<Rightarrow> 0
           | Some h \<Rightarrow> if \<not> is_enabled h then 1 else 0))
     + count_broken is_enabled s cons"

text \<open>The second loop: every constraint of the array that is not \<^verbatim>\<open>NULL\<close> loses its
  enabled flag, is flagged for validation, and its engine constraint, if it has one, is
  disabled.\<close>

fun break_all :: "addr option list \<Rightarrow> store \<Rightarrow> store \<times> rb_call list" where
  "break_all [] s = (s, [])"
| "break_all (con # cons) s =
     (case con of
        None \<Rightarrow> break_all cons s
      | Some c \<Rightarrow>
          (let rbc = shardcon_at s c;
               s' = s\<lparr>shardcon_at := (shardcon_at s)
                      (c := rbc\<lparr>con_flag :=
                         insert RBC_FLAG_NEEDS_VALIDATE (con_flag rbc - {RBC_FLAG_ENABLED})\<rparr>)\<rparr>;
               calls = (case physics_constraint rbc of
                          None \<Rightarrow> []
                        | Some h \<Rightarrow> [Constraint (RB_constraint_set_enabled h False)]);
               (s'', calls') = break_all cons s'
           in (s'', calls @ calls')))"

text \<open>What \<^verbatim>\<open>rigidbody_update_simulation\<close> does with the breaking percentage of the fracture
  modifier \<open>rmd\<close> of an object for the shard \<open>mi\<close> of that modifier: nothing unless
  \<^verbatim>\<open>isModifierActive(rmd)\<close> (the loop over the shards is not entered) and unless the shard
  has rigid body settings (\<^verbatim>\<open>continue\<close>); else the statements from
  \<^verbatim>\<open>float weight = mi->thresh_weight\<close> to the end of the \<^verbatim>\<open>if\<close> on the percentage. The
  result is the store after the block and its engine calls. The conditional expression
  \<^verbatim>\<open>rmd->breaking_percentage_weighted ? (rmd->breaking_percentage * weight) :
  rmd->breaking_percentage\<close> has the type \<^verbatim>\<open>float\<close> of its second operand, so the percentage
  is converted to \<^verbatim>\<open>float\<close> in both cases and from there to the \<^verbatim>\<open>int\<close>
  \<^verbatim>\<open>breaking_percentage\<close>; \<open>None\<close> is the undefined behaviour of that conversion. In
  \<^verbatim>\<open>(float)broken_cons / (float)cons * 100 >= breaking_percentage\<close> the two \<^verbatim>\<open>int\<close> operands
  are converted to \<^verbatim>\<open>float\<close>.\<close>

definition shard_breaking_percentage ::
    "(handle \<Rightarrow> bool) \<Rightarrow> FractureModifierData option \<Rightarrow> MeshIsland \<Rightarrow> store
      \<Rightarrow> (store \<times> rb_call list) option" where
  "shard_breaking_percentage is_enabled rmd_opt mi s =
     (case rmd_opt of
        None \<Rightarrow> Some (s, [])
      | Some rmd \<Rightarrow>
          if \<not> isModifierActive rmd_opt then Some (s, [])
          else if rigidbody mi = None then Some (s, [])
          else
            (let weight = thresh_weight mi in
             case int_of_f32
                    (if breaking_percentage_weighted rmd
                     then f32_mul (f32_of_int (breaking_percentage rmd)) (Fin weight)
                     else f32_of_int (breaking_percentage rmd)) of
               None \<Rightarrow> None
             | Some breaking_percentage' \<Rightarrow>
                 Some
                   (if breaking_percentage rmd > 0 \<or>
                       (breaking_percentage_weighted rmd \<and> weight > 0) then
                      (let cons = length (participating_constraints mi);
                           broken_cons = count_broken is_enabled s (participating_constraints mi)
                       in if cons > 0 then
                            (if f32_le (f32_of_int breaking_percentage')
                                  (f32_mul (f32_div (f32_of_int (int broken_cons))
                                                    (f32_of_int (int cons))) (Fin 100))
                             then break_all (participating_constraints mi) s
                             else (s, []))
                          else (s, []))
                    else (s, []))))"

section \<open>The simulation step of a frame\<close>

text \<open>What \<^verbatim>\<open>BKE_rigidbody_do_simulation\<close> gets from its collaborators: the frame range of
  the cache (\<^verbatim>\<open>BKE_ptcache_id_time\<close>), the frames per second of the scene (the \<^verbatim>\<open>double\<close>
  value of \<^verbatim>\<open>FPS\<close>), the cache read (\<^verbatim>\<open>BKE_ptcache_read\<close>: the store with the cached
  transforms, or \<open>None\<close> when it returns 0), and the effect on the world and the store
  of the two functions of this file that it calls and that are not modelled statement by
  statement, \<^verbatim>\<open>rigidbody_update_simulation(scene, rbw, rebuild)\<close> and
  \<^verbatim>\<open>rigidbody_update_ob_array(rbw)\<close>.\<close>

record sim_env =
  id_startframe :: int
  id_endframe :: int
  scene_FPS :: real
  ptcache_read :: "real \<Rightarrow> store \<Rightarrow> store option"
  update_simulation :: "bool \<Rightarrow> RigidBodyWorld \<times> store \<Rightarrow> RigidBodyWorld \<times> store"
  update_ob_array :: "RigidBodyWorld \<Rightarrow> RigidBodyWorld"

text \<open>The calls of \<^verbatim>\<open>BKE_rigidbody_do_simulation\<close>, in order: to functions of this file, to
  the point cache (with the frame that is passed) and to the engine
  (\<^verbatim>\<open>RB_dworld_step_simulation\<close> with the engine world, the time step and the size of a
  substep).\<close>

datatype sim_event =
    Ev_update_simulation bool
  | Ev_update_ob_array
  | Ev_restoreKinematic
  | Ev_ptcache_validate int
  | Ev_ptcache_write int
  | Ev_step_simulation "handle option" f32 f32
  | Ev_update_simulation_post_step

definition is_step :: "sim_event \<Rightarrow> bool" where
  "is_step e = (case e of Ev_step_simulation pw t sub \<Rightarrow> True | _ \<Rightarrow> False)"

text \<open>A frame number of type \<^verbatim>\<open>int\<close> converted to \<^verbatim>\<open>float\<close>, where the function compares it
  with a time or assigns it to one: finite, an \<^verbatim>\<open>int\<close> being below \<^verbatim>\<open>2^31\<close>.\<close>

definition frame_float :: "int \<Rightarrow> real" where
  "frame_float n = f32_round (real_of_int n)"

text \<open>The time that the function works with after it has clamped \<^verbatim>\<open>ctime\<close> to the end
  frame of the cache.\<close>

definition clamp_ctime :: "sim_env \<Rightarrow> real \<Rightarrow> real" where
  "clamp_ctime env ctime =
     (if ctime > frame_float (id_endframe env) then frame_float (id_endframe env) else ctime)"

text \<open>The last statement of \<^verbatim>\<open>BKE_rigidbody_do_simulation\<close>, \<^verbatim>\<open>if (ctime == rbw->ltime + 1
  && !(cache->flag & PTCACHE_BAKED))\<close> with its body. The sum \<^verbatim>\<open>rbw->ltime + 1\<close> is a
  \<^verbatim>\<open>float\<close> sum. \<open>None\<close> is the undefined behaviour of converting \<^verbatim>\<open>ctime\<close> to \<^verbatim>\<open>int\<close> or
  to \<^verbatim>\<open>unsigned int\<close> for the cache.\<close>

definition advance_simulation ::
    "sim_env \<Rightarrow> real \<Rightarrow> RigidBodyWorld \<times> store
      \<Rightarrow> (RigidBodyWorld \<times> store \<times> sim_event list) option" where
  "advance_simulation env ctime st =
     (let rbw = fst st; s = snd st;
          startframe' = id_startframe env
      in if f32_eq (Fin ctime) (f32_add (Fin (ltime rbw)) (Fin 1)) \<and>
            PTCACHE_BAKED \<notin> pc_flag (pointcache rbw) then
           (let ev3 =
                  (if ltime rbw = frame_float startframe' \<and>
                      (PTCACHE_OUTDATED \<in> pc_flag (pointcache rbw) \<or>
                       last_exact (pointcache rbw) = 0)
                   then [Ev_ptcache_write startframe'] else []);
                rbw3 = (if ltime rbw > frame_float startframe'
                        then rbw\<lparr>rebuild_comp_con := False\<rparr> else rbw);
                (rbw4, s4) = update_simulation env False (rbw3, s);
                timestep =
                  f32_mul (f32_mul (f32_div (Fin 1) (f32_of_real (scene_FPS env)))
                                   (f32_sub (Fin ctime) (Fin (ltime rbw4))))
                          (Fin (time_scale rbw4));
                substep =
                  f32_mul (f32_div (Fin 1) (f32_of_int (steps_per_second rbw4)))
                          (Fin (min (time_scale rbw4) 1))
            in case int_of_f32 (Fin ctime) of
                 None \<Rightarrow> None
               | Some cfra \<Rightarrow>
                   (case uint_of_f32 (Fin ctime) of
                      None \<Rightarrow> None
                    | Some ucfra \<Rightarrow>
                        Some (rbw4\<lparr>ltime := ctime\<rparr>, s4,
                              ev3 @
                              [Ev_update_simulation False,
                               Ev_step_simulation (physics_world rbw4) timestep substep,
                               Ev_update_simulation_post_step,
                               Ev_ptcache_validate cfra,
                               Ev_ptcache_write ucfra])))
         else Some (rbw, s, []))"

text \<open>\<^verbatim>\<open>BKE_rigidbody_do_simulation(scene, ctime)\<close> on the world of the scene: the world and
  the store after the call, and the calls. \<open>None\<close> is the fault of
  \<^verbatim>\<open>restoreKinematic\<close> on a world without group, or the undefined behaviour of a
  conversion of \<^verbatim>\<open>ctime\<close>.\<close>

definition BKE_rigidbody_do_simulation ::
    "sim_env \<Rightarrow> real \<Rightarrow> RigidBodyWorld \<times> store
      \<Rightarrow> (RigidBodyWorld \<times> store \<times> sim_event list) option" where
  "BKE_rigidbody_do_simulation env ctime0 st =
     (let rbw = fst st; s = snd st;
          startframe' = id_startframe env
      in if ctime0 \<le> frame_float startframe' then
           (let rbw1 = rbw\<lparr>rebuild_comp_con := True, ltime := frame_float startframe'\<rparr>
            in if object_changed rbw1 then
                 (let (rbw2, s2) = update_simulation env True
                                     (rbw1\<lparr>refresh_modifiers := True, object_changed := False\<rparr>, s)
                  in Some (rbw2, s2, [Ev_update_simulation True]))
               else Some (rbw1, s, []))
         else
           (let ctime = clamp_ctime env ctime0
            in if physics_world rbw = None \<and> PTCACHE_BAKED \<notin> pc_flag (pointcache rbw)
               then Some (rbw, s, [])
               else
                 (let (rbw1, ev1) =
                        (if objects rbw = None \<or> \<not> cache_index_map_set rbw
                         then (update_ob_array env rbw, [Ev_update_ob_array])
                         else (rbw, []))
                  in case ptcache_read env ctime s of
                       Some s_read \<Rightarrow>
                         (case int_of_f32 (Fin ctime) of
                            None \<Rightarrow> None
                          | Some cfra \<Rightarrow>
                              Some (rbw1\<lparr>ltime := ctime\<rparr>, s_read,
                                    ev1 @ [Ev_ptcache_validate cfra]))
                     | None \<Rightarrow>
                         (case (if ltime rbw1 = frame_float startframe' then
                                  (case restoreKinematic (Some rbw1) s of
                                     None \<Rightarrow> None
                                   | Some s1 \<Rightarrow>
                                       Some (update_simulation env True (rbw1, s1),
                                             [Ev_restoreKinematic, Ev_update_simulation True]))
                                else Some ((rbw1, s), [])) of
                            None \<Rightarrow> None
                          | Some (st2, ev2) \<Rightarrow>
                              (case advance_simulation env ctime st2 of
                                 None \<Rightarrow> None
                               | Some (rbw3, s3, ev3) \<Rightarrow> Some (rbw3, s3, ev1 @ ev2 @ ev3))))))"

text \<open>What the source shows of the two functions that are parameters of the model:
  neither writes \<^verbatim>\<open>rbw->ltime\<close> or the baked flag of the cache.\<close>

definition keeps_time :: "sim_env \<Rightarrow> bool" where
  "keeps_time env \<longleftrightarrow>
     (\<forall>b rbw s. ltime (fst (update_simulation env b (rbw, s))) = ltime rbw \<and>
        (PTCACHE_BAKED \<in> pc_flag (pointcache (fst (update_simulation env b (rbw, s))))
           \<longleftrightarrow> PTCACHE_BAKED \<in> pc_flag (pointcache rbw))) \<and>
     (\<forall>rbw. ltime (update_ob_array env rbw) = ltime rbw \<and>
        (PTCACHE_BAKED \<in> pc_flag (pointcache (update_ob_array env rbw))
           \<longleftrightarrow> PTCACHE_BAKED \<in> pc_flag (pointcache rbw)))"

text \<open>The condition under which the function gets to the engine step: the request is
  after the start frame, the engine world exists, the cache is not baked, the read of
  the cache at the clamped time fails, and the clamped time is the \<^verbatim>\<open>float\<close> sum
  \<^verbatim>\<open>ltime + 1\<close>.\<close>

definition engine_steps :: "sim_env \<Rightarrow> real \<Rightarrow> RigidBodyWorld \<Rightarrow> store \<Rightarrow> bool" where
  "engine_steps env ctime0 rbw s \<longleftrightarrow>
     ctime0 > frame_float (id_startframe env) \<and>
     physics_world rbw \<noteq> None \<and>
     PTCACHE_BAKED \<notin> pc_flag (pointcache rbw) \<and>
     ptcache_read env (clamp_ctime env ctime0) s = None \<and>
     f32_eq (Fin (clamp_ctime env ctime0)) (f32_add (Fin (ltime rbw)) (Fin 1))"

section \<open>Example scenes\<close>

text \<open>A small scene on which the theorems below are instantiated: object 1 is fractured
  into the shards 10 and 11, joined by the shard constraint 20; object 2 is a plain rigid
  body. Both shards are kinematic, and object 1 asks for kinematic deactivation.\<close>

definition ex_rbo :: RigidBodyOb where
  "ex_rbo = \<lparr>physics_object = None, physics_shape = None, rbo_type = RBO_TYPE_ACTIVE,
     shape = RB_SHAPE_BOX, flag = {}, col_groups = 1, mesh_source = RBO_MESH_DEFORM,
     mass = 1, friction = 1 / 2, restitution = 0, margin = 1 / 25, lin_damping = 1 / 25,
     ang_damping = 1 / 10, lin_sleep_thresh = 2 / 5, ang_sleep_thresh = 1 / 2,
     pos = (0, 0, 0), orn = (1, 0, 0, 0)\<rparr>"

definition ex_shardcon :: RigidBodyShardCon where
  "ex_shardcon = \<lparr>physics_constraint = Some 7, con_type = RBC_TYPE_FIXED,
     con_flag = {RBC_FLAG_ENABLED, RBC_FLAG_USE_BREAKING}, breaking_threshold = 1,
     num_solver_iterations = 10,
     limit_lin_x_lower = -1, limit_lin_x_upper = 1, limit_lin_y_lower = -1,
     limit_lin_y_upper = 1, limit_lin_z_lower = -1, limit_lin_z_upper = 1,
     limit_ang_x_lower = -1, limit_ang_x_upper = 1, limit_ang_y_lower = -1,
     limit_ang_y_upper = 1, limit_ang_z_lower = -1, limit_ang_z_upper = 1,
     spring_stiffness_x = 10, spring_stiffness_y = 10, spring_stiffness_z = 10,
     spring_damping_x = 1 / 2, spring_damping_y = 1 / 2, spring_damping_z = 1 / 2,
     motor_lin_max_impulse = 1, motor_ang_max_impulse = 1,
     motor_lin_target_velocity = 1, motor_ang_target_velocity = 1,
     mi1 = Some 10, mi2 = Some 11, start_dist = 0, start_angle = 0\<rparr>"

definition ex_island :: MeshIsland where
  "ex_island = \<lparr>rigidbody = Some (ex_rbo\<lparr>flag := {RBO_FLAG_KINEMATIC}\<rparr>),
     physics_mesh = None, participating_constraints = [Some 20], thresh_weight = 1,
     linear_index = 0, start_frame = 1, frame_count = 0, centroid = (0, 0, 0)\<rparr>"

definition ex_fmd :: FractureModifierData where
  "ex_fmd = \<lparr>mode = {eModifierMode_Realtime, eModifierMode_Render}, refresh = False,
     meshIslands = [10, 11], meshConstraints = [20], use_constraints = False,
     use_mass_dependent_thresholds = True, fmd_breaking_threshold = 10,
     breaking_percentage = 50, breaking_percentage_weighted = False\<rparr>"

definition ex_object :: Object where
  "ex_object = \<lparr>rigidbody_object = Some ex_rbo, rigidbody_constraint = None,
     modifiers = [], ob_type = OB_MESH, protectflag = {}, ob_loc = (0, 0, 0),
     ob_rot = (1, 0, 0, 0), boundbox = Some (2, 2, 2), data = None,
     derivedDeform = None, derivedFinal = None, dimensions = (2, 2, 2)\<rparr>"

definition ex_fractured :: Object where
  "ex_fractured = ex_object\<lparr>
     rigidbody_object :=
       Some (ex_rbo\<lparr>flag := {RBO_FLAG_KINEMATIC, RBO_FLAG_USE_KINEMATIC_DEACTIVATION}\<rparr>),
     modifiers := [OtherModifier, Fracture ex_fmd]\<rparr>"

definition ex_store :: store where
  "ex_store = \<lparr>
     object_at = (\<lambda>a. ex_object)(1 := ex_fractured),
     island_at = (\<lambda>a. ex_island)(11 := ex_island\<lparr>linear_index := 1\<rparr>),
     shardcon_at = (\<lambda>a. ex_shardcon)\<rparr>"

definition ex_world :: RigidBodyWorld where
  "ex_world = \<lparr>physics_world = Some 100, group = Some [Some 1, Some 2],
     constraints = None,
     pointcache = \<lparr>pc_flag = {}, startframe = 1, endframe = 250, last_exact = 0\<rparr>,
     rbw_flag = {}, objects = Some [Some 1, Some 2], cache_index_map_set = True,
     cache_offset_map = Some [0, 0, 1], numbodies = 3, ltime = 1, time_scale = 1,
     steps_per_second = 60, object_changed = False, refresh_modifiers = False,
     rebuild_comp_con = False\<rparr>"

text \<open>The store after the collision filter has seen shard 10 against object 2.\<close>

definition ex_store_woken :: store where
  "ex_store_woken = ex_store\<lparr>
     island_at := (island_at ex_store)
       (10 := ex_island\<lparr>rigidbody := Some (ex_rbo\<lparr>flag :=
          {RBO_FLAG_NEEDS_VALIDATE, RBO_FLAG_KINEMATIC_REBUILD}\<rparr>)\<rparr>),
     shardcon_at := (shardcon_at ex_store)
       (20 := ex_shardcon\<lparr>con_flag :=
          {RBC_FLAG_USE_KINEMATIC_DEACTIVATION, RBC_FLAG_NEEDS_VALIDATE,
           RBC_FLAG_ENABLED, RBC_FLAG_USE_BREAKING}\<rparr>)\<rparr>"

text \<open>The macros for the examples, and a unit cube as the mesh of an object.\<close>

definition ex_macros :: macros where
  "ex_macros = \<lparr>INIT_MINMAX = ((10 ^ 30, 10 ^ 30, 10 ^ 30), (- (10 ^ 30), - (10 ^ 30), - (10 ^ 30))),
     RBO_GET_MASS = mass, RBO_GET_MARGIN = margin\<rparr>"

definition ex_cube :: DerivedMesh where
  "ex_cube = \<lparr>verts = [(0, 0, 0), (1, 1, 1)], tessfaces = []\<rparr>"

text \<open>An engine that makes boxes only, and an object whose convex hull cannot be built
  (it has no mesh) while it still holds an older shape.\<close>

definition ex_engine :: engine where
  "ex_engine = \<lparr>
     shape_new = (\<lambda>q. case q of RB_shape_new_box x y z \<Rightarrow> Some 41 | _ \<Rightarrow> None),
     hull_can_embed = (\<lambda>vs m. True), body_new = 42, constraint_new = 43\<rparr>"

definition ex_hull_object :: Object where
  "ex_hull_object = ex_object\<lparr>rigidbody_object :=
     Some (ex_rbo\<lparr>shape := RB_SHAPE_CONVEXH, physics_shape := Some 3\<rparr>)\<rparr>"

definition ex_sphere_object :: Object where
  "ex_sphere_object = ex_object\<lparr>rigidbody_object := Some (ex_rbo\<lparr>shape := RB_SHAPE_SPHERE\<rparr>)\<rparr>"

definition ex_sphere_shard :: MeshIsland where
  "ex_sphere_shard = ex_island\<lparr>
     rigidbody := Some (ex_rbo\<lparr>shape := RB_SHAPE_SPHERE, physics_shape := Some 3\<rparr>),
     physics_mesh := Some ex_cube\<rparr>"




text \<open>An object constraint whose second endpoint is missing, on object 5, and a shard
  constraint whose second shard is missing, at address 22.\<close>

definition ex_con :: RigidBodyCon where
  "ex_con = \<lparr>physics_constraint = Some 8, con_type = RBC_TYPE_HINGE,
     con_flag = {RBC_FLAG_ENABLED, RBC_FLAG_DISABLE_COLLISIONS}, breaking_threshold = 10,
     num_solver_iterations = 10,
     limit_lin_x_lower = -1, limit_lin_x_upper = 1, limit_lin_y_lower = -1,
     limit_lin_y_upper = 1, limit_lin_z_lower = -1, limit_lin_z_upper = 1,
     limit_ang_x_lower = -1, limit_ang_x_upper = 1, limit_ang_y_lower = -1,
     limit_ang_y_upper = 1, limit_ang_z_lower = -1, limit_ang_z_upper = 1,
     spring_stiffness_x = 10, spring_stiffness_y = 10, spring_stiffness_z = 10,
     spring_damping_x = 1 / 2, spring_damping_y = 1 / 2, spring_damping_z = 1 / 2,
     motor_lin_max_impulse = 1, motor_ang_max_impulse = 1,
     motor_lin_target_velocity = 1, motor_ang_target_velocity = 1,
     ob1 = Some 2, ob2 = None\<rparr>"

definition ex_con_store :: store where
  "ex_con_store = ex_store\<lparr>
     object_at := (object_at ex_store)(5 := ex_object\<lparr>rigidbody_constraint := Some ex_con\<rparr>),
     shardcon_at := (shardcon_at ex_store)(22 := ex_shardcon\<lparr>mi2 := None\<rparr>)\<rparr>"

text \<open>A fractured object with three shards of masses 1, 1 and 3: constraint 20 joins the
  shards 10 and 11, constraint 21 the shards 11 and 12. The same object with shards of
  masses \<^verbatim>\<open>2^126\<close>, \<^verbatim>\<open>2^127\<close> and \<^verbatim>\<open>2^127\<close>.\<close>

definition ex_mass_fmd :: FractureModifierData where
  "ex_mass_fmd = ex_fmd\<lparr>meshIslands := [10, 11, 12], meshConstraints := [20, 21]\<rparr>"

definition ex_mass_object :: Object where
  "ex_mass_object = ex_object\<lparr>modifiers := [Fracture ex_mass_fmd]\<rparr>"

definition ex_mass_store :: store where
  "ex_mass_store = \<lparr>
     object_at = (\<lambda>a. ex_mass_object),
     island_at = (\<lambda>a. ex_island)
       (12 := ex_island\<lparr>rigidbody := Some (ex_rbo\<lparr>mass := 3\<rparr>)\<rparr>),
     shardcon_at = (\<lambda>a. ex_shardcon)(21 := ex_shardcon\<lparr>mi1 := Some 11, mi2 := Some 12\<rparr>)\<rparr>"

definition ex_huge_store :: store where
  "ex_huge_store = ex_mass_store\<lparr>
     island_at := (\<lambda>a. ex_island\<lparr>rigidbody := Some (ex_rbo\<lparr>mass := 2 ^ 127\<rparr>)\<rparr>)
       (10 := ex_island\<lparr>rigidbody := Some (ex_rbo\<lparr>mass := 2 ^ 126\<rparr>)\<rparr>)\<rparr>"






text \<open>A shard with the two constraints 20 and 21: the engine constraint 7 of the first
  is disabled, the engine constraint 8 of the second is enabled.\<close>

definition ex_break_store :: store where
  "ex_break_store = ex_store\<lparr>shardcon_at :=
     (shardcon_at ex_store)(21 := ex_shardcon\<lparr>physics_constraint := Some 8\<rparr>)\<rparr>"

definition ex_break_shard :: MeshIsland where
  "ex_break_shard = ex_island\<lparr>participating_constraints := [Some 20, Some 21]\<rparr>"

text \<open>A shard with the hundred constraints 0 to 99, the constraint \<open>c\<close> with the engine
  constraint \<open>c\<close>, under a modifier with the breaking percentage 53.\<close>

definition ex_percent_fmd :: FractureModifierData where
  "ex_percent_fmd = ex_fmd\<lparr>breaking_percentage := 53\<rparr>"

definition ex_percent_store :: store where
  "ex_percent_store = ex_store\<lparr>shardcon_at :=
     (\<lambda>c. ex_shardcon\<lparr>physics_constraint := Some c\<rparr>)\<rparr>"

definition ex_percent_shard :: MeshIsland where
  "ex_percent_shard = ex_island\<lparr>participating_constraints := map Some [0..<100]\<rparr>"

text \<open>A world that has been simulated up to frame 9 of a cache over the frames 1 to 10,
  at 24 frames per second, with an empty cache; the two functions that are parameters
  leave the world and the store as they are.\<close>

definition ex_env :: sim_env where
  "ex_env = \<lparr>id_startframe = 1, id_endframe = 10, scene_FPS = 24,
     ptcache_read = (\<lambda>ctime s. None),
     update_simulation = (\<lambda>rebuild st. st),
     update_ob_array = (\<lambda>rbw. rbw)\<rparr>"

definition ex_sim_world :: RigidBodyWorld where
  "ex_sim_world = ex_world\<lparr>ltime := 9\<rparr>"

section \<open>Verification\<close>





subsection \<open>Collision groups and the collision filter\<close>

lemma and_bit_cases:
  "(g :: 32 word) AND 2 ^ i = (if bit g i then 2 ^ i else 0)"
  by (rule bit_word_eqI) (auto simp: bit_simps)

lemma sint_bit: "i < 20 \<Longrightarrow> sint (2 ^ i :: 32 word) = 2 ^ i"
proof -
  assume a: "i < 20"
  have "bit (sint (2 ^ i :: 32 word)) n = bit (2 ^ i :: int) n" for n
    using a by (auto simp: bit_simps bit_sint_iff)
  then show ?thesis by (rule bit_eqI)
qed

lemma pos_bit: "i < 20 \<Longrightarrow> 0 <s (2 ^ i :: 32 word)"
  by (simp add: word_sless_alt sint_bit)

lemma nz_bit: "i < 20 \<Longrightarrow> (2 ^ i :: 32 word) \<noteq> 0"
  using pos_bit[of i] by auto

lemma colgroup_loop_iff:
  "colgroup_loop i g1 g2 \<longleftrightarrow> (\<exists>j. i \<le> j \<and> j < 20 \<and> bit g1 j \<and> bit g2 j)"
proof (induction i g1 g2 rule: colgroup_loop.induct)
  case (1 i g1 g2)
  show ?case
  proof (cases "i < 20")
    case False
    then show ?thesis by (subst colgroup_loop.simps) auto
  next
    case True
    note lt = this
    show ?thesis
    proof (cases "bit g1 i \<and> bit g2 i")
      case True
      then have "colgroup_loop i g1 g2"
        using lt pos_bit[of i] by (subst colgroup_loop.simps) (simp add: and_bit_cases Let_def)
      then show ?thesis using True lt by auto
    next
      case False
      then have nb: "\<not> (0 <s (g1 AND 2 ^ i) \<and> g1 AND 2 ^ i = g2 AND 2 ^ i)"
        using lt nz_bit[of i] by (auto simp: and_bit_cases word_sless_alt)
      have "colgroup_loop i g1 g2 = colgroup_loop (Suc i) g1 g2"
        using lt nb by (subst colgroup_loop.simps) (auto simp: Let_def)
      also have "\<dots> = (\<exists>j. Suc i \<le> j \<and> j < 20 \<and> bit g1 j \<and> bit g2 j)"
        using "1.IH"[OF lt refl refl] nb by simp
      also have "\<dots> = (\<exists>j. i \<le> j \<and> j < 20 \<and> bit g1 j \<and> bit g2 j)"
        using False by (metis Suc_leD Suc_le_eq le_neq_implies_less)
      finally show ?thesis .
    qed
  qed
qed

lemma colgroup_check_iff: "colgroup_check g1 g2 \<longleftrightarrow> (g1 AND g2 AND mask 20 \<noteq> 0)"
proof -
  have "(g1 AND g2 AND mask 20 \<noteq> 0) \<longleftrightarrow> (\<exists>j. j < 20 \<and> bit g1 j \<and> bit g2 j)"
    by (simp add: bit_eq_iff bit_simps) force
  then show ?thesis
    by (simp add: colgroup_check_def colgroup_loop_iff)
qed

lemma filter_islands_frame:
  "filter_islands self mis s = Some s' \<Longrightarrow>
     object_at s' = object_at s \<and> shardcon_at s' = shardcon_at s"
  by (induction mis arbitrary: s) (auto split: option.splits if_splits)

lemma filter_constraints_frame:
  "filter_constraints w cs s = (s', calls) \<Longrightarrow>
     object_at s' = object_at s \<and> island_at s' = island_at s"
  by (induction cs arbitrary: s s' calls) (auto simp: Let_def split: prod.splits)

lemma filter_wake_col_groups:
  assumes "filter_wake w oa ob self s = Some (s', calls)"
  shows "ob_col_groups s' p = ob_col_groups s p"
  using assms
  by (cases p)
     (auto simp: filter_wake_def ob_col_groups_def ob_rigidbody_def Let_def
           dest!: filter_islands_frame filter_constraints_frame
           split: option.splits if_splits)

lemma filter_wake_groups_collide:
  assumes "filter_wake w oa ob self s = Some (s', calls)"
  shows "groups_collide s' p q = groups_collide s p q"
  by (simp add: groups_collide_def filter_wake_col_groups[OF assms] split: option.splits)

lemma filterCallback_result:
  assumes "filterCallback s (Some rbw) island1 island2 blenderOb1 blenderOb2 = Some (r, s', calls)"
  shows "\<exists>i1 o1 i2 o2 b.
           filter_owner s rbw island1 blenderOb1 = Some (i1, o1) \<and>
           filter_owner s rbw island2 blenderOb2 = Some (i2, o2) \<and>
           groups_collide s o1 o2 = Some b \<and> r = (if b then 1 else 0)"
  using assms
  by (auto simp: filterCallback_def filter_wake_groups_collide
           split: option.splits if_splits prod.splits)


lemma kinematic_wake_flags:
  "RBO_FLAG_KINEMATIC \<notin> kinematic_wake f"
  "RBO_FLAG_KINEMATIC_REBUILD \<in> kinematic_wake f"
  "RBO_FLAG_NEEDS_VALIDATE \<in> kinematic_wake f"
  "RBO_FLAG_USE_KINEMATIC_DEACTIVATION \<in> kinematic_wake f \<longleftrightarrow> RBO_FLAG_USE_KINEMATIC_DEACTIVATION \<in> f"
  by (auto simp: kinematic_wake_def)


lemma filter_islands_Cons:
  "filter_islands self (x # xs) s = Some s' \<Longrightarrow>
     \<exists>rx. rigidbody (island_at s x) = Some rx \<and>
       filter_islands self xs
         (if RBO_FLAG_KINEMATIC \<in> flag rx \<and> self = Some x then wake_island x s else s) = Some s'"
  by (auto simp: wake_island_def split: option.splits if_splits)

lemma wake_island_other: "m \<noteq> x \<Longrightarrow> island_at (wake_island x s) m = island_at s m"
  by (simp add: wake_island_def split: option.splits)

lemma wake_island_self:
  "rigidbody (island_at s x) = Some r0 \<Longrightarrow>
     rigidbody (island_at (wake_island x s) x) = Some (r0\<lparr>flag := kinematic_wake (flag r0)\<rparr>)"
  by (simp add: wake_island_def)

lemma filter_islands_other:
  "filter_islands self mis s = Some s' \<Longrightarrow> Some m \<noteq> self \<Longrightarrow> island_at s' m = island_at s m"
proof (induction mis arbitrary: s)
  case Nil
  then show ?case by simp
next
  case (Cons x xs)
  from filter_islands_Cons[OF Cons.prems(1)] obtain rx where
    rx: "rigidbody (island_at s x) = Some rx" and
    run: "filter_islands self xs
            (if RBO_FLAG_KINEMATIC \<in> flag rx \<and> self = Some x then wake_island x s else s) = Some s'"
    by blast
  from Cons.IH[OF run Cons.prems(2)] Cons.prems(2) show ?case
    by (auto simp: wake_island_other split: if_splits)
qed

lemma filter_islands_dynamic:
  "filter_islands self mis s = Some s' \<Longrightarrow> rigidbody (island_at s m) = Some r0 \<Longrightarrow>
     RBO_FLAG_KINEMATIC \<notin> flag r0 \<Longrightarrow> island_at s' m = island_at s m"
proof (induction mis arbitrary: s)
  case Nil
  then show ?case by simp
next
  case (Cons x xs)
  from filter_islands_Cons[OF Cons.prems(1)] obtain rx where
    rx: "rigidbody (island_at s x) = Some rx" and
    run: "filter_islands self xs
            (if RBO_FLAG_KINEMATIC \<in> flag rx \<and> self = Some x then wake_island x s else s) = Some s'"
      (is "filter_islands self xs ?s1 = Some s'")
    by blast
  have keep: "island_at ?s1 m = island_at s m"
    using rx Cons.prems(2,3) by (cases "m = x") (auto simp: wake_island_other)
  from Cons.IH[OF run] keep Cons.prems(2,3) show ?case by simp
qed

lemma filter_islands_self:
  "filter_islands (Some m) mis s = Some s' \<Longrightarrow> m \<in> set mis \<Longrightarrow>
     rigidbody (island_at s m) = Some r0 \<Longrightarrow> RBO_FLAG_KINEMATIC \<in> flag r0 \<Longrightarrow>
     rigidbody (island_at s' m) = Some (r0\<lparr>flag := kinematic_wake (flag r0)\<rparr>)"
proof (induction mis arbitrary: s)
  case Nil
  then show ?case by simp
next
  case (Cons x xs)
  from filter_islands_Cons[OF Cons.prems(1)] obtain rx where
    rx: "rigidbody (island_at s x) = Some rx" and
    run: "filter_islands (Some m) xs
            (if RBO_FLAG_KINEMATIC \<in> flag rx \<and> Some m = Some x then wake_island x s else s) = Some s'"
      (is "filter_islands (Some m) xs ?s1 = Some s'")
    by blast
  show ?case
  proof (cases "x = m")
    case True
    with rx Cons.prems have s1: "?s1 = wake_island m s" by simp
    have woke: "rigidbody (island_at ?s1 m) = Some (r0\<lparr>flag := kinematic_wake (flag r0)\<rparr>)"
      unfolding s1 by (rule wake_island_self) (rule Cons.prems(3))
    have "island_at s' m = island_at ?s1 m"
      by (rule filter_islands_dynamic[OF run woke]) (simp add: kinematic_wake_flags)
    with woke show ?thesis by simp
  next
    case False
    then have s1: "?s1 = s" by auto
    from False Cons.prems(2) have "m \<in> set xs" by simp
    from Cons.IH[OF run[unfolded s1] this Cons.prems(3,4)] show ?thesis .
  qed
qed


lemma filter_constraints_Cons:
  "filter_constraints w (c # cs) s = (s', calls) \<Longrightarrow>
     \<exists>calls'. filter_constraints w cs (flag_con c s) = (s', calls') \<and>
        calls = RB_dworld_remove_constraint w (physics_constraint (shardcon_at s c)) # calls'"
  by (auto simp: flag_con_def Let_def split: prod.splits)

lemma filter_constraints_mono:
  "filter_constraints w cs s = (s', calls) \<Longrightarrow>
     con_flag (shardcon_at s c) \<subseteq> con_flag (shardcon_at s' c)"
proof (induction cs arbitrary: s calls)
  case Nil
  then show ?case by simp
next
  case (Cons x xs)
  from filter_constraints_Cons[OF Cons.prems] obtain calls' where
    run: "filter_constraints w xs (flag_con x s) = (s', calls')" by blast
  have "con_flag (shardcon_at s c) \<subseteq> con_flag (shardcon_at (flag_con x s) c)"
    by (auto simp: flag_con_def)
  with Cons.IH[OF run] show ?case by blast
qed

lemma filter_constraints_flagged:
  "filter_constraints w cs s = (s', calls) \<Longrightarrow> c \<in> set cs \<Longrightarrow>
     RBC_FLAG_NEEDS_VALIDATE \<in> con_flag (shardcon_at s' c) \<and>
     RBC_FLAG_USE_KINEMATIC_DEACTIVATION \<in> con_flag (shardcon_at s' c)"
proof (induction cs arbitrary: s calls)
  case Nil
  then show ?case by simp
next
  case (Cons x xs)
  from filter_constraints_Cons[OF Cons.prems(1)] obtain calls' where
    run: "filter_constraints w xs (flag_con x s) = (s', calls')" by blast
  show ?case
  proof (cases "c = x")
    case True
    have "RBC_FLAG_NEEDS_VALIDATE \<in> con_flag (shardcon_at (flag_con x s) c) \<and>
          RBC_FLAG_USE_KINEMATIC_DEACTIVATION \<in> con_flag (shardcon_at (flag_con x s) c)"
      using True by (simp add: flag_con_def)
    with filter_constraints_mono[OF run, of c] show ?thesis by blast
  next
    case False
    with Cons.prems(2) have "c \<in> set xs" by simp
    from Cons.IH[OF run this] show ?thesis .
  qed
qed




lemma filter_wake_islands_other:
  assumes "filter_wake w oa ob self s = Some (s', calls)" and "Some m \<noteq> self"
  shows "island_at s' m = island_at s m"
  using assms
  by (auto simp: filter_wake_def Let_def
           dest!: filter_constraints_frame dest: filter_islands_other
           split: option.splits if_splits)

lemma filter_wake_con_mono:
  assumes "filter_wake w oa ob self s = Some (s', calls)"
  shows "con_flag (shardcon_at s c) \<subseteq> con_flag (shardcon_at s' c)"
proof -
  have "\<And>s1. filter_islands self mis s = Some s1 \<Longrightarrow> shardcon_at s1 = shardcon_at s" for mis
    by (drule filter_islands_frame) simp
  with assms show ?thesis
    by (auto simp: filter_wake_def Let_def
           dest!: filter_constraints_mono[where c = c]
           split: option.splits if_splits)
qed

lemma filter_wake_has_flag:
  assumes "filter_wake w oa ob self s = Some (s', calls)"
  shows "ob_has_flag s' p RBO_FLAG_USE_KINEMATIC_DEACTIVATION =
         ob_has_flag s p RBO_FLAG_USE_KINEMATIC_DEACTIVATION"
  using assms
  by (cases p)
     (auto simp: filter_wake_def ob_has_flag_def ob_rigidbody_def Let_def kinematic_wake_flags
           dest!: filter_islands_frame filter_constraints_frame
           split: option.splits if_splits)

lemma filter_wake_fractured:
  assumes "filter_wake w oa ob self s = Some (s', calls)"
    and "modifiers_findByType_Fracture (modifiers (object_at s b)) = Some fmd"
  shows "object_at s' b = object_at s b"
  using assms
  by (auto simp: filter_wake_def Let_def
           dest!: filter_islands_frame filter_constraints_frame
           split: option.splits if_splits)

lemma filter_wake_effect:
  assumes run: "filter_wake w (Some a) ob self s = Some (s', calls)"
    and en: "wake_enabled s a ob fmd"
  shows "woken s s' self fmd"
proof -
  from en obtain rbo where
    rbo: "rigidbody_object (object_at s a) = Some rbo"
      "RBO_FLAG_USE_KINEMATIC_DEACTIVATION \<in> flag rbo" and
    fmd: "modifiers_findByType_Fracture (modifiers (object_at s a)) = Some fmd" and
    dis: "ob_has_flag s ob RBO_FLAG_USE_KINEMATIC_DEACTIVATION = Some True \<or> \<not> use_constraints fmd"
    by (auto simp: wake_enabled_def ob_has_flag_def ob_rigidbody_def)
  from run rbo fmd dis obtain s1 where
    isl: "filter_islands self (meshIslands fmd) s = Some s1" and
    con: "filter_constraints w (meshConstraints fmd) s1 = (s', calls)"
    by (auto simp: filter_wake_def Let_def split: option.splits if_splits)
  have cons: "\<forall>c \<in> set (meshConstraints fmd).
        RBC_FLAG_NEEDS_VALIDATE \<in> con_flag (shardcon_at s' c) \<and>
        RBC_FLAG_USE_KINEMATIC_DEACTIVATION \<in> con_flag (shardcon_at s' c)"
    using filter_constraints_flagged[OF con] by blast
  have isls: "rigidbody (island_at s' m) = Some (r0\<lparr>flag := kinematic_wake (flag r0)\<rparr>)"
    if "self = Some m" "m \<in> set (meshIslands fmd)" "rigidbody (island_at s m) = Some r0"
       "RBO_FLAG_KINEMATIC \<in> flag r0" for m r0
  proof -
    have "rigidbody (island_at s1 m) = Some (r0\<lparr>flag := kinematic_wake (flag r0)\<rparr>)"
      using filter_islands_self[OF isl[unfolded that(1)] that(2,3,4)] .
    moreover have "island_at s' = island_at s1"
      using filter_constraints_frame[OF con] by simp
    ultimately show ?thesis by simp
  qed
  show ?thesis
    unfolding woken_def using cons isls by blast
qed


lemma filterCallback_valid_runs:
  assumes run: "filterCallback s (Some rbw) island1 island2 blenderOb1 blenderOb2 = Some (r, s', calls)"
    and own1: "filter_owner s rbw island1 blenderOb1 = Some (x1, o1)"
    and own2: "filter_owner s rbw island2 blenderOb2 = Some (x2, o2)"
    and valid: "filter_validOb s island1 island2 x1 x2 o1 o2 = Some True"
  shows "\<exists>s1 c1 c2. filter_wake (physics_world rbw) o1 o2 island1 s = Some (s1, c1) \<and>
           filter_wake (physics_world rbw) o2 o1 island2 s1 = Some (s', c2) \<and> calls = c1 @ c2"
  using assms
  by (auto simp: filterCallback_def split: option.splits if_splits prod.splits)

lemma filterCallback_invalid:
  assumes run: "filterCallback s (Some rbw) island1 island2 blenderOb1 blenderOb2 = Some (r, s', calls)"
    and own1: "filter_owner s rbw island1 blenderOb1 = Some (x1, o1)"
    and own2: "filter_owner s rbw island2 blenderOb2 = Some (x2, o2)"
    and valid: "filter_validOb s island1 island2 x1 x2 o1 o2 = Some False"
  shows "s' = s \<and> calls = []"
  using assms
  by (auto simp: filterCallback_def split: option.splits if_splits prod.splits)

lemma filterCallback_others:
  assumes run: "filterCallback s world island1 island2 blenderOb1 blenderOb2 = Some (r, s', calls)"
    and m: "Some m \<noteq> island1" "Some m \<noteq> island2"
  shows "island_at s' m = island_at s m"
proof (cases world)
  case None
  with run show ?thesis by (simp add: filterCallback_def)
next
  case (Some rbw)
  from run[unfolded Some] obtain x1 o1 x2 o2 v where
    own1: "filter_owner s rbw island1 blenderOb1 = Some (x1, o1)" and
    own2: "filter_owner s rbw island2 blenderOb2 = Some (x2, o2)" and
    v: "filter_validOb s island1 island2 x1 x2 o1 o2 = Some v"
    by (auto simp: filterCallback_def split: option.splits prod.splits)
  show ?thesis
  proof (cases v)
    case False
    with filterCallback_invalid[OF run[unfolded Some] own1 own2] v show ?thesis by simp
  next
    case True
    with filterCallback_valid_runs[OF run[unfolded Some] own1 own2] v obtain s1 c1 c2 where
      w1: "filter_wake (physics_world rbw) o1 o2 island1 s = Some (s1, c1)" and
      w2: "filter_wake (physics_world rbw) o2 o1 island2 s1 = Some (s', c2)"
      by auto
    from filter_wake_islands_other[OF w2 m(2)] filter_wake_islands_other[OF w1 m(1)]
    show ?thesis by simp
  qed
qed

lemma filter_owner_same_island:
  assumes "filter_owner s rbw (Some m) b1 = Some (x1, o1)"
    and "filter_owner s rbw (Some m) b2 = Some (x2, o2)"
  shows "x1 = x2"
  using assms by (auto simp: filter_owner_def Let_def split: option.splits if_splits)

lemma filter_validOb_distinct:
  assumes own1: "filter_owner s rbw island1 blenderOb1 = Some (x1, o1)"
    and own2: "filter_owner s rbw island2 blenderOb2 = Some (x2, o2)"
    and valid: "filter_validOb s island1 island2 x1 x2 o1 o2 = Some True"
    and m: "island1 = Some m"
  shows "island2 \<noteq> Some m"
proof
  assume eq: "island2 = Some m"
  from filter_owner_same_island[OF own1[unfolded m] own2[unfolded eq]] have "x1 = x2" .
  with valid m eq show False
    by (simp add: filter_validOb_def and_then_def)
qed

text \<open>
  Claim C5, as the code has it. When the filter accepts a pair (\<^verbatim>\<open>validOb\<close>) and the
  enabling conditions hold for the owner of a side, the callback makes the shard of the
  pair on that side dynamic if it is a kinematic shard of the owner, and flags every
  constraint of the owner for validation and for a kinematic-deactivation rebuild. No
  other shard is written: the sibling shards of the owner keep their kinematic flag.
\<close>

theorem filterCallback_wakes_participant:
  assumes run: "filterCallback s (Some rbw) island1 island2 blenderOb1 blenderOb2 = Some (r, s', calls)"
    and own1: "filter_owner s rbw island1 blenderOb1 = Some (x1, o1)"
    and own2: "filter_owner s rbw island2 blenderOb2 = Some (x2, o2)"
    and valid: "filter_validOb s island1 island2 x1 x2 o1 o2 = Some True"
  shows "(\<forall>m. Some m \<noteq> island1 \<and> Some m \<noteq> island2 \<longrightarrow> island_at s' m = island_at s m) \<and>
         (\<forall>a fmd. o1 = Some a \<and> wake_enabled s a o2 fmd \<longrightarrow> woken s s' island1 fmd) \<and>
         (\<forall>b fmd. o2 = Some b \<and> wake_enabled s b o1 fmd \<longrightarrow> woken s s' island2 fmd)"
proof -
  from filterCallback_valid_runs[OF run own1 own2 valid] obtain s1 c1 c2 where
    w1: "filter_wake (physics_world rbw) o1 o2 island1 s = Some (s1, c1)" and
    w2: "filter_wake (physics_world rbw) o2 o1 island2 s1 = Some (s', c2)"
    by blast
  have others: "\<forall>m. Some m \<noteq> island1 \<and> Some m \<noteq> island2 \<longrightarrow> island_at s' m = island_at s m"
    using filterCallback_others[OF run] by blast
  have side1: "woken s s' island1 fmd" if o1: "o1 = Some a" and en: "wake_enabled s a o2 fmd" for a fmd
  proof -
    have wk: "woken s s1 island1 fmd"
      by (rule filter_wake_effect[OF w1[unfolded o1] en])
    have isl: "island_at s' m = island_at s1 m" if "island1 = Some m" for m
    proof -
      have "island2 \<noteq> Some m"
        by (rule filter_validOb_distinct[OF own1 own2 valid that])
      then show ?thesis using filter_wake_islands_other[OF w2, of m] by auto
    qed
    show ?thesis
      unfolding woken_def
    proof (intro conjI ballI allI impI)
      fix c assume "c \<in> set (meshConstraints fmd)"
      with wk have "RBC_FLAG_NEEDS_VALIDATE \<in> con_flag (shardcon_at s1 c) \<and>
        RBC_FLAG_USE_KINEMATIC_DEACTIVATION \<in> con_flag (shardcon_at s1 c)"
        by (simp add: woken_def)
      with filter_wake_con_mono[OF w2, of c]
      show "RBC_FLAG_NEEDS_VALIDATE \<in> con_flag (shardcon_at s' c)"
        and "RBC_FLAG_USE_KINEMATIC_DEACTIVATION \<in> con_flag (shardcon_at s' c)" by auto
    next
      fix m r0
      assume h: "island1 = Some m \<and> m \<in> set (meshIslands fmd) \<and>
        rigidbody (island_at s m) = Some r0 \<and> RBO_FLAG_KINEMATIC \<in> flag r0"
      with wk have "rigidbody (island_at s1 m) = Some (r0\<lparr>flag := kinematic_wake (flag r0)\<rparr>)"
        unfolding woken_def by blast
      with isl[of m] h show "rigidbody (island_at s' m) = Some (r0\<lparr>flag := kinematic_wake (flag r0)\<rparr>)"
        by simp
    qed
  qed
  have side2: "woken s s' island2 fmd" if o2: "o2 = Some b" and en: "wake_enabled s b o1 fmd" for b fmd
  proof -
    from en have fmd: "modifiers_findByType_Fracture (modifiers (object_at s b)) = Some fmd"
      by (simp add: wake_enabled_def)
    have ob: "object_at s1 b = object_at s b"
      by (rule filter_wake_fractured[OF w1 fmd])
    have en1: "wake_enabled s1 b o1 fmd"
      using en ob filter_wake_has_flag[OF w1]
      by (simp add: wake_enabled_def)
    have wk: "woken s1 s' island2 fmd"
      by (rule filter_wake_effect[OF w2[unfolded o2] en1])
    have isl: "island_at s1 m = island_at s m" if "island2 = Some m" for m
    proof -
      have "island1 \<noteq> Some m"
      proof
        assume "island1 = Some m"
        from filter_validOb_distinct[OF own1 own2 valid this] that show False by simp
      qed
      then show ?thesis using filter_wake_islands_other[OF w1, of m] by auto
    qed
    show ?thesis
      unfolding woken_def
    proof (intro conjI ballI allI impI)
      fix c assume "c \<in> set (meshConstraints fmd)"
      with wk show "RBC_FLAG_NEEDS_VALIDATE \<in> con_flag (shardcon_at s' c)"
        and "RBC_FLAG_USE_KINEMATIC_DEACTIVATION \<in> con_flag (shardcon_at s' c)"
        by (simp_all add: woken_def)
    next
      fix m r0
      assume h: "island2 = Some m \<and> m \<in> set (meshIslands fmd) \<and>
        rigidbody (island_at s m) = Some r0 \<and> RBO_FLAG_KINEMATIC \<in> flag r0"
      with isl[of m] have "island2 = Some m \<and> m \<in> set (meshIslands fmd) \<and>
        rigidbody (island_at s1 m) = Some r0 \<and> RBO_FLAG_KINEMATIC \<in> flag r0" by simp
      with wk show "rigidbody (island_at s' m) = Some (r0\<lparr>flag := kinematic_wake (flag r0)\<rparr>)"
        unfolding woken_def by blast
    qed
  qed
  from others side1 side2 show ?thesis by blast
qed

lemmas ex_defs = ex_store_def ex_store_woken_def ex_world_def ex_object_def ex_fractured_def
  ex_fmd_def ex_island_def ex_shardcon_def ex_rbo_def

lemmas filter_defs = filterCallback_def filter_owner_def filter_validOb_def groups_collide_def
  ob_col_groups_def ob_rigidbody_def ob_has_flag_def mi_has_flag_def and_then_def or_else_def
  filter_wake_def kinematic_wake_def Let_def colgroup_check_def colgroup_loop.simps word_sless_alt

lemma ex_filter_run:
  "filterCallback ex_store (Some ex_world) (Some 10) None None (Some 2)
     = Some (1, ex_store_woken, [RB_dworld_remove_constraint (Some 100) (Some 7)])"
  by (simp add: filter_defs ex_defs)

text \<open>The theorem on the example scene: shard 10 of object 1 meets object 2.\<close>

theorem filterCallback_wakes_participant_witness:
  "island_at ex_store_woken 11 = island_at ex_store 11 \<and>
   woken ex_store ex_store_woken (Some 10) ex_fmd"
proof -
  have own1: "filter_owner ex_store ex_world (Some 10) None = Some (Some 0, Some 1)"
    by (simp add: filter_defs ex_defs)
  have own2: "filter_owner ex_store ex_world None (Some 2) = Some (None, Some 2)"
    by (simp add: filter_defs ex_defs)
  have valid: "filter_validOb ex_store (Some 10) None (Some 0) None (Some 1) (Some 2) = Some True"
    by (simp add: filter_defs ex_defs)
  have en: "wake_enabled ex_store 1 (Some 2) ex_fmd"
    by (simp add: wake_enabled_def filter_defs ex_defs)
  from filterCallback_wakes_participant[OF ex_filter_run own1 own2 valid] en
  show ?thesis by simp
qed

text \<open>
  Claim C5 as stated fails: on the example scene the enabling conditions hold and shard 10
  is made dynamic, but its sibling shard 11 of the same owner is still kinematic after
  the callback.
\<close>

theorem filterCallback_sibling_counterexample:
  "filterCallback ex_store (Some ex_world) (Some 10) None None (Some 2)
     = Some (1, ex_store_woken, [RB_dworld_remove_constraint (Some 100) (Some 7)]) \<and>
   wake_enabled ex_store 1 (Some 2) ex_fmd \<and>
   meshIslands ex_fmd = [10, 11] \<and>
   mi_has_flag ex_store 11 RBO_FLAG_KINEMATIC = Some True \<and>
   mi_has_flag ex_store_woken 10 RBO_FLAG_KINEMATIC = Some False \<and>
   mi_has_flag ex_store_woken 11 RBO_FLAG_KINEMATIC = Some True"
  by (simp add: wake_enabled_def filter_defs ex_defs)

text \<open>
  Claim C4, as the code has it. With a world, the callback returns 1 (collide) exactly
  when the collision-group masks of the two owning objects share a set bit among the
  lowest 20 bits, and 0 otherwise; the kinematic flags of the pair do not enter the
  returned value (they only gate the wake-up of claim C5).
\<close>

theorem filterCallback_returns_colgroup_check:
  assumes "filterCallback s (Some rbw) island1 island2 blenderOb1 blenderOb2 = Some (r, s', calls)"
  shows "\<exists>x1 o1 x2 o2 g1 g2.
           filter_owner s rbw island1 blenderOb1 = Some (x1, o1) \<and>
           filter_owner s rbw island2 blenderOb2 = Some (x2, o2) \<and>
           ob_col_groups s o1 = Some g1 \<and> ob_col_groups s o2 = Some g2 \<and>
           r = (if g1 AND g2 AND mask 20 \<noteq> 0 then 1 else 0)"
proof -
  from filterCallback_result[OF assms] obtain x1 o1 x2 o2 b where
    own: "filter_owner s rbw island1 blenderOb1 = Some (x1, o1)"
         "filter_owner s rbw island2 blenderOb2 = Some (x2, o2)" and
    b: "groups_collide s o1 o2 = Some b" and r: "r = (if b then 1 else 0)"
    by blast
  from b obtain g1 g2 where
    g: "ob_col_groups s o1 = Some g1" "ob_col_groups s o2 = Some g2" and
    bb: "b = colgroup_check g1 g2"
    by (auto simp: groups_collide_def split: option.splits)
  from own g r bb show ?thesis
    by (simp add: colgroup_check_iff)
qed

lemma ex_filter_dynamic_run:
  "filterCallback ex_store (Some ex_world) None None (Some 2) (Some 3) = Some (1, ex_store, [])"
  by (simp add: filter_defs ex_defs)

text \<open>The theorem on the example scene: the two plain objects 2 and 3.\<close>

theorem filterCallback_returns_colgroup_check_witness:
  "\<exists>x1 o1 x2 o2 g1 g2.
     filter_owner ex_store ex_world None (Some 2) = Some (x1, o1) \<and>
     filter_owner ex_store ex_world None (Some 3) = Some (x2, o2) \<and>
     ob_col_groups ex_store o1 = Some g1 \<and> ob_col_groups ex_store o2 = Some g2 \<and>
     (1::int) = (if g1 AND g2 AND mask 20 \<noteq> 0 then 1 else 0)"
  by (rule filterCallback_returns_colgroup_check[OF ex_filter_dynamic_run])

text \<open>
  Claim C4 as stated fails: the objects 2 and 3 of the example scene share collision
  group 1 and neither is kinematic, and the callback returns 1.
\<close>

theorem filterCallback_kinematic_counterexample:
  "filterCallback ex_store (Some ex_world) None None (Some 2) (Some 3) = Some (1, ex_store, []) \<and>
   ob_has_flag ex_store (Some 2) RBO_FLAG_KINEMATIC = Some False \<and>
   ob_has_flag ex_store (Some 3) RBO_FLAG_KINEMATIC = Some False"
  by (simp add: filter_defs ex_defs)

subsection \<open>Null guards\<close>

text \<open>
  Claim C9, evaluated where it fails. \<^verbatim>\<open>BKE_rigidbody_cache_reset\<close> guards its write of
  the cache flag with \<^verbatim>\<open>if (rbw)\<close> and then calls \<^verbatim>\<open>restoreKinematic(rbw)\<close>, which reads
  \<^verbatim>\<open>rbw->group\<close> without a check: with a null world the call faults. So does
  \<^verbatim>\<open>BKE_rigidbody_remove_constraint\<close> in a scene without a world (through the cache
  reset), and on an object without constraint settings in a scene with a live world
  (it reads \<^verbatim>\<open>rbc->physics_constraint\<close>).
\<close>

theorem cache_reset_null_world_faults:
  "BKE_rigidbody_cache_reset None s = None \<and>
   restoreKinematic None s = None \<and>
   BKE_rigidbody_remove_constraint (Some \<lparr>rigidbody_world = None\<rparr>) (Some ob) s = None \<and>
   BKE_rigidbody_remove_constraint (Some \<lparr>rigidbody_world = Some ex_world\<rparr>)
     (Some ex_object) s = None"
  by (simp add: BKE_rigidbody_cache_reset_def restoreKinematic_def
      BKE_rigidbody_remove_constraint_def BKE_rigidbody_free_constraint_def
      ex_world_def ex_object_def split: option.splits prod.splits)

subsection \<open>Collision shapes\<close>

lemma object_shape_request_box:
  "shape rbo = RB_SHAPE_BOX \<Longrightarrow>
     object_shape_request eng ob rbo =
       (Some (case object_size ob of (x, y, z) \<Rightarrow> RB_shape_new_box x y z), rbo)"
  by (simp add: object_shape_request_def quadric_request_def split: prod.splits)

lemma shard_shape_request_box:
  "shape rbo = RB_SHAPE_BOX \<Longrightarrow>
     shard_shape_request mac eng dm oty rbo =
       Some (Some (case DM_mesh_boundbox mac dm of (x, y, z) \<Rightarrow> RB_shape_new_box x y z), rbo)"
  by (simp add: shard_shape_request_def quadric_request_def split: prod.splits)

lemma object_shape_request_keeps:
  "object_shape_request eng ob rbo = (req, rbo1) \<Longrightarrow>
     shape rbo1 = shape rbo \<and> physics_shape rbo1 = physics_shape rbo"
  by (auto simp: object_shape_request_def hull_store_margin_def Let_def
           split: prod.splits rb_shape.splits if_splits)

lemma shard_shape_request_keeps:
  "shard_shape_request mac eng dm oty rbo = Some (req, rbo1) \<Longrightarrow>
     shape rbo1 = shape rbo \<and> physics_shape rbo1 = physics_shape rbo"
  by (auto simp: shard_shape_request_def hull_store_margin_def Let_def
           split: prod.splits rb_shape.splits if_splits option.splits)

lemma validate_sim_shape_box:
  assumes box: "shape_new eng (case object_size ob of (x, y, z) \<Rightarrow> RB_shape_new_box x y z) = Some b"
    and sh: "shape rbo = RB_SHAPE_BOX"
  shows "rigidbody_validate_sim_shape (Suc d) mac eng (ob\<lparr>rigidbody_object := Some rbo\<rparr>) True =
           Some (ob\<lparr>rigidbody_object := Some (rbo\<lparr>physics_shape := Some b\<rparr>)\<rparr>,
                 RB_shape_new (case object_size ob of (x, y, z) \<Rightarrow> RB_shape_new_box x y z) (Some b) #
                 (case physics_shape rbo of None \<Rightarrow> [] | Some old \<Rightarrow> [RB_shape_delete old]) @
                 [RB_shape_set_margin b (RBO_GET_MARGIN mac (rbo\<lparr>physics_shape := Some b\<rparr>))])"
proof -
  have sz: "object_size (ob\<lparr>rigidbody_object := Some rbo\<rparr>) = object_size ob"
    by (simp add: object_size_def)
  show ?thesis
    using box
    by (simp add: object_shape_request_box[OF sh] sz shape_assign_def Let_def)
qed

lemma validate_sim_shard_shape_box:
  assumes box: "shape_new eng (case DM_mesh_boundbox mac dm of (x, y, z) \<Rightarrow> RB_shape_new_box x y z) = Some b"
    and sh: "shape rbo = RB_SHAPE_BOX"
    and mesh: "physics_mesh mi = Some dm"
  shows "BKE_rigidbody_validate_sim_shard_shape (Suc d) mac eng (mi\<lparr>rigidbody := Some rbo\<rparr>) ob True =
           Some (mi\<lparr>rigidbody := Some (rbo\<lparr>physics_shape := Some b\<rparr>)\<rparr>,
                 RB_shape_new (case DM_mesh_boundbox mac dm of (x, y, z) \<Rightarrow> RB_shape_new_box x y z) (Some b) #
                 (case physics_shape rbo of None \<Rightarrow> [] | Some old \<Rightarrow> [RB_shape_delete old]) @
                 [RB_shape_set_margin b (RBO_GET_MARGIN mac (rbo\<lparr>physics_shape := Some b\<rparr>))])"
  using box mesh
  by (simp add: shard_shape_request_box[OF sh] shape_assign_def Let_def)

lemma box_alwaysD:
  "box_always eng \<Longrightarrow> \<exists>b. shape_new eng (case v of (x, y, z) \<Rightarrow> RB_shape_new_box x y z) = Some b"
  by (cases v) (auto simp: box_always_def)


lemma validate_sim_shape_fails:
  assumes box: "box_always eng"
    and rbo: "rigidbody_object ob = Some rbo"
    and go: "physics_shape rbo = None \<or> rebuild"
    and req: "object_shape_request eng ob rbo = (req, rbo1)"
    and fail: "shape_result eng req = None"
  shows "case physics_shape rbo of
           None \<Rightarrow>
             (\<exists>b. shape_new eng (case object_size ob of (x, y, z) \<Rightarrow> RB_shape_new_box x y z) = Some b \<and>
                rigidbody_validate_sim_shape (Suc (Suc d)) mac eng ob rebuild =
                  Some (ob\<lparr>rigidbody_object :=
                          Some (rbo1\<lparr>shape := RB_SHAPE_BOX, physics_shape := Some b\<rparr>)\<rparr>,
                        failed_calls req @
                        [RB_shape_new (case object_size ob of (x, y, z) \<Rightarrow> RB_shape_new_box x y z) (Some b),
                         RB_shape_set_margin b (RBO_GET_MARGIN mac
                           (rbo1\<lparr>shape := RB_SHAPE_BOX, physics_shape := Some b\<rparr>))]))
         | Some old \<Rightarrow>
             rigidbody_validate_sim_shape (Suc (Suc d)) mac eng ob rebuild =
               Some (ob\<lparr>rigidbody_object := Some rbo1\<rparr>, failed_calls req)"
proof -
  from object_shape_request_keeps[OF req] have keep: "physics_shape rbo1 = physics_shape rbo" by simp
  from fail have new: "(case req of None \<Rightarrow> None | Some q \<Rightarrow> shape_new eng q) = None"
    by (simp add: shape_result_def)
  have calls: "(case req of None \<Rightarrow> []
                | Some q \<Rightarrow> [RB_shape_new q (case req of None \<Rightarrow> None | Some x \<Rightarrow> shape_new eng x)])
               = failed_calls req"
    using new by (cases req) (simp_all add: failed_calls_def)
  show ?thesis
  proof (cases "physics_shape rbo")
    case (Some old)
    with rbo go req new calls keep show ?thesis
      by (simp add: Let_def)
  next
    case None
    from box_alwaysD[OF box, of "object_size ob"] obtain b where
      b: "shape_new eng (case object_size ob of (x, y, z) \<Rightarrow> RB_shape_new_box x y z) = Some b"
      by blast
    have retry: "rigidbody_validate_sim_shape (Suc d) mac eng
                   (ob\<lparr>rigidbody_object := Some (rbo1\<lparr>shape := RB_SHAPE_BOX\<rparr>)\<rparr>) True =
                 Some (ob\<lparr>rigidbody_object := Some (rbo1\<lparr>shape := RB_SHAPE_BOX, physics_shape := Some b\<rparr>)\<rparr>,
                       [RB_shape_new (case object_size ob of (x, y, z) \<Rightarrow> RB_shape_new_box x y z) (Some b),
                        RB_shape_set_margin b (RBO_GET_MARGIN mac
                           (rbo1\<lparr>shape := RB_SHAPE_BOX, physics_shape := Some b\<rparr>))])"
      using validate_sim_shape_box[OF b, of "rbo1\<lparr>shape := RB_SHAPE_BOX\<rparr>" d mac] keep None
      by simp
    have "rigidbody_validate_sim_shape (Suc (Suc d)) mac eng ob rebuild =
            Some (ob\<lparr>rigidbody_object :=
                          Some (rbo1\<lparr>shape := RB_SHAPE_BOX, physics_shape := Some b\<rparr>)\<rparr>,
                        failed_calls req @
                        [RB_shape_new (case object_size ob of (x, y, z) \<Rightarrow> RB_shape_new_box x y z) (Some b),
                         RB_shape_set_margin b (RBO_GET_MARGIN mac
                           (rbo1\<lparr>shape := RB_SHAPE_BOX, physics_shape := Some b\<rparr>))])"
      apply (subst rigidbody_validate_sim_shape.simps)
      using rbo None req new calls keep retry
      by (simp add: Let_def del: rigidbody_validate_sim_shape.simps)
    with b None show ?thesis by simp
  qed
qed

lemma validate_sim_shard_shape_fails:
  assumes box: "box_always eng"
    and rbo: "rigidbody mi = Some rbo"
    and go: "physics_shape rbo = None \<or> rebuild"
    and mesh: "physics_mesh mi = Some dm"
    and req: "shard_shape_request mac eng dm (map_option rbo_type (rigidbody_object ob)) rbo
                = Some (req, rbo1)"
    and fail: "shape_result eng req = None"
  shows "\<exists>b. shape_new eng (case DM_mesh_boundbox mac dm of (x, y, z) \<Rightarrow> RB_shape_new_box x y z) = Some b \<and>
           BKE_rigidbody_validate_sim_shard_shape (Suc (Suc d)) mac eng mi ob rebuild =
             Some (mi\<lparr>rigidbody :=
                     Some (rbo1\<lparr>shape := RB_SHAPE_BOX, physics_shape := Some b\<rparr>)\<rparr>,
                   failed_calls req @
                   RB_shape_new (case DM_mesh_boundbox mac dm of (x, y, z) \<Rightarrow> RB_shape_new_box x y z) (Some b) #
                   (case physics_shape rbo of None \<Rightarrow> [] | Some old \<Rightarrow> [RB_shape_delete old]) @
                   [RB_shape_set_margin b (RBO_GET_MARGIN mac
                      (rbo1\<lparr>shape := RB_SHAPE_BOX, physics_shape := Some b\<rparr>))])"
proof -
  from shard_shape_request_keeps[OF req] have keep: "physics_shape rbo1 = physics_shape rbo" by simp
  from fail have new: "(case req of None \<Rightarrow> None | Some q \<Rightarrow> shape_new eng q) = None"
    by (simp add: shape_result_def)
  have calls: "(case req of None \<Rightarrow> []
                | Some q \<Rightarrow> [RB_shape_new q (case req of None \<Rightarrow> None | Some x \<Rightarrow> shape_new eng x)])
               = failed_calls req"
    using new by (cases req) (simp_all add: failed_calls_def)
  from box_alwaysD[OF box, of "DM_mesh_boundbox mac dm"] obtain b where
    b: "shape_new eng (case DM_mesh_boundbox mac dm of (x, y, z) \<Rightarrow> RB_shape_new_box x y z) = Some b"
    by blast
  have retry: "BKE_rigidbody_validate_sim_shard_shape (Suc d) mac eng
                 (mi\<lparr>rigidbody := Some (rbo1\<lparr>shape := RB_SHAPE_BOX\<rparr>)\<rparr>) ob True =
               Some (mi\<lparr>rigidbody := Some (rbo1\<lparr>shape := RB_SHAPE_BOX, physics_shape := Some b\<rparr>)\<rparr>,
                     RB_shape_new (case DM_mesh_boundbox mac dm of (x, y, z) \<Rightarrow> RB_shape_new_box x y z) (Some b) #
                     (case physics_shape rbo of None \<Rightarrow> [] | Some old \<Rightarrow> [RB_shape_delete old]) @
                     [RB_shape_set_margin b (RBO_GET_MARGIN mac
                        (rbo1\<lparr>shape := RB_SHAPE_BOX, physics_shape := Some b\<rparr>))])"
    using validate_sim_shard_shape_box[OF b _ mesh, of "rbo1\<lparr>shape := RB_SHAPE_BOX\<rparr>" d ob] keep
    by simp
  have "BKE_rigidbody_validate_sim_shard_shape (Suc (Suc d)) mac eng mi ob rebuild =
             Some (mi\<lparr>rigidbody :=
                     Some (rbo1\<lparr>shape := RB_SHAPE_BOX, physics_shape := Some b\<rparr>)\<rparr>,
                   failed_calls req @
                   RB_shape_new (case DM_mesh_boundbox mac dm of (x, y, z) \<Rightarrow> RB_shape_new_box x y z) (Some b) #
                   (case physics_shape rbo of None \<Rightarrow> [] | Some old \<Rightarrow> [RB_shape_delete old]) @
                   [RB_shape_set_margin b (RBO_GET_MARGIN mac
                      (rbo1\<lparr>shape := RB_SHAPE_BOX, physics_shape := Some b\<rparr>))])"
    apply (subst BKE_rigidbody_validate_sim_shard_shape.simps)
    using rbo go mesh req new calls retry
    by (auto simp add: Let_def simp del: BKE_rigidbody_validate_sim_shard_shape.simps)
  with b show ?thesis by blast
qed


text \<open>
  Claim C8, as the code has it. Let the engine never fail to make a box, and let the
  construction of the requested shape kind fail. \<^verbatim>\<open>rigidbody_validate_sim_shape\<close> (object
  level) then sets the kind to box and calls itself once, which makes the box, only if
  the body holds no earlier shape; with an earlier shape it returns at once, and keeps
  that shape and the kind. \<^verbatim>\<open>BKE_rigidbody_validate_sim_shard_shape\<close> (shard level) always
  sets the kind to box and calls itself once. In every case the call returns: a depth of
  two calls is enough.
\<close>

theorem validate_shape_box_fallback:
  assumes box: "box_always eng"
  shows "(rigidbody_object ob = Some rbo \<and> (physics_shape rbo = None \<or> rebuild) \<and>
          object_shape_request eng ob rbo = (req, rbo1) \<and> shape_result eng req = None \<longrightarrow>
          (case physics_shape rbo of
             None \<Rightarrow>
               (\<exists>b. shape_new eng (case object_size ob of (x, y, z) \<Rightarrow> RB_shape_new_box x y z) = Some b \<and>
                  rigidbody_validate_sim_shape (Suc (Suc d)) mac eng ob rebuild =
                    Some (ob\<lparr>rigidbody_object :=
                            Some (rbo1\<lparr>shape := RB_SHAPE_BOX, physics_shape := Some b\<rparr>)\<rparr>,
                          failed_calls req @
                          [RB_shape_new (case object_size ob of (x, y, z) \<Rightarrow> RB_shape_new_box x y z) (Some b),
                           RB_shape_set_margin b (RBO_GET_MARGIN mac
                             (rbo1\<lparr>shape := RB_SHAPE_BOX, physics_shape := Some b\<rparr>))]))
           | Some old \<Rightarrow>
               rigidbody_validate_sim_shape (Suc (Suc d)) mac eng ob rebuild =
                 Some (ob\<lparr>rigidbody_object := Some rbo1\<rparr>, failed_calls req))) \<and>
         (rigidbody mi = Some mrbo \<and> (physics_shape mrbo = None \<or> mrebuild) \<and>
          physics_mesh mi = Some dm \<and>
          shard_shape_request mac eng dm (map_option rbo_type (rigidbody_object mob)) mrbo
            = Some (mreq, mrbo1) \<and>
          shape_result eng mreq = None \<longrightarrow>
          (\<exists>b. shape_new eng (case DM_mesh_boundbox mac dm of (x, y, z) \<Rightarrow> RB_shape_new_box x y z) = Some b \<and>
             BKE_rigidbody_validate_sim_shard_shape (Suc (Suc d')) mac eng mi mob mrebuild =
               Some (mi\<lparr>rigidbody :=
                       Some (mrbo1\<lparr>shape := RB_SHAPE_BOX, physics_shape := Some b\<rparr>)\<rparr>,
                     failed_calls mreq @
                     RB_shape_new (case DM_mesh_boundbox mac dm of (x, y, z) \<Rightarrow> RB_shape_new_box x y z) (Some b) #
                     (case physics_shape mrbo of None \<Rightarrow> [] | Some old \<Rightarrow> [RB_shape_delete old]) @
                     [RB_shape_set_margin b (RBO_GET_MARGIN mac
                        (mrbo1\<lparr>shape := RB_SHAPE_BOX, physics_shape := Some b\<rparr>))])))"
proof (intro conjI impI)
  assume h: "rigidbody_object ob = Some rbo \<and> (physics_shape rbo = None \<or> rebuild) \<and>
          object_shape_request eng ob rbo = (req, rbo1) \<and> shape_result eng req = None"
  then show "case physics_shape rbo of
             None \<Rightarrow>
               (\<exists>b. shape_new eng (case object_size ob of (x, y, z) \<Rightarrow> RB_shape_new_box x y z) = Some b \<and>
                  rigidbody_validate_sim_shape (Suc (Suc d)) mac eng ob rebuild =
                    Some (ob\<lparr>rigidbody_object :=
                            Some (rbo1\<lparr>shape := RB_SHAPE_BOX, physics_shape := Some b\<rparr>)\<rparr>,
                          failed_calls req @
                          [RB_shape_new (case object_size ob of (x, y, z) \<Rightarrow> RB_shape_new_box x y z) (Some b),
                           RB_shape_set_margin b (RBO_GET_MARGIN mac
                             (rbo1\<lparr>shape := RB_SHAPE_BOX, physics_shape := Some b\<rparr>))]))
           | Some old \<Rightarrow>
               rigidbody_validate_sim_shape (Suc (Suc d)) mac eng ob rebuild =
                 Some (ob\<lparr>rigidbody_object := Some rbo1\<rparr>, failed_calls req)"
    using validate_sim_shape_fails[OF box, of ob rbo rebuild req rbo1 d mac] by blast
next
  assume h: "rigidbody mi = Some mrbo \<and> (physics_shape mrbo = None \<or> mrebuild) \<and>
          physics_mesh mi = Some dm \<and>
          shard_shape_request mac eng dm (map_option rbo_type (rigidbody_object mob)) mrbo
            = Some (mreq, mrbo1) \<and>
          shape_result eng mreq = None"
  then show "\<exists>b. shape_new eng (case DM_mesh_boundbox mac dm of (x, y, z) \<Rightarrow> RB_shape_new_box x y z) = Some b \<and>
             BKE_rigidbody_validate_sim_shard_shape (Suc (Suc d')) mac eng mi mob mrebuild =
               Some (mi\<lparr>rigidbody :=
                       Some (mrbo1\<lparr>shape := RB_SHAPE_BOX, physics_shape := Some b\<rparr>)\<rparr>,
                     failed_calls mreq @
                     RB_shape_new (case DM_mesh_boundbox mac dm of (x, y, z) \<Rightarrow> RB_shape_new_box x y z) (Some b) #
                     (case physics_shape mrbo of None \<Rightarrow> [] | Some old \<Rightarrow> [RB_shape_delete old]) @
                     [RB_shape_set_margin b (RBO_GET_MARGIN mac
                        (mrbo1\<lparr>shape := RB_SHAPE_BOX, physics_shape := Some b\<rparr>))])"
    using validate_sim_shard_shape_fails[OF box, of mi mrbo mrebuild dm mac mob mreq mrbo1 d'] by blast
qed

lemmas ex_shape_defs = ex_engine_def ex_macros_def ex_sphere_object_def ex_sphere_shard_def
  ex_hull_object_def ex_object_def ex_island_def ex_rbo_def ex_cube_def

lemmas shape_defs = object_shape_request_def shard_shape_request_def object_size_def
  quadric_request_def shape_assign_def shape_result_def failed_calls_def max_fff_def
  DM_mesh_boundbox_def DM_mesh_minmax_def hull_margin_of_def hull_store_margin_def
  convexhull_request_def Let_def

text \<open>The theorem on an engine that makes boxes only: a sphere is asked for, for an
  object without a shape and for a shard of the unit cube that holds the shape 3.\<close>

theorem validate_shape_box_fallback_witness:
  "rigidbody_validate_sim_shape 2 ex_macros ex_engine ex_sphere_object False =
     Some (ex_object\<lparr>rigidbody_object := Some (ex_rbo\<lparr>shape := RB_SHAPE_BOX, physics_shape := Some 41\<rparr>)\<rparr>,
           [RB_shape_new (RB_shape_new_sphere 1) None,
            RB_shape_new (RB_shape_new_box 1 1 1) (Some 41),
            RB_shape_set_margin 41 (1 / 25)]) \<and>
   BKE_rigidbody_validate_sim_shard_shape 2 ex_macros ex_engine ex_sphere_shard ex_object True =
     Some (ex_sphere_shard\<lparr>rigidbody := Some (ex_rbo\<lparr>shape := RB_SHAPE_BOX, physics_shape := Some 41\<rparr>)\<rparr>,
           [RB_shape_new (RB_shape_new_sphere (1 / 4)) None,
            RB_shape_new (RB_shape_new_box (1 / 2) (1 / 2) (1 / 2)) (Some 41),
            RB_shape_delete 3,
            RB_shape_set_margin 41 (1 / 25)])"
proof -
  have box: "box_always ex_engine"
    by (simp add: box_always_def ex_engine_def)
  have two: "(2::nat) = Suc (Suc 0)" by simp
  from validate_shape_box_fallback[OF box,
      of ex_sphere_object "ex_rbo\<lparr>shape := RB_SHAPE_SPHERE\<rparr>" False
         "Some (RB_shape_new_sphere 1)" "ex_rbo\<lparr>shape := RB_SHAPE_SPHERE\<rparr>" 0 ex_macros
         ex_sphere_shard "ex_rbo\<lparr>shape := RB_SHAPE_SPHERE, physics_shape := Some 3\<rparr>" True
         ex_cube ex_object "Some (RB_shape_new_sphere (1 / 4))"
         "ex_rbo\<lparr>shape := RB_SHAPE_SPHERE, physics_shape := Some 3\<rparr>" 0]
  show ?thesis
    unfolding two
    by (simp add: shape_defs ex_shape_defs
             del: rigidbody_validate_sim_shape.simps BKE_rigidbody_validate_sim_shard_shape.simps)
qed

text \<open>
  Claim C8 as stated fails at the object level: the convex hull of an object without a
  mesh cannot be built, the body holds the earlier shape 3, and the call returns without
  a second construction, with the kind still convex hull.
\<close>

theorem validate_sim_shape_keeps_old_counterexample:
  "object_shape_request ex_engine ex_hull_object
      (ex_rbo\<lparr>shape := RB_SHAPE_CONVEXH, physics_shape := Some 3\<rparr>) =
     (None, ex_rbo\<lparr>shape := RB_SHAPE_CONVEXH, physics_shape := Some 3\<rparr>) \<and>
   rigidbody_validate_sim_shape 2 ex_macros ex_engine ex_hull_object True =
     Some (ex_hull_object, []) \<and>
   map_option shape (rigidbody_object ex_hull_object) = Some RB_SHAPE_CONVEXH"
proof -
  have two: "(2::nat) = Suc (Suc 0)" by simp
  show ?thesis
    unfolding two
    by (simp add: shape_defs ex_shape_defs)
qed

subsection \<open>Constraints with a missing endpoint\<close>

lemma constraint_teardown_world:
  "constraint_teardown (Some w) rbc =
     Some (rbc\<lparr>physics_constraint := None\<rparr>,
           case physics_constraint rbc of
             None \<Rightarrow> []
           | Some h \<Rightarrow> [RB_dworld_remove_constraint (physics_world w) (Some h),
                        Constraint (RB_constraint_delete h)])"
proof (cases "physics_constraint rbc")
  case None
  then have "rbc\<lparr>physics_constraint := None\<rparr> = rbc"
    by (metis ConSettings.surjective ConSettings.update_convs(1))
  with None show ?thesis by (simp add: constraint_teardown_def)
next
  case (Some h)
  then show ?thesis by (simp add: constraint_teardown_def)
qed

text \<open>
  Claim C3. In a world, when an endpoint of a constraint or the rigid body settings of an
  endpoint is missing, the validate call of the constraint (of an object, and of two
  shards) returns normally with the stored handle cleared; its only engine calls are the
  removal from the world and the deletion of a handle that existed, so no constraint is
  constructed.
\<close>

theorem validate_constraint_missing_endpoint:
  assumes w: "rbw = Some w"
  shows "(rigidbody_constraint (object_at s a) = Some rbc \<and> con_endpoints_object s rbc = None \<longrightarrow>
          rigidbody_validate_sim_constraint eng rbw (Some a) rebuild s =
            Some (s\<lparr>object_at := (object_at s)
                     (a := (object_at s a)\<lparr>rigidbody_constraint :=
                        Some (rbc\<lparr>physics_constraint := None\<rparr>)\<rparr>)\<rparr>,
                  case physics_constraint rbc of
                    None \<Rightarrow> []
                  | Some h \<Rightarrow> [RB_dworld_remove_constraint (physics_world w) (Some h),
                               Constraint (RB_constraint_delete h)])) \<and>
         (con_endpoints_shard s (shardcon_at s c) = None \<longrightarrow>
          BKE_rigidbody_validate_sim_shard_constraint eng rbw (Some c) rebuild s =
            Some (s\<lparr>shardcon_at := (shardcon_at s)
                     (c := (shardcon_at s c)\<lparr>physics_constraint := None\<rparr>)\<rparr>,
                  case physics_constraint (shardcon_at s c) of
                    None \<Rightarrow> []
                  | Some h \<Rightarrow> [RB_dworld_remove_constraint (physics_world w) (Some h),
                               Constraint (RB_constraint_delete h)]))"
  unfolding w
  by (simp add: rigidbody_validate_sim_constraint_def
      BKE_rigidbody_validate_sim_shard_constraint_def constraint_teardown_world Let_def)

lemmas ex_con_defs = ex_con_store_def ex_con_def ex_store_def ex_world_def ex_object_def
  ex_fractured_def ex_shardcon_def ex_island_def ex_rbo_def ex_engine_def

text \<open>The theorem on the constraint of object 5, whose second endpoint is missing, and
  on the shard constraint 22, whose second shard is missing.\<close>

theorem validate_constraint_missing_endpoint_witness:
  "rigidbody_validate_sim_constraint ex_engine (Some ex_world) (Some 5) True ex_con_store =
     Some (ex_con_store\<lparr>object_at := (object_at ex_con_store)
              (5 := ex_object\<lparr>rigidbody_constraint :=
                 Some (ex_con\<lparr>physics_constraint := None\<rparr>)\<rparr>)\<rparr>,
           [RB_dworld_remove_constraint (Some 100) (Some 8), Constraint (RB_constraint_delete 8)]) \<and>
   BKE_rigidbody_validate_sim_shard_constraint ex_engine (Some ex_world) (Some 22) True ex_con_store =
     Some (ex_con_store\<lparr>shardcon_at := (shardcon_at ex_con_store)
              (22 := ex_shardcon\<lparr>mi2 := None, physics_constraint := None\<rparr>)\<rparr>,
           [RB_dworld_remove_constraint (Some 100) (Some 7), Constraint (RB_constraint_delete 7)])"
proof -
  have obj: "rigidbody_constraint (object_at ex_con_store 5) = Some ex_con \<and>
             con_endpoints_object ex_con_store ex_con = None"
    by (simp add: con_endpoints_object_def ex_con_defs)
  have shard: "con_endpoints_shard ex_con_store (shardcon_at ex_con_store 22) = None"
    by (simp add: con_endpoints_shard_def ex_con_defs)
  from validate_constraint_missing_endpoint[of "Some ex_world" ex_world ex_con_store 5 ex_con
      ex_engine True 22] obj shard
  show ?thesis
    by (simp add: ex_con_defs)
qed


subsection \<open>Bodies and the engine world\<close>




















subsection \<open>Single-precision arithmetic\<close>

lemma round_even_of_int: "round_even (real_of_int n) = n"
  by (simp add: round_even_def)

lemma round_even_cases: "round_even y = \<lfloor>y\<rfloor> \<or> round_even y = \<lfloor>y\<rfloor> + 1"
  by (simp add: round_even_def Let_def)

lemma round_even_mono:
  assumes "a \<le> b"
  shows "round_even a \<le> round_even b"
proof (cases "\<lfloor>a\<rfloor> = \<lfloor>b\<rfloor>")
  case True
  with assms show ?thesis
    by (simp add: round_even_def Let_def)
next
  case False
  with assms have "\<lfloor>a\<rfloor> < \<lfloor>b\<rfloor>"
    using floor_mono[OF assms] by linarith
  moreover have "round_even a \<le> \<lfloor>a\<rfloor> + 1"
    using round_even_cases[of a] by linarith
  moreover have "\<lfloor>b\<rfloor> \<le> round_even b"
    using round_even_cases[of b] by linarith
  ultimately show ?thesis by linarith
qed

lemma ulp_pos: "0 < (2::real) powi k"
  by (simp add: zero_less_power_int)

lemma f32_round_at_mono: "a \<le> b \<Longrightarrow> f32_round_at e a \<le> f32_round_at e b"
  unfolding f32_round_at_def
  by (intro mult_right_mono round_even_mono divide_right_mono iffD2[OF of_int_le_iff])
     (simp_all add: less_imp_le[OF ulp_pos])

lemma f32_round_at_grid:
  "f32_round_at e (real_of_int m * 2 powi (e - 23)) = real_of_int m * 2 powi (e - 23)"
proof -
  have "real_of_int m * 2 powi (e - 23) / 2 powi (e - 23) = real_of_int m"
    using ulp_pos[of "e - 23"] by simp
  then show ?thesis
    by (simp add: f32_round_at_def round_even_of_int)
qed

lemma pow2_split: "(2::real) powi (e + 1) = real_of_int (2 ^ 24) * 2 powi (e - 23)"
proof -
  have "(2::real) powi (e + 1) = 2 powi (24 + (e - 23))"
    by (rule arg_cong[where f = "\<lambda>n. 2 powi n"]) simp
  also have "\<dots> = 2 powi 24 * 2 powi (e - 23)"
    by (rule power_int_add) simp
  finally show ?thesis by simp
qed

lemma pow2_split': "(2::real) powi e = real_of_int (2 ^ 23) * 2 powi (e - 23)"
proof -
  have "(2::real) powi e = 2 powi (23 + (e - 23))"
    by (rule arg_cong[where f = "\<lambda>n. 2 powi n"]) simp
  also have "\<dots> = 2 powi 23 * 2 powi (e - 23)"
    by (rule power_int_add) simp
  finally show ?thesis by simp
qed

lemma f32_round_at_le_top: "x \<le> 2 powi (e + 1) \<Longrightarrow> f32_round_at e x \<le> 2 powi (e + 1)"
  using f32_round_at_mono[of x "2 powi (e + 1)" e] f32_round_at_grid[of e "2 ^ 24"]
  by (simp only: pow2_split[symmetric])

lemma f32_round_at_ge_bot: "2 powi e \<le> x \<Longrightarrow> 2 powi e \<le> f32_round_at e x"
  using f32_round_at_mono[of "2 powi e" x e] f32_round_at_grid[of e "2 ^ 23"]
  by (simp only: pow2_split'[symmetric])

lemma f32_round_at_ge_0: "0 \<le> x \<Longrightarrow> 0 \<le> f32_round_at e x"
  using f32_round_at_mono[of 0 x e] f32_round_at_grid[of e 0] by simp

lemma f32_round_at_le_0: "x \<le> 0 \<Longrightarrow> f32_round_at e x \<le> 0"
  using f32_round_at_mono[of x 0 e] f32_round_at_grid[of e 0] by simp

lemma f32_round_at_ge_neg_top: "- (2 powi (e + 1)) \<le> x \<Longrightarrow> - (2 powi (e + 1)) \<le> f32_round_at e x"
  using f32_round_at_mono[of "- (2 powi (e + 1))" x e] f32_round_at_grid[of e "- (2 ^ 24)"]
  by (simp add: pow2_split[of e])

lemma f32_round_at_le_neg_bot: "x \<le> - (2 powi e) \<Longrightarrow> f32_round_at e x \<le> - (2 powi e)"
  using f32_round_at_mono[of x "- (2 powi e)" e] f32_round_at_grid[of e "- (2 ^ 23)"]
  by (simp add: pow2_split'[of e])

lemma powr_powi: "(2::real) powr real_of_int k = 2 powi k"
  by (rule powr_real_of_int') simp_all

lemma floor_log2_bounds:
  assumes "x \<noteq> 0"
  shows "2 powi \<lfloor>log 2 \<bar>x\<bar>\<rfloor> \<le> \<bar>x\<bar>" and "\<bar>x\<bar> < 2 powi (\<lfloor>log 2 \<bar>x\<bar>\<rfloor> + 1)"
proof -
  from assms have pos: "0 < \<bar>x\<bar>" by simp
  have "2 powr real_of_int \<lfloor>log 2 \<bar>x\<bar>\<rfloor> \<le> \<bar>x\<bar> \<and> \<bar>x\<bar> < 2 powr real_of_int (\<lfloor>log 2 \<bar>x\<bar>\<rfloor> + 1)"
    using floor_log_eq_powr_iff[OF pos, of 2 "\<lfloor>log 2 \<bar>x\<bar>\<rfloor>"] by simp
  then show "2 powi \<lfloor>log 2 \<bar>x\<bar>\<rfloor> \<le> \<bar>x\<bar>" and "\<bar>x\<bar> < 2 powi (\<lfloor>log 2 \<bar>x\<bar>\<rfloor> + 1)"
    unfolding powr_powi by simp_all
qed

lemma floor_log2_eq:
  assumes "2 powi e \<le> \<bar>x\<bar>" and "\<bar>x\<bar> < 2 powi (e + 1)"
  shows "\<lfloor>log 2 \<bar>x\<bar>\<rfloor> = e"
proof -
  have pos: "0 < \<bar>x\<bar>" using assms(1) ulp_pos[of e] by linarith
  show ?thesis
    using floor_log_eq_powr_iff[OF pos, of 2 e] assms
    unfolding powr_powi by simp
qed

lemma f32_exponent_upper: "x \<noteq> 0 \<Longrightarrow> \<bar>x\<bar> < 2 powi (f32_exponent x + 1)"
proof -
  assume nz: "x \<noteq> 0"
  have "(2::real) powi (\<lfloor>log 2 \<bar>x\<bar>\<rfloor> + 1) \<le> 2 powi (f32_exponent x + 1)"
    by (rule power_int_increasing) (simp_all add: f32_exponent_def)
  with floor_log2_bounds(2)[OF nz] show ?thesis by linarith
qed

lemma f32_exponent_lower:
  "x \<noteq> 0 \<Longrightarrow> f32_exponent x \<noteq> - 126 \<Longrightarrow> 2 powi (f32_exponent x) \<le> \<bar>x\<bar>"
  using floor_log2_bounds(1)[of x] by (simp add: f32_exponent_def max_def split: if_splits)

lemma f32_exponent_ge: "- 126 \<le> f32_exponent x"
  by (simp add: f32_exponent_def)

lemma f32_exponent_mono:
  assumes "x \<noteq> 0" and "\<bar>x\<bar> \<le> \<bar>y\<bar>"
  shows "f32_exponent x \<le> f32_exponent y"
proof -
  have "log 2 \<bar>x\<bar> \<le> log 2 \<bar>y\<bar>" using assms by simp
  then have "\<lfloor>log 2 \<bar>x\<bar>\<rfloor> \<le> \<lfloor>log 2 \<bar>y\<bar>\<rfloor>" by (rule floor_mono)
  then show ?thesis by (simp add: f32_exponent_def)
qed

lemma f32_round_pos_mono:
  assumes "0 < x" and "x \<le> y"
  shows "f32_round x \<le> f32_round y"
proof (cases "f32_exponent x = f32_exponent y")
  case True
  with assms show ?thesis
    by (simp add: f32_round_def f32_round_at_mono)
next
  case False
  from assms have nz: "x \<noteq> 0" "y \<noteq> 0" by simp_all
  have le: "f32_exponent x \<le> f32_exponent y"
    using f32_exponent_mono[of x y] assms by simp
  with False have lt: "f32_exponent x + 1 \<le> f32_exponent y" by simp
  have ne: "f32_exponent y \<noteq> - 126"
    using lt f32_exponent_ge[of x] by linarith
  have "f32_round x \<le> 2 powi (f32_exponent x + 1)"
    using f32_exponent_upper[OF nz(1)] assms(1)
    by (simp add: f32_round_def f32_round_at_le_top)
  also have "\<dots> \<le> 2 powi (f32_exponent y)"
    by (rule power_int_increasing) (use lt in simp_all)
  also have "\<dots> \<le> f32_round y"
    using f32_exponent_lower[OF nz(2) ne] assms
    by (simp add: f32_round_def f32_round_at_ge_bot)
  finally show ?thesis .
qed

lemma f32_round_neg_mono:
  assumes "y < 0" and "x \<le> y"
  shows "f32_round x \<le> f32_round y"
proof (cases "f32_exponent x = f32_exponent y")
  case True
  with assms show ?thesis
    by (simp add: f32_round_def f32_round_at_mono)
next
  case False
  from assms have nz: "x \<noteq> 0" "y \<noteq> 0" by simp_all
  have le: "f32_exponent y \<le> f32_exponent x"
    using f32_exponent_mono[of y x] assms by simp
  with False have lt: "f32_exponent y + 1 \<le> f32_exponent x" by simp
  have ne: "f32_exponent x \<noteq> - 126"
    using lt f32_exponent_ge[of y] by linarith
  have "f32_round x \<le> - (2 powi (f32_exponent x))"
    using f32_exponent_lower[OF nz(1) ne] assms
    by (simp add: f32_round_def f32_round_at_le_neg_bot)
  also have "\<dots> \<le> - (2 powi (f32_exponent y + 1))"
    using power_int_increasing[of "f32_exponent y + 1" "f32_exponent x" "2::real"] lt by simp
  also have "\<dots> \<le> f32_round y"
    using f32_exponent_upper[OF nz(2)] assms(1)
    by (simp add: f32_round_def f32_round_at_ge_neg_top)
  finally show ?thesis .
qed

lemma f32_round_nonneg: "0 \<le> x \<Longrightarrow> 0 \<le> f32_round x"
  by (simp add: f32_round_def f32_round_at_ge_0)

lemma f32_round_nonpos: "x \<le> 0 \<Longrightarrow> f32_round x \<le> 0"
  by (simp add: f32_round_def f32_round_at_le_0)

lemma f32_round_mono:
  assumes "x \<le> y"
  shows "f32_round x \<le> f32_round y"
proof -
  consider "0 < x" | "y < 0" | "x \<le> 0" "0 \<le> y" by linarith
  then show ?thesis
  proof cases
    case 1 with assms show ?thesis by (simp add: f32_round_pos_mono)
  next
    case 2 with assms show ?thesis by (simp add: f32_round_neg_mono)
  next
    case 3
    then show ?thesis
      using f32_round_nonpos[of x] f32_round_nonneg[of y] by linarith
  qed
qed

lemma f32_round_exact:
  assumes m: "\<bar>m\<bar> < 2 ^ 24" and k: "- 149 \<le> k"
  shows "f32_round (real_of_int m * 2 powi k) = real_of_int m * 2 powi k"
proof (cases "m = 0")
  case True
  then show ?thesis by (simp add: f32_round_def)
next
  case False
  define x where "x = real_of_int m * 2 powi k"
  define e where "e = f32_exponent x"
  have nz: "x \<noteq> 0" using False by (simp add: x_def)
  have "\<bar>x\<bar> = real_of_int \<bar>m\<bar> * 2 powi k"
    by (simp add: x_def abs_mult)
  also have "\<dots> < real_of_int (2 ^ 24) * 2 powi k"
    using m ulp_pos[of k] by (intro mult_strict_right_mono) simp_all
  also have "\<dots> = 2 powi (k + 24)"
    using power_int_add[of "2::real" k 24] by simp
  finally have ub: "\<bar>x\<bar> < 2 powi (k + 24)" .
  have "\<lfloor>log 2 \<bar>x\<bar>\<rfloor> < k + 24"
  proof (rule ccontr)
    assume "\<not> \<lfloor>log 2 \<bar>x\<bar>\<rfloor> < k + 24"
    then have "(2::real) powi (k + 24) \<le> 2 powi \<lfloor>log 2 \<bar>x\<bar>\<rfloor>"
      by (intro power_int_increasing) simp_all
    with floor_log2_bounds(1)[OF nz] ub show False by linarith
  qed
  with k have ek: "e - 23 \<le> k"
    by (simp add: e_def f32_exponent_def)
  then obtain d where d: "k = (e - 23) + int d"
    by (metis add.commute diff_ge_0_iff_ge int_nat_eq le_add_diff_inverse)
  have "(2::real) powi k = 2 powi (int d) * 2 powi (e - 23)"
    unfolding d using power_int_add[of "2::real" "e - 23" "int d"] by (simp add: mult.commute)
  then have "x = real_of_int (m * 2 ^ d) * 2 powi (e - 23)"
    by (simp add: x_def)
  then have "f32_round_at e x = x"
    using f32_round_at_grid[of e "m * 2 ^ d"] by simp
  with nz show ?thesis
    by (simp add: f32_round_def e_def x_def)
qed

lemma f32_round_eval:
  assumes "2 powi e \<le> \<bar>x\<bar>" and "\<bar>x\<bar> < 2 powi (e + 1)" and "- 126 \<le> e"
  shows "f32_round x = f32_round_at e x"
proof -
  have "x \<noteq> 0"
  proof
    assume "x = 0"
    with assms(1) have "(2::real) powi e \<le> 0" by simp
    with ulp_pos[of e] show False by linarith
  qed
  moreover have "f32_exponent x = e"
    using floor_log2_eq[OF assms(1,2)] assms(3) by (simp add: f32_exponent_def)
  ultimately show ?thesis by (simp add: f32_round_def)
qed

lemma f32_of_real_not_NaN: "f32_of_real x \<noteq> NaN"
  by (simp add: f32_of_real_def Let_def)

lemma f32_of_real_mono: "x \<le> y \<Longrightarrow> f32_le (f32_of_real x) (f32_of_real y)"
  using f32_round_mono[of x y] by (simp add: f32_of_real_def Let_def)

lemma f32_of_real_0: "f32_of_real 0 = Fin 0"
  by (simp add: f32_of_real_def f32_round_def)

lemma f32_of_real_exact:
  assumes "\<bar>m\<bar> < 2 ^ 24" and "- 149 \<le> k" and "\<bar>real_of_int m * 2 powi k\<bar> < 2 ^ 128"
  shows "f32_of_real (real_of_int m * 2 powi k) = Fin (real_of_int m * 2 powi k)"
  using assms(3) by (simp add: f32_of_real_def f32_round_exact[OF assms(1,2)] abs_less_iff)

lemma f32_of_real_nonneg: "0 \<le> x \<Longrightarrow> f32_le (Fin 0) (f32_of_real x)"
  using f32_of_real_mono[of 0 x] by (simp add: f32_of_real_0)

lemma f32_le_NInf: "v \<noteq> NaN \<Longrightarrow> f32_le NInf v"
  by (cases v) simp_all

lemma f32_le_PInf: "v \<noteq> NaN \<Longrightarrow> f32_le v PInf"
  by (cases v) simp_all

lemma f32_mul_mono:
  assumes "f32_le p q" and "0 \<le> t"
    and "f32_mul p (Fin t) \<noteq> NaN" and "f32_mul q (Fin t) \<noteq> NaN"
  shows "f32_le (f32_mul p (Fin t)) (f32_mul q (Fin t))"
proof (cases p)
  case (Fin x)
  note p = this
  show ?thesis
  proof (cases q)
    case (Fin y)
    with p assms show ?thesis
      by (simp add: f32_of_real_mono mult_right_mono)
  next
    case PInf
    with p assms show ?thesis
      by (simp add: f32_le_PInf f32_of_real_not_NaN split: if_splits)
  qed (use p assms in simp_all)
next
  case PInf
  with assms show ?thesis by (cases q) (simp_all split: if_splits)
next
  case NInf
  with assms(2,3) have "f32_mul p (Fin t) = NInf"
    by (simp split: if_splits)
  with assms(4) show ?thesis by (simp add: f32_le_NInf)
next
  case NaN
  with assms show ?thesis by simp
qed

lemma f32_div_mono:
  assumes "f32_lt a b" and "f32_lt (Fin 0) m"
    and "f32_div a m \<noteq> NaN" and "f32_div b m \<noteq> NaN"
  shows "f32_le (f32_div a m) (f32_div b m)"
proof (cases m)
  case (Fin d)
  with assms(2) have d: "0 < d" by simp
  show ?thesis
  proof (cases a)
    case (Fin x)
    note a = this
    show ?thesis
    proof (cases b)
      case (Fin y)
      with a assms d \<open>m = Fin d\<close> show ?thesis
        by (simp add: f32_of_real_mono divide_right_mono)
    next
      case PInf
      with a d \<open>m = Fin d\<close> show ?thesis
        by (simp add: f32_le_PInf f32_of_real_not_NaN)
    qed (use a assms in simp_all)
  next
    case NInf
    with d \<open>m = Fin d\<close> have "f32_div a m = NInf" by simp
    with assms(4) show ?thesis by (simp add: f32_le_NInf)
  next
    case PInf
    with assms(1) show ?thesis by (cases b) simp_all
  next
    case NaN
    with assms(1) show ?thesis by simp
  qed
next
  case PInf
  with assms show ?thesis by (cases a; cases b) simp_all
qed (use assms in simp_all)

lemma threshold_mono:
  assumes lt: "f32_lt a b" and pos: "f32_lt (Fin 0) m" and t: "0 \<le> t"
    and na: "f32_mul (f32_div a m) (Fin t) \<noteq> NaN"
    and nb: "f32_mul (f32_div b m) (Fin t) \<noteq> NaN"
  shows "f32_le (f32_mul (f32_div a m) (Fin t)) (f32_mul (f32_div b m) (Fin t))"
proof -
  from na have qa: "f32_div a m \<noteq> NaN" by (cases "f32_div a m") simp_all
  from nb have qb: "f32_div b m \<noteq> NaN" by (cases "f32_div b m") simp_all
  show ?thesis
    by (rule f32_mul_mono[OF f32_div_mono[OF lt pos qa qb] t na nb])
qed

subsection \<open>Mass-dependent breaking thresholds\<close>

lemma f32_lt_trans_le: "f32_le a b \<Longrightarrow> f32_lt b c \<Longrightarrow> f32_le a c"
  by (cases a; cases b; cases c) simp_all

lemma max_con_mass_loop_ge: "f32_le (Fin 0) m \<Longrightarrow> f32_le (Fin 0) (max_con_mass_loop s cs m)"
proof (induction cs arbitrary: m)
  case Nil
  then show ?case by simp
next
  case (Cons c cs)
  let ?m' = "case con_mass_of s (shardcon_at s c) of None \<Rightarrow> m
             | Some con_mass \<Rightarrow> if f32_lt m con_mass then con_mass else m"
  have "f32_le (Fin 0) ?m'"
    using Cons.prems by (auto split: option.splits intro: f32_lt_trans_le)
  then have "f32_le (Fin 0) (max_con_mass_loop s cs ?m')" by (rule Cons.IH)
  then show ?case by simp
qed

lemma calc_max_con_mass_mods_nonneg: "f32_le (Fin 0) (calc_max_con_mass_mods s mds)"
  by (induction s mds rule: calc_max_con_mass_mods.induct) (simp_all add: max_con_mass_loop_ge)

lemma calc_max_con_mass_nonneg: "f32_le (Fin 0) (BKE_rigidbody_calc_max_con_mass s ob)"
  by (simp add: BKE_rigidbody_calc_max_con_mass_def calc_max_con_mass_mods_nonneg)

lemma f32_nonzero_pos: "f32_le (Fin 0) m \<Longrightarrow> \<not> f32_eq m (Fin 0) \<Longrightarrow> f32_lt (Fin 0) m"
  by (cases m) simp_all

lemma con_mass_of_endpoints:
  "con_mass_of s con = Some m \<Longrightarrow> mi1 con \<noteq> None \<and> mi2 con \<noteq> None"
  by (auto simp: con_mass_of_def split: option.splits)

lemma calc_threshold_assigns:
  assumes "use_mass_dependent_thresholds rmd" and "\<not> f32_eq M (Fin 0)"
    and "con_mass_of s (shardcon_at s c) = Some m"
  shows "BKE_rigidbody_calc_threshold M rmd c s =
           store_float (f32_mul (f32_div m M) (Fin (fmd_breaking_threshold rmd)))
             (\<lambda>x. s\<lparr>shardcon_at := (shardcon_at s)
                       (c := (shardcon_at s c)\<lparr>breaking_threshold := x\<rparr>)\<rparr>)"
  using assms con_mass_of_endpoints[OF assms(3)]
  by (auto simp: BKE_rigidbody_calc_threshold_def Let_def)

text \<open>
  Claim C7, amended: the threshold is the single-precision value of the expression, and
  the order of two thresholds is stated where both are numbers. With mass-dependent
  thresholds enabled and a nonzero maximal constraint mass \<open>M\<close> of the object
  (\<^verbatim>\<open>BKE_rigidbody_calc_max_con_mass\<close>), \<^verbatim>\<open>BKE_rigidbody_calc_threshold\<close> writes to every
  constraint whose two shards have rigid bodies, of combined mass \<open>m\<close>, the threshold
  \<open>(m / M) * T\<close> computed in single precision, \<open>T\<close> the configured threshold; and for
  combined masses \<open>mA < mB \<le> M\<close> and \<open>T\<close> not negative, the threshold for \<open>mA\<close> is at
  most the threshold for \<open>mB\<close> when neither of the two is a NaN.
\<close>

theorem calc_threshold_mass_dependent:
  assumes use: "use_mass_dependent_thresholds rmd"
    and M: "M = BKE_rigidbody_calc_max_con_mass s ob" "\<not> f32_eq M (Fin 0)"
  shows "(\<forall>c m. con_mass_of s (shardcon_at s c) = Some m \<longrightarrow>
            BKE_rigidbody_calc_threshold M rmd c s =
              store_float (f32_mul (f32_div m M) (Fin (fmd_breaking_threshold rmd)))
                (\<lambda>x. s\<lparr>shardcon_at := (shardcon_at s)
                          (c := (shardcon_at s c)\<lparr>breaking_threshold := x\<rparr>)\<rparr>)) \<and>
         (\<forall>mA mB. f32_lt mA mB \<and> f32_le mB M \<and> 0 \<le> fmd_breaking_threshold rmd \<and>
            f32_mul (f32_div mA M) (Fin (fmd_breaking_threshold rmd)) \<noteq> NaN \<and>
            f32_mul (f32_div mB M) (Fin (fmd_breaking_threshold rmd)) \<noteq> NaN \<longrightarrow>
            f32_le (f32_mul (f32_div mA M) (Fin (fmd_breaking_threshold rmd)))
                   (f32_mul (f32_div mB M) (Fin (fmd_breaking_threshold rmd))))"
proof -
  have pos: "f32_lt (Fin 0) M"
    using M calc_max_con_mass_nonneg[of s ob] by (simp add: f32_nonzero_pos)
  have assign: "BKE_rigidbody_calc_threshold M rmd c s =
              store_float (f32_mul (f32_div m M) (Fin (fmd_breaking_threshold rmd)))
                (\<lambda>x. s\<lparr>shardcon_at := (shardcon_at s)
                          (c := (shardcon_at s c)\<lparr>breaking_threshold := x\<rparr>)\<rparr>)"
    if "con_mass_of s (shardcon_at s c) = Some m" for c m
    by (rule calc_threshold_assigns[OF use M(2) that])
  have mono: "f32_le (f32_mul (f32_div mA M) (Fin (fmd_breaking_threshold rmd)))
                   (f32_mul (f32_div mB M) (Fin (fmd_breaking_threshold rmd)))"
    if "f32_lt mA mB" and "0 \<le> fmd_breaking_threshold rmd"
      and "f32_mul (f32_div mA M) (Fin (fmd_breaking_threshold rmd)) \<noteq> NaN"
      and "f32_mul (f32_div mB M) (Fin (fmd_breaking_threshold rmd)) \<noteq> NaN" for mA mB
    by (rule threshold_mono[OF that(1) pos that(2,3,4)])
  from assign mono show ?thesis by blast
qed

lemmas ex_mass_defs = ex_mass_store_def ex_mass_object_def ex_mass_fmd_def ex_fmd_def
  ex_object_def ex_island_def ex_shardcon_def ex_rbo_def

lemma f32_of_real_of_int: "\<bar>n\<bar> < 2 ^ 24 \<Longrightarrow> f32_of_real (real_of_int n) = Fin (real_of_int n)"
  using f32_of_real_exact[of n 0] by simp

lemma f32_of_real_half: "f32_of_real (1 / 2) = Fin (1 / 2)"
  using f32_of_real_exact[of 1 "- 1"] by simp

lemma ex_max_con_mass: "BKE_rigidbody_calc_max_con_mass ex_mass_store ex_mass_object = Fin 4"
  using f32_of_real_of_int[of 2] f32_of_real_of_int[of 4]
  by (simp add: BKE_rigidbody_calc_max_con_mass_def con_mass_of_def ex_mass_defs)

text \<open>The theorem on the three shards of masses 1, 1 and 3: \<open>M = 4\<close>, the combined
  masses are 2 and 4, and the thresholds written are \<open>2 / 4 * 10 = 5\<close> and
  \<open>4 / 4 * 10 = 10\<close>.\<close>

theorem calc_threshold_mass_dependent_witness:
  "use_mass_dependent_thresholds ex_mass_fmd \<and>
   BKE_rigidbody_calc_max_con_mass ex_mass_store ex_mass_object = Fin 4 \<and>
   BKE_rigidbody_calc_threshold (Fin 4) ex_mass_fmd 20 ex_mass_store =
     Inr (ex_mass_store\<lparr>shardcon_at := (shardcon_at ex_mass_store)
            (20 := ex_shardcon\<lparr>breaking_threshold := 5\<rparr>)\<rparr>) \<and>
   BKE_rigidbody_calc_threshold (Fin 4) ex_mass_fmd 21 ex_mass_store =
     Inr (ex_mass_store\<lparr>shardcon_at := (shardcon_at ex_mass_store)
            (21 := ex_shardcon\<lparr>mi1 := Some 11, mi2 := Some 12, breaking_threshold := 10\<rparr>)\<rparr>) \<and>
   f32_le (f32_mul (f32_div (Fin 2) (Fin 4)) (Fin 10)) (f32_mul (f32_div (Fin 4) (Fin 4)) (Fin 10))"
proof -
  have use: "use_mass_dependent_thresholds ex_mass_fmd" by (simp add: ex_mass_defs)
  have M: "Fin 4 = BKE_rigidbody_calc_max_con_mass ex_mass_store ex_mass_object"
      "\<not> f32_eq (Fin 4) (Fin 0)"
    by (simp_all add: ex_max_con_mass)
  have mA: "con_mass_of ex_mass_store (shardcon_at ex_mass_store 20) = Some (Fin 2)"
    using f32_of_real_of_int[of 2] by (simp add: con_mass_of_def ex_mass_defs)
  have mB: "con_mass_of ex_mass_store (shardcon_at ex_mass_store 21) = Some (Fin 4)"
    using f32_of_real_of_int[of 4] by (simp add: con_mass_of_def ex_mass_defs)
  have thr: "fmd_breaking_threshold ex_mass_fmd = 10" by (simp add: ex_mass_defs)
  have tA: "f32_mul (f32_div (Fin 2) (Fin 4)) (Fin 10) = Fin 5"
    using f32_of_real_of_int[of 5] by (simp add: f32_of_real_half)
  have tB: "f32_mul (f32_div (Fin 4) (Fin 4)) (Fin 10) = Fin 10"
    using f32_of_real_of_int[of 1] f32_of_real_of_int[of 10] by simp
  have cB: "shardcon_at ex_mass_store 21 = ex_shardcon\<lparr>mi1 := Some 11, mi2 := Some 12\<rparr>"
    and cA: "shardcon_at ex_mass_store 20 = ex_shardcon"
    by (simp_all add: ex_mass_store_def)
  note main = calc_threshold_mass_dependent[OF use M]
  from main mA have "BKE_rigidbody_calc_threshold (Fin 4) ex_mass_fmd 20 ex_mass_store =
      store_float (f32_mul (f32_div (Fin 2) (Fin 4)) (Fin (fmd_breaking_threshold ex_mass_fmd)))
        (\<lambda>x. ex_mass_store\<lparr>shardcon_at := (shardcon_at ex_mass_store)
                  (20 := (shardcon_at ex_mass_store 20)\<lparr>breaking_threshold := x\<rparr>)\<rparr>)"
    by blast
  then have rA: "BKE_rigidbody_calc_threshold (Fin 4) ex_mass_fmd 20 ex_mass_store =
     Inr (ex_mass_store\<lparr>shardcon_at := (shardcon_at ex_mass_store)
            (20 := ex_shardcon\<lparr>breaking_threshold := 5\<rparr>)\<rparr>)"
    by (simp only: thr tA cA store_float_def f32.case)
  from main mB have "BKE_rigidbody_calc_threshold (Fin 4) ex_mass_fmd 21 ex_mass_store =
      store_float (f32_mul (f32_div (Fin 4) (Fin 4)) (Fin (fmd_breaking_threshold ex_mass_fmd)))
        (\<lambda>x. ex_mass_store\<lparr>shardcon_at := (shardcon_at ex_mass_store)
                  (21 := (shardcon_at ex_mass_store 21)\<lparr>breaking_threshold := x\<rparr>)\<rparr>)"
    by blast
  then have rB: "BKE_rigidbody_calc_threshold (Fin 4) ex_mass_fmd 21 ex_mass_store =
     Inr (ex_mass_store\<lparr>shardcon_at := (shardcon_at ex_mass_store)
            (21 := ex_shardcon\<lparr>mi1 := Some 11, mi2 := Some 12, breaking_threshold := 10\<rparr>)\<rparr>)"
    by (simp only: thr tB cB store_float_def f32.case)
  have le: "f32_le (f32_mul (f32_div (Fin 2) (Fin 4)) (Fin 10))
                   (f32_mul (f32_div (Fin 4) (Fin 4)) (Fin 10))"
    by (simp only: tA tB) simp
  from use M(1) rA rB le show ?thesis by simp
qed

text \<open>
  Claim C7 as stated fails where the sum of two masses is beyond the largest float: with
  shards of masses \<^verbatim>\<open>2^126\<close>, \<^verbatim>\<open>2^127\<close> and \<^verbatim>\<open>2^127\<close> the combined masses are
  \<^verbatim>\<open>3 * 2^126\<close> and \<open>+\<infinity>\<close>, the maximum is \<open>+\<infinity>\<close>, and with the configured threshold 10 the
  function writes the threshold 0 to the lighter constraint and a NaN to the heavier
  one: the threshold of the lighter is not at most that of the heavier.
\<close>

theorem calc_threshold_overflow_counterexample:
  "use_mass_dependent_thresholds ex_mass_fmd \<and>
   BKE_rigidbody_calc_max_con_mass ex_huge_store ex_mass_object = PInf \<and>
   \<not> f32_eq PInf (Fin 0) \<and>
   con_mass_of ex_huge_store (shardcon_at ex_huge_store 20) = Some (Fin (3 * 2 ^ 126)) \<and>
   con_mass_of ex_huge_store (shardcon_at ex_huge_store 21) = Some PInf \<and>
   f32_lt (Fin (3 * 2 ^ 126)) PInf \<and> f32_le PInf PInf \<and>
   (0::real) \<le> fmd_breaking_threshold ex_mass_fmd \<and>
   BKE_rigidbody_calc_threshold PInf ex_mass_fmd 20 ex_huge_store =
     Inr (ex_huge_store\<lparr>shardcon_at := (shardcon_at ex_huge_store)
            (20 := ex_shardcon\<lparr>breaking_threshold := 0\<rparr>)\<rparr>) \<and>
   BKE_rigidbody_calc_threshold PInf ex_mass_fmd 21 ex_huge_store = Inl NaN \<and>
   \<not> f32_le (Fin 0) NaN"
proof -
  have a: "f32_of_real (2 ^ 126 + 2 ^ 127) = Fin (3 * 2 ^ 126)"
    using f32_of_real_exact[of 3 126] by simp
  have "f32_round (2 ^ 128) = 2 ^ 128"
    using f32_round_exact[of 1 128] by simp
  then have b: "f32_of_real (2 ^ 127 + 2 ^ 127) = PInf"
    by (simp add: f32_of_real_def)
  have mA: "con_mass_of ex_huge_store (shardcon_at ex_huge_store 20) = Some (Fin (3 * 2 ^ 126))"
    using a by (simp add: con_mass_of_def ex_huge_store_def ex_mass_defs)
  have mB: "con_mass_of ex_huge_store (shardcon_at ex_huge_store 21) = Some PInf"
    using b by (simp add: con_mass_of_def ex_huge_store_def ex_mass_defs)
  have M: "BKE_rigidbody_calc_max_con_mass ex_huge_store ex_mass_object = PInf"
    using mA mB by (simp add: BKE_rigidbody_calc_max_con_mass_def ex_mass_object_def
        ex_mass_fmd_def)
  have rA: "BKE_rigidbody_calc_threshold PInf ex_mass_fmd 20 ex_huge_store =
     Inr (ex_huge_store\<lparr>shardcon_at := (shardcon_at ex_huge_store)
            (20 := ex_shardcon\<lparr>breaking_threshold := 0\<rparr>)\<rparr>)"
    using mA by (simp add: BKE_rigidbody_calc_threshold_def Let_def store_float_def
        f32_of_real_0 ex_huge_store_def ex_mass_defs)
  have rB: "BKE_rigidbody_calc_threshold PInf ex_mass_fmd 21 ex_huge_store = Inl NaN"
    using mB by (simp add: BKE_rigidbody_calc_threshold_def Let_def store_float_def
        ex_huge_store_def ex_mass_defs)
  have use: "use_mass_dependent_thresholds ex_mass_fmd \<and> (0::real) \<le> fmd_breaking_threshold ex_mass_fmd"
    by (simp add: ex_mass_defs)
  from use M mA mB rA rB show ?thesis by simp
qed

subsection \<open>Mass of a shard\<close>















subsection \<open>Breaking percentage\<close>

lemma break_all_Cons_Some:
  "break_all (Some c # cons) s = (s', calls) \<Longrightarrow>
     \<exists>calls'. break_all cons
        (s\<lparr>shardcon_at := (shardcon_at s)
              (c := (shardcon_at s c)\<lparr>con_flag :=
                 insert RBC_FLAG_NEEDS_VALIDATE (con_flag (shardcon_at s c) - {RBC_FLAG_ENABLED})\<rparr>)\<rparr>)
          = (s', calls') \<and>
        calls = (case physics_constraint (shardcon_at s c) of
                   None \<Rightarrow> []
                 | Some h \<Rightarrow> [Constraint (RB_constraint_set_enabled h False)]) @ calls'"
  by (auto simp: Let_def split: prod.splits)

lemma break_all_keeps:
  "break_all cons s = (s', calls) \<Longrightarrow>
     physics_constraint (shardcon_at s' c) = physics_constraint (shardcon_at s c) \<and>
     (RBC_FLAG_ENABLED \<notin> con_flag (shardcon_at s c) \<longrightarrow>
        RBC_FLAG_ENABLED \<notin> con_flag (shardcon_at s' c)) \<and>
     (RBC_FLAG_NEEDS_VALIDATE \<in> con_flag (shardcon_at s c) \<longrightarrow>
        RBC_FLAG_NEEDS_VALIDATE \<in> con_flag (shardcon_at s' c))"
proof (induction cons arbitrary: s calls)
  case Nil
  then show ?case by simp
next
  case (Cons con cons)
  show ?case
  proof (cases con)
    case None
    with Cons.prems have "break_all cons s = (s', calls)" by simp
    from Cons.IH[OF this] show ?thesis .
  next
    case (Some x)
    from break_all_Cons_Some[OF Cons.prems[unfolded Some]] obtain calls' where
      run: "break_all cons
        (s\<lparr>shardcon_at := (shardcon_at s)
              (x := (shardcon_at s x)\<lparr>con_flag :=
                 insert RBC_FLAG_NEEDS_VALIDATE (con_flag (shardcon_at s x) - {RBC_FLAG_ENABLED})\<rparr>)\<rparr>)
          = (s', calls')"
      by blast
    from Cons.IH[OF run] show ?thesis by (cases "c = x") auto
  qed
qed

lemma break_all_breaks:
  "break_all cons s = (s', calls) \<Longrightarrow> Some c \<in> set cons \<Longrightarrow>
     RBC_FLAG_ENABLED \<notin> con_flag (shardcon_at s' c) \<and>
     RBC_FLAG_NEEDS_VALIDATE \<in> con_flag (shardcon_at s' c) \<and>
     (\<forall>h. physics_constraint (shardcon_at s c) = Some h \<longrightarrow>
        Constraint (RB_constraint_set_enabled h False) \<in> set calls)"
proof (induction cons arbitrary: s calls)
  case Nil
  then show ?case by simp
next
  case (Cons con cons)
  show ?case
  proof (cases con)
    case None
    with Cons.prems have "break_all cons s = (s', calls)" "Some c \<in> set cons" by simp_all
    from Cons.IH[OF this] show ?thesis .
  next
    case (Some x)
    let ?s1 = "s\<lparr>shardcon_at := (shardcon_at s)
              (x := (shardcon_at s x)\<lparr>con_flag :=
                 insert RBC_FLAG_NEEDS_VALIDATE (con_flag (shardcon_at s x) - {RBC_FLAG_ENABLED})\<rparr>)\<rparr>"
    from break_all_Cons_Some[OF Cons.prems(1)[unfolded Some]] obtain calls' where
      run: "break_all cons ?s1 = (s', calls')" and
      calls: "calls = (case physics_constraint (shardcon_at s x) of
                   None \<Rightarrow> []
                 | Some h \<Rightarrow> [Constraint (RB_constraint_set_enabled h False)]) @ calls'"
      by blast
    show ?thesis
    proof (cases "c = x")
      case True
      have "RBC_FLAG_ENABLED \<notin> con_flag (shardcon_at ?s1 c) \<and>
            RBC_FLAG_NEEDS_VALIDATE \<in> con_flag (shardcon_at ?s1 c)"
        using True by simp
      with break_all_keeps[OF run, of c] calls True show ?thesis by auto
    next
      case False
      with Cons.prems(2) Some have "Some c \<in> set cons" by simp
      from Cons.IH[OF run this] False calls show ?thesis by auto
    qed
  qed
qed

lemma f32_of_int_exact: "\<bar>n\<bar> < 2 ^ 24 \<Longrightarrow> f32_of_int n = Fin (real_of_int n)"
  by (simp add: f32_of_int_def f32_of_real_of_int)

text \<open>
  Claim C6, amended: the percentage of broken constraints is the single-precision value
  of \<open>B / N * 100\<close>, each operation rounded. For a shard with rigid body settings of an
  active fracture modifier whose breaking percentage is positive (or weighted, with a
  positive weight of the shard), with \<open>N > 0\<close> participating constraints of which \<open>B\<close>
  have an engine constraint that is not enabled, and with \<open>p\<close> the configured percentage
  (times the weight of the shard, when weighted) as the program converts it to \<^verbatim>\<open>float\<close>
  and from there to \<^verbatim>\<open>int\<close>: if
  the single-precision value of \<open>B / N * 100\<close> is at least \<open>p\<close>, the block returns and
  has disabled every participating constraint in that pass: the enabled flag is
  cleared, needs-validate is set, and an engine constraint is disabled.
\<close>

theorem breaking_percentage_breaks_all:
  assumes active: "isModifierActive (Some rmd)"
    and body: "rigidbody mi \<noteq> None"
    and gate: "breaking_percentage rmd > 0 \<or>
                 (breaking_percentage_weighted rmd \<and> thresh_weight mi > 0)"
    and N: "N = length (participating_constraints mi)" "N > 0"
    and B: "B = count_broken is_enabled s (participating_constraints mi)"
    and p: "int_of_f32
              (if breaking_percentage_weighted rmd
               then f32_mul (f32_of_int (breaking_percentage rmd)) (Fin (thresh_weight mi))
               else f32_of_int (breaking_percentage rmd)) = Some p"
    and pct: "f32_le (f32_of_int p)
                (f32_mul (f32_div (f32_of_int (int B)) (f32_of_int (int N))) (Fin 100))"
  shows "\<exists>s' calls.
           shard_breaking_percentage is_enabled (Some rmd) mi s = Some (s', calls) \<and>
           (\<forall>c. Some c \<in> set (participating_constraints mi) \<longrightarrow>
              RBC_FLAG_ENABLED \<notin> con_flag (shardcon_at s' c) \<and>
              RBC_FLAG_NEEDS_VALIDATE \<in> con_flag (shardcon_at s' c) \<and>
              (\<forall>h. physics_constraint (shardcon_at s c) = Some h \<longrightarrow>
                 Constraint (RB_constraint_set_enabled h False) \<in> set calls))"
proof -
  obtain s' calls where ba: "break_all (participating_constraints mi) s = (s', calls)"
    by (cases "break_all (participating_constraints mi) s")
  have run: "shard_breaking_percentage is_enabled (Some rmd) mi s = Some (s', calls)"
    using active body gate N B p pct ba
    by (auto simp: shard_breaking_percentage_def Let_def)
  have "RBC_FLAG_ENABLED \<notin> con_flag (shardcon_at s' c) \<and>
        RBC_FLAG_NEEDS_VALIDATE \<in> con_flag (shardcon_at s' c) \<and>
        (\<forall>h. physics_constraint (shardcon_at s c) = Some h \<longrightarrow>
           Constraint (RB_constraint_set_enabled h False) \<in> set calls)"
    if "Some c \<in> set (participating_constraints mi)" for c
    by (rule break_all_breaks[OF ba that])
  with run show ?thesis by blast
qed

lemmas ex_break_defs = ex_break_store_def ex_break_shard_def ex_store_def ex_fmd_def
  ex_island_def ex_shardcon_def

text \<open>The theorem on the shard with two constraints, one of them broken, and a
  percentage of 50: both constraints are disabled, and the engine constraints 7 and 8
  with them.\<close>

theorem breaking_percentage_breaks_all_witness:
  "shard_breaking_percentage (\<lambda>h. h = 8) (Some ex_fmd) ex_break_shard ex_break_store =
     Some (ex_break_store\<lparr>shardcon_at := (shardcon_at ex_break_store)
        (20 := ex_shardcon\<lparr>con_flag := {RBC_FLAG_NEEDS_VALIDATE, RBC_FLAG_USE_BREAKING}\<rparr>,
         21 := ex_shardcon\<lparr>physics_constraint := Some 8,
                 con_flag := {RBC_FLAG_NEEDS_VALIDATE, RBC_FLAG_USE_BREAKING}\<rparr>)\<rparr>,
      [Constraint (RB_constraint_set_enabled 7 False),
       Constraint (RB_constraint_set_enabled 8 False)]) \<and>
   Constraint (RB_constraint_set_enabled 8 False)
     \<in> set [Constraint (RB_constraint_set_enabled 7 False),
            Constraint (RB_constraint_set_enabled 8 False)]"
proof -
  have count: "count_broken (\<lambda>h. h = 8) ex_break_store (participating_constraints ex_break_shard) = 1"
    by (simp add: ex_break_defs)
  have len: "length (participating_constraints ex_break_shard) = 2"
    by (simp add: ex_break_defs)
  have pc: "physics_constraint (shardcon_at ex_break_store 21) = Some 8"
    by (simp add: ex_break_defs)
  have act: "isModifierActive (Some ex_fmd)" "rigidbody ex_break_shard \<noteq> None"
      "breaking_percentage ex_fmd > 0 \<or>
         (breaking_percentage_weighted ex_fmd \<and> thresh_weight ex_break_shard > 0)"
    by (simp_all add: isModifierActive_def ex_break_defs)
  have p: "int_of_f32
             (if breaking_percentage_weighted ex_fmd
              then f32_mul (f32_of_int (breaking_percentage ex_fmd))
                     (Fin (thresh_weight ex_break_shard))
              else f32_of_int (breaking_percentage ex_fmd)) = Some 50"
    by (simp add: ex_break_defs f32_of_int_exact int_of_f32_def trunc_int_def)
  have pct: "f32_le (f32_of_int 50)
                (f32_mul (f32_div (f32_of_int (int 1)) (f32_of_int (int 2))) (Fin 100))"
    using f32_of_real_of_int[of 50] by (simp add: f32_of_int_exact f32_of_real_half)
  have ba: "break_all (participating_constraints ex_break_shard) ex_break_store =
     (ex_break_store\<lparr>shardcon_at := (shardcon_at ex_break_store)
        (20 := ex_shardcon\<lparr>con_flag := {RBC_FLAG_NEEDS_VALIDATE, RBC_FLAG_USE_BREAKING}\<rparr>,
         21 := ex_shardcon\<lparr>physics_constraint := Some 8,
                 con_flag := {RBC_FLAG_NEEDS_VALIDATE, RBC_FLAG_USE_BREAKING}\<rparr>)\<rparr>,
      [Constraint (RB_constraint_set_enabled 7 False),
       Constraint (RB_constraint_set_enabled 8 False)])"
    by (simp add: Let_def ex_break_defs insert_commute)
  from breaking_percentage_breaks_all[OF act len[symmetric] _ count[symmetric] p pct]
  obtain s' calls where
    run: "shard_breaking_percentage (\<lambda>h. h = 8) (Some ex_fmd) ex_break_shard ex_break_store
            = Some (s', calls)"
    and all: "\<forall>c. Some c \<in> set (participating_constraints ex_break_shard) \<longrightarrow>
              RBC_FLAG_ENABLED \<notin> con_flag (shardcon_at s' c) \<and>
              RBC_FLAG_NEEDS_VALIDATE \<in> con_flag (shardcon_at s' c) \<and>
              (\<forall>h. physics_constraint (shardcon_at ex_break_store c) = Some h \<longrightarrow>
                 Constraint (RB_constraint_set_enabled h False) \<in> set calls)"
    by auto
  have "shard_breaking_percentage (\<lambda>h. h = 8) (Some ex_fmd) ex_break_shard ex_break_store =
          Some (break_all (participating_constraints ex_break_shard) ex_break_store)"
    using act p pct count len
    by (auto simp: shard_breaking_percentage_def Let_def)
  with ba run show ?thesis by auto
qed

lemma f32_53_percent: "f32_of_real (53 / 100) = Fin (8891924 / 16777216)"
proof -
  have "f32_round (53 / 100) = f32_round_at (- 1) (53 / 100)"
    by (rule f32_round_eval) simp_all
  also have "\<dots> = 8891924 / 16777216"
    by (simp add: f32_round_at_def round_even_def Let_def)
  finally show ?thesis by (simp add: f32_of_real_def)
qed

lemma f32_53_percent_100: "f32_of_real (8891924 / 16777216 * 100) = Fin (13893631 / 262144)"
proof -
  have "f32_round (8891924 / 16777216 * 100) = f32_round_at 5 (8891924 / 16777216 * 100)"
    by (rule f32_round_eval) simp_all
  also have "\<dots> = 13893631 / 262144"
    by (simp add: f32_round_at_def round_even_def Let_def)
  finally show ?thesis by (simp add: f32_of_real_def)
qed

lemma count_broken_append:
  "count_broken is_enabled s (xs @ ys) =
     count_broken is_enabled s xs + count_broken is_enabled s ys"
  by (induction xs) simp_all

lemma count_broken_upt:
  assumes "\<And>c. physics_constraint (shardcon_at s c) = Some c"
  shows "count_broken (\<lambda>h. k \<le> h) s (map Some [0..<n]) = min n k"
  by (induction n) (auto simp: count_broken_append assms)

lemmas ex_percent_defs = ex_percent_fmd_def ex_percent_store_def ex_percent_shard_def
  ex_store_def ex_fmd_def ex_island_def ex_shardcon_def

text \<open>
  Claim C6 as stated fails: with 53 of 100 participating constraints broken and the
  breaking percentage 53, \<open>B / N * 100\<close> is 53, but the program computes
  \<^verbatim>\<open>(float)53 / (float)100 * 100\<close> as \<open>13893631 / 262144\<close>, just below 53, and disables
  nothing.
\<close>

theorem breaking_percentage_rounding_counterexample:
  "isModifierActive (Some ex_percent_fmd) \<and> rigidbody ex_percent_shard \<noteq> None \<and>
   breaking_percentage ex_percent_fmd = 53 \<and> \<not> breaking_percentage_weighted ex_percent_fmd \<and>
   length (participating_constraints ex_percent_shard) = 100 \<and>
   count_broken (\<lambda>h. 53 \<le> h) ex_percent_store (participating_constraints ex_percent_shard) = 53 \<and>
   real 53 / real 100 * 100 \<ge> real_of_int 53 \<and>
   f32_mul (f32_div (f32_of_int (int 53)) (f32_of_int (int 100))) (Fin 100)
     = Fin (13893631 / 262144) \<and>
   shard_breaking_percentage (\<lambda>h. 53 \<le> h) (Some ex_percent_fmd) ex_percent_shard ex_percent_store
     = Some (ex_percent_store, []) \<and>
   Some 0 \<in> set (participating_constraints ex_percent_shard) \<and>
   RBC_FLAG_ENABLED \<in> con_flag (shardcon_at ex_percent_store 0)"
proof -
  have "count_broken (\<lambda>h. 53 \<le> h) ex_percent_store (map Some [0..<100]) = min 100 53"
    by (rule count_broken_upt) (simp add: ex_percent_store_def)
  then have count: "count_broken (\<lambda>h. 53 \<le> h) ex_percent_store
                 (participating_constraints ex_percent_shard) = 53"
    by (simp add: ex_percent_shard_def)
  have len: "length (participating_constraints ex_percent_shard) = 100"
    by (simp add: ex_percent_defs)
  have val: "f32_mul (f32_div (f32_of_int (int 53)) (f32_of_int (int 100))) (Fin 100)
               = Fin (13893631 / 262144)"
    using f32_53_percent f32_53_percent_100 by (simp add: f32_of_int_exact)
  have run: "shard_breaking_percentage (\<lambda>h. 53 \<le> h) (Some ex_percent_fmd) ex_percent_shard
               ex_percent_store = Some (ex_percent_store, [])"
    using val
    by (simp add: shard_breaking_percentage_def Let_def isModifierActive_def count len
          f32_of_int_exact int_of_f32_def trunc_int_def ex_percent_fmd_def ex_fmd_def)
  have rest: "isModifierActive (Some ex_percent_fmd) \<and> rigidbody ex_percent_shard \<noteq> None \<and>
      breaking_percentage ex_percent_fmd = 53 \<and> \<not> breaking_percentage_weighted ex_percent_fmd \<and>
      Some 0 \<in> set (participating_constraints ex_percent_shard) \<and>
      RBC_FLAG_ENABLED \<in> con_flag (shardcon_at ex_percent_store 0)"
    by (simp add: isModifierActive_def ex_percent_defs)
  from count len val run rest show ?thesis by simp
qed

subsection \<open>One engine step per frame\<close>

lemma keeps_time_update_simulation:
  assumes "keeps_time env" and "update_simulation env b (rbw, s) = (rbw2, s2)"
  shows "ltime rbw2 = ltime rbw"
    and "PTCACHE_BAKED \<in> pc_flag (pointcache rbw2) \<longleftrightarrow> PTCACHE_BAKED \<in> pc_flag (pointcache rbw)"
proof -
  from assms(1) have k: "ltime (fst (update_simulation env b (rbw, s))) = ltime rbw \<and>
        (PTCACHE_BAKED \<in> pc_flag (pointcache (fst (update_simulation env b (rbw, s))))
           \<longleftrightarrow> PTCACHE_BAKED \<in> pc_flag (pointcache rbw))"
    unfolding keeps_time_def by blast
  from k assms(2) show "ltime rbw2 = ltime rbw" by simp
  from k assms(2) show "PTCACHE_BAKED \<in> pc_flag (pointcache rbw2)
      \<longleftrightarrow> PTCACHE_BAKED \<in> pc_flag (pointcache rbw)" by simp
qed

lemma keeps_time_update_ob_array:
  assumes "keeps_time env"
  shows "ltime (update_ob_array env rbw) = ltime rbw"
    and "PTCACHE_BAKED \<in> pc_flag (pointcache (update_ob_array env rbw))
           \<longleftrightarrow> PTCACHE_BAKED \<in> pc_flag (pointcache rbw)"
  using assms unfolding keeps_time_def by blast+

lemma advance_simulation_step_count:
  assumes run: "advance_simulation env ctime (rbw, s) = Some (rbw', s', evs)"
  shows "length (filter is_step evs) =
           (if f32_eq (Fin ctime) (f32_add (Fin (ltime rbw)) (Fin 1)) \<and>
               PTCACHE_BAKED \<notin> pc_flag (pointcache rbw) then 1 else 0)"
  using run
  by (auto simp: advance_simulation_def Let_def is_step_def
      split: if_splits option.splits prod.splits)

lemma do_simulation_step_count:
  assumes keeps: "keeps_time env"
    and run: "BKE_rigidbody_do_simulation env ctime0 (rbw, s) = Some (rbw', s', evs)"
  shows "length (filter is_step evs) = (if engine_steps env ctime0 rbw s then 1 else 0)"
proof (cases "ctime0 \<le> frame_float (id_startframe env)")
  case True
  with run show ?thesis
    by (auto simp: BKE_rigidbody_do_simulation_def Let_def is_step_def engine_steps_def
        split: if_splits prod.splits)
next
  case after: False
  define ctime where "ctime = clamp_ctime env ctime0"
  show ?thesis
  proof (cases "physics_world rbw = None \<and> PTCACHE_BAKED \<notin> pc_flag (pointcache rbw)")
    case True
    with run after show ?thesis
      by (auto simp: BKE_rigidbody_do_simulation_def Let_def engine_steps_def)
  next
    case world: False
    define rbw1 where "rbw1 = (if objects rbw = None \<or> \<not> cache_index_map_set rbw
                               then update_ob_array env rbw else rbw)"
    define ev1 where "ev1 = (if objects rbw = None \<or> \<not> cache_index_map_set rbw
                             then [Ev_update_ob_array] else [])"
    have l1: "ltime rbw1 = ltime rbw"
      and b1: "PTCACHE_BAKED \<in> pc_flag (pointcache rbw1) \<longleftrightarrow>
               PTCACHE_BAKED \<in> pc_flag (pointcache rbw)"
      using keeps_time_update_ob_array[OF keeps, of rbw] by (simp_all add: rbw1_def)
    have ev1: "filter is_step ev1 = []" by (simp add: ev1_def is_step_def)
    show ?thesis
    proof (cases "ptcache_read env ctime s")
      case (Some s_read)
      with run after world have "filter is_step evs = []"
        by (auto simp: BKE_rigidbody_do_simulation_def Let_def is_step_def ctime_def
            split: if_splits option.splits)
      with Some show ?thesis by (simp add: engine_steps_def ctime_def)
    next
      case None
      define pre where "pre = (if ltime rbw1 = frame_float (id_startframe env) then
                                  (case restoreKinematic (Some rbw1) s of
                                     None \<Rightarrow> None
                                   | Some s1 \<Rightarrow>
                                       Some (update_simulation env True (rbw1, s1),
                                             [Ev_restoreKinematic, Ev_update_simulation True]))
                                else Some ((rbw1, s), []))"
      have shape: "BKE_rigidbody_do_simulation env ctime0 (rbw, s) =
          (case pre of
             None \<Rightarrow> None
           | Some (st2, ev2) \<Rightarrow>
               (case advance_simulation env ctime st2 of
                  None \<Rightarrow> None
                | Some (rbw3, s3, ev3) \<Rightarrow> Some (rbw3, s3, ev1 @ ev2 @ ev3)))"
        unfolding BKE_rigidbody_do_simulation_def Let_def pre_def rbw1_def ev1_def ctime_def
        using after world None[unfolded ctime_def]
        by (auto split: option.splits prod.splits)
      from run[unfolded shape] obtain rbw2 s2 ev2 ev3 where
        pre: "pre = Some ((rbw2, s2), ev2)" and
        adv: "advance_simulation env ctime (rbw2, s2) = Some (rbw', s', ev3)" and
        evs: "evs = ev1 @ ev2 @ ev3"
        by (auto split: option.splits prod.splits)
      have ev2: "filter is_step ev2 = []"
        using pre by (auto simp: pre_def is_step_def split: if_splits option.splits)
      have l2: "ltime rbw2 = ltime rbw1 \<and>
                (PTCACHE_BAKED \<in> pc_flag (pointcache rbw2) \<longleftrightarrow>
                 PTCACHE_BAKED \<in> pc_flag (pointcache rbw1))"
        using pre keeps_time_update_simulation[OF keeps]
        by (auto simp: pre_def split: if_splits option.splits)
      from advance_simulation_step_count[OF adv] ev1 ev2 evs l1 b1 l2 after world None
      show ?thesis
        by (auto simp: engine_steps_def ctime_def)
    qed
  qed
qed

lemma do_simulation_cache_read:
  assumes run: "BKE_rigidbody_do_simulation env ctime0 (rbw, s) = Some (rbw', s', evs)"
    and after: "ctime0 > frame_float (id_startframe env)"
    and world: "physics_world rbw \<noteq> None \<or> PTCACHE_BAKED \<in> pc_flag (pointcache rbw)"
    and read: "ptcache_read env (clamp_ctime env ctime0) s = Some s_read"
  shows "ltime rbw' = clamp_ctime env ctime0 \<and> s' = s_read"
  using assms
  by (auto simp: BKE_rigidbody_do_simulation_def Let_def
      split: if_splits option.splits prod.splits)

lemma f32_of_real_of_int_le:
  assumes "\<bar>n\<bar> \<le> 2 ^ 24"
  shows "f32_of_real (real_of_int n) = Fin (real_of_int n)"
proof -
  consider "\<bar>n\<bar> < 2 ^ 24" | "n = 2 ^ 24" | "n = - (2 ^ 24)"
    using assms by linarith
  then show ?thesis
  proof cases
    case 1
    then show ?thesis by (rule f32_of_real_of_int)
  next
    case 2
    then show ?thesis using f32_of_real_exact[of 1 24] by simp
  next
    case 3
    then show ?thesis using f32_of_real_exact[of "- 1" 24] by simp
  qed
qed

lemma whole_frame_successor:
  assumes "t \<in> \<int>" and "\<bar>t\<bar> < 2 ^ 24"
  shows "f32_add (Fin t) (Fin 1) = Fin (t + 1)"
proof -
  from assms(1) obtain n where t: "t = real_of_int n" by (auto elim: Ints_cases)
  with assms(2) have "\<bar>n + 1\<bar> \<le> 2 ^ 24" by simp
  from f32_of_real_of_int_le[OF this] t show ?thesis by simp
qed

text \<open>Beyond \<^verbatim>\<open>2^24\<close> the \<^verbatim>\<open>float\<close> sum is not the sum: \<^verbatim>\<open>2^24 + 1\<close> is halfway between two
  floats and rounds to \<^verbatim>\<open>2^24\<close>, so that a world at the time \<^verbatim>\<open>2^24\<close> passes the step test
  for the same time.\<close>

lemma float_successor_absorbed: "f32_add (Fin (2 ^ 24)) (Fin 1) = Fin (2 ^ 24)"
proof -
  have "f32_round (2 ^ 24 + 1) = f32_round_at 24 (2 ^ 24 + 1)"
    by (rule f32_round_eval) simp_all
  also have "\<dots> = 2 ^ 24"
    by (simp add: f32_round_at_def round_even_def Let_def)
  finally show ?thesis by (simp add: f32_of_real_def)
qed

text \<open>
  Claim C1, amended: the time that decides is \<^verbatim>\<open>ctime\<close> after the function has clamped it
  to the end frame of the cache, and the step test is the \<^verbatim>\<open>float\<close> comparison
  \<^verbatim>\<open>ctime == rbw->ltime + 1\<close>, which is the comparison with \<open>ltime + 1\<close> when \<open>ltime\<close> is
  a whole frame below \<^verbatim>\<open>2^24\<close>. For every call of
  \<^verbatim>\<open>BKE_rigidbody_do_simulation(scene, ctime)\<close> that returns, where
  \<^verbatim>\<open>rigidbody_update_simulation\<close> and \<^verbatim>\<open>rigidbody_update_ob_array\<close> leave \<^verbatim>\<open>rbw->ltime\<close> and
  the baked flag of the cache as they are: the engine step
  \<^verbatim>\<open>RB_dworld_step_simulation\<close> is called at most once; it is called exactly when \<^verbatim>\<open>ctime\<close>
  is after the start frame, the engine world exists, the cache is not baked, the read of
  the cache at the clamped time fails and the clamped time equals the \<^verbatim>\<open>float\<close> sum
  \<^verbatim>\<open>ltime + 1\<close>; when the read of the cache at the clamped time succeeds, \<^verbatim>\<open>ltime\<close>
  becomes the clamped time and the engine is not stepped; and when \<open>ltime\<close> is a whole
  frame below \<^verbatim>\<open>2^24\<close> and the clamped time is not \<open>ltime + 1\<close> (so also when it is more
  than one frame after \<open>ltime\<close>), the engine is not stepped.
\<close>

theorem do_simulation_steps_once:
  assumes keeps: "keeps_time env"
    and run: "BKE_rigidbody_do_simulation env ctime0 (rbw, s) = Some (rbw', s', evs)"
  shows "length (filter is_step evs) \<le> 1 \<and>
         (filter is_step evs \<noteq> [] \<longleftrightarrow> engine_steps env ctime0 rbw s) \<and>
         (\<forall>s_read. ctime0 > frame_float (id_startframe env) \<and>
            (physics_world rbw \<noteq> None \<or> PTCACHE_BAKED \<in> pc_flag (pointcache rbw)) \<and>
            ptcache_read env (clamp_ctime env ctime0) s = Some s_read \<longrightarrow>
            ltime rbw' = clamp_ctime env ctime0 \<and> s' = s_read \<and> filter is_step evs = []) \<and>
         (ltime rbw \<in> \<int> \<and> \<bar>ltime rbw\<bar> < 2 ^ 24 \<and> clamp_ctime env ctime0 \<noteq> ltime rbw + 1 \<longrightarrow>
            filter is_step evs = [])"
proof -
  note cnt = do_simulation_step_count[OF keeps run]
  have once: "length (filter is_step evs) \<le> 1"
    using cnt by (simp split: if_splits)
  have iff: "filter is_step evs \<noteq> [] \<longleftrightarrow> engine_steps env ctime0 rbw s"
    using cnt by (auto split: if_splits)
  have cached: "ltime rbw' = clamp_ctime env ctime0 \<and> s' = s_read \<and> filter is_step evs = []"
    if "ctime0 > frame_float (id_startframe env)"
      and "physics_world rbw \<noteq> None \<or> PTCACHE_BAKED \<in> pc_flag (pointcache rbw)"
      and "ptcache_read env (clamp_ctime env ctime0) s = Some s_read" for s_read
  proof -
    from that(3) have "\<not> engine_steps env ctime0 rbw s"
      by (simp add: engine_steps_def)
    with iff have "filter is_step evs = []" by simp
    with do_simulation_cache_read[OF run that] show ?thesis by simp
  qed
  have jump: "filter is_step evs = []"
    if "ltime rbw \<in> \<int>" and "\<bar>ltime rbw\<bar> < 2 ^ 24" and "clamp_ctime env ctime0 \<noteq> ltime rbw + 1"
  proof -
    from that(3) have "\<not> engine_steps env ctime0 rbw s"
      unfolding engine_steps_def whole_frame_successor[OF that(1,2)] by simp
    with iff show ?thesis by simp
  qed
  from once iff cached jump show ?thesis by blast
qed

lemma f32_round_of_int: "\<bar>n\<bar> < 2 ^ 24 \<Longrightarrow> f32_round (real_of_int n) = real_of_int n"
  using f32_round_exact[of n 0] by simp

lemma frame_float_1: "frame_float 1 = 1"
  using f32_round_of_int[of 1] by (simp add: frame_float_def)

lemma frame_float_10: "frame_float 10 = 10"
  using f32_round_of_int[of 10] by (simp add: frame_float_def)

lemma f32_24th: "f32_of_real (1 / 24) = Fin (11184811 / 268435456)"
proof -
  have "f32_round (1 / 24) = f32_round_at (- 5) (1 / 24)"
    by (rule f32_round_eval) simp_all
  also have "\<dots> = 11184811 / 268435456"
    by (simp add: f32_round_at_def round_even_def Let_def)
  finally show ?thesis by (simp add: f32_of_real_def)
qed

lemma f32_24th_exact: "f32_of_real (11184811 / 268435456) = Fin (11184811 / 268435456)"
  using f32_of_real_exact[of 11184811 "- 28"] by simp

lemma f32_60th: "f32_of_real (1 / 60) = Fin (8947849 / 536870912)"
proof -
  have "f32_round (1 / 60) = f32_round_at (- 6) (1 / 60)"
    by (rule f32_round_eval) simp_all
  also have "\<dots> = 8947849 / 536870912"
    by (simp add: f32_round_at_def round_even_def Let_def)
  finally show ?thesis by (simp add: f32_of_real_def)
qed

lemma f32_60th_exact: "f32_of_real (8947849 / 536870912) = Fin (8947849 / 536870912)"
  using f32_of_real_exact[of 8947849 "- 29"] by simp

lemmas sim_ex_defs = ex_env_def ex_sim_world_def ex_world_def clamp_ctime_def
  frame_float_1 frame_float_10

lemma ex_advance:
  "advance_simulation ex_env 10 (ex_sim_world, ex_store) =
     Some (ex_sim_world\<lparr>ltime := 10\<rparr>, ex_store,
           [Ev_update_simulation False,
            Ev_step_simulation (Some 100) (Fin (11184811 / 268435456))
              (Fin (8947849 / 536870912)),
            Ev_update_simulation_post_step,
            Ev_ptcache_validate 10,
            Ev_ptcache_write 10])"
  using f32_of_real_of_int[of 10] f32_of_real_of_int[of 24] f32_of_real_of_int[of 60]
    f32_of_real_of_int[of 1]
  by (simp add: advance_simulation_def Let_def sim_ex_defs f32_of_int_def int_of_f32_def
      uint_of_f32_def trunc_int_def f32_24th f32_24th_exact f32_60th f32_60th_exact)

text \<open>The theorem on the world simulated up to frame 9, asked for frame 10: the engine is
  stepped once, by the \<^verbatim>\<open>float\<close> of 1/24 of a second in substeps of the \<^verbatim>\<open>float\<close> of 1/60,
  and \<^verbatim>\<open>ltime\<close> becomes 10.\<close>

theorem do_simulation_steps_once_witness:
  "keeps_time ex_env \<and>
   BKE_rigidbody_do_simulation ex_env 10 (ex_sim_world, ex_store) =
     Some (ex_sim_world\<lparr>ltime := 10\<rparr>, ex_store,
           [Ev_update_simulation False,
            Ev_step_simulation (Some 100) (Fin (11184811 / 268435456))
              (Fin (8947849 / 536870912)),
            Ev_update_simulation_post_step,
            Ev_ptcache_validate 10,
            Ev_ptcache_write 10]) \<and>
   engine_steps ex_env 10 ex_sim_world ex_store \<and>
   length (filter is_step [Ev_update_simulation False,
            Ev_step_simulation (Some 100) (Fin (11184811 / 268435456))
              (Fin (8947849 / 536870912)),
            Ev_update_simulation_post_step,
            Ev_ptcache_validate 10,
            Ev_ptcache_write 10]) \<le> 1"
proof -
  have keeps: "keeps_time ex_env"
    by (simp add: keeps_time_def ex_env_def)
  have run: "BKE_rigidbody_do_simulation ex_env 10 (ex_sim_world, ex_store) =
     Some (ex_sim_world\<lparr>ltime := 10\<rparr>, ex_store,
           [Ev_update_simulation False,
            Ev_step_simulation (Some 100) (Fin (11184811 / 268435456))
              (Fin (8947849 / 536870912)),
            Ev_update_simulation_post_step,
            Ev_ptcache_validate 10,
            Ev_ptcache_write 10])"
    using ex_advance
    by (simp add: BKE_rigidbody_do_simulation_def Let_def sim_ex_defs)
  from do_simulation_steps_once[OF keeps run] keeps run
  show ?thesis by (simp add: is_step_def)
qed

text \<open>
  Claim C1 as stated fails: the same world, simulated up to frame 9 of a cache that ends
  at frame 10, is asked for frame 50. The request is 41 frames past \<^verbatim>\<open>ltime\<close> and is not
  \<^verbatim>\<open>ltime + 1\<close>; the function clamps it to the end frame 10 and steps the engine.
\<close>

theorem do_simulation_clamped_counterexample:
  "BKE_rigidbody_do_simulation ex_env 50 (ex_sim_world, ex_store) =
     Some (ex_sim_world\<lparr>ltime := 10\<rparr>, ex_store,
           [Ev_update_simulation False,
            Ev_step_simulation (Some 100) (Fin (11184811 / 268435456))
              (Fin (8947849 / 536870912)),
            Ev_update_simulation_post_step,
            Ev_ptcache_validate 10,
            Ev_ptcache_write 10]) \<and>
   (50::real) \<noteq> ltime ex_sim_world + 1 \<and>
   (50::real) > ltime ex_sim_world + 1 + 1"
  using ex_advance
  by (simp add: BKE_rigidbody_do_simulation_def Let_def sim_ex_defs)

text \<open>The step test at a time that absorbs the successor: a world simulated up to the
  time \<^verbatim>\<open>2^24\<close> and asked for the same time, on a cache that ends later, steps the engine,
  by a time step of 0.\<close>

lemma do_simulation_absorbed_step:
  "BKE_rigidbody_do_simulation (ex_env\<lparr>id_endframe := 2 ^ 25\<rparr>) (2 ^ 24)
       (ex_world\<lparr>ltime := 2 ^ 24\<rparr>, ex_store) =
     Some (ex_world\<lparr>ltime := 2 ^ 24\<rparr>, ex_store,
           [Ev_update_simulation False,
            Ev_step_simulation (Some 100) (Fin 0) (Fin (8947849 / 536870912)),
            Ev_update_simulation_post_step,
            Ev_ptcache_validate (2 ^ 24),
            Ev_ptcache_write (2 ^ 24)])"
proof -
  have end_frame: "frame_float 33554432 = 33554432"
    using f32_round_exact[of 1 25] by (simp add: frame_float_def)
  have adv: "advance_simulation (ex_env\<lparr>id_endframe := 2 ^ 25\<rparr>) (2 ^ 24)
       (ex_world\<lparr>ltime := 2 ^ 24\<rparr>, ex_store) =
     Some (ex_world\<lparr>ltime := 2 ^ 24\<rparr>, ex_store,
           [Ev_update_simulation False,
            Ev_step_simulation (Some 100) (Fin 0) (Fin (8947849 / 536870912)),
            Ev_update_simulation_post_step,
            Ev_ptcache_validate (2 ^ 24),
            Ev_ptcache_write (2 ^ 24)])"
    using f32_of_real_of_int[of 24] f32_of_real_of_int[of 60] f32_of_real_of_int[of 1]
      float_successor_absorbed
    by (simp add: advance_simulation_def Let_def ex_env_def ex_world_def frame_float_1
        f32_of_int_def int_of_f32_def uint_of_f32_def trunc_int_def f32_of_real_0
        f32_24th f32_60th f32_60th_exact del: f32_add.simps)
  show ?thesis
    using adv
    by (simp add: BKE_rigidbody_do_simulation_def Let_def ex_env_def ex_world_def
        clamp_ctime_def frame_float_1 end_frame)
qed

end
